theory Spec2Isabelle
  imports Main "HOL-Library.Char_ord"
begin

section \<open>Symbols of the generated grammar\<close>

text \<open>
  The anonymous \<^verbatim>\<open>enum\<close> at the top of \<^verbatim>\<open>parser.c\<close>: terminals are the
  symbols below \<^verbatim>\<open>TOKEN_COUNT\<close>, the rest are non-terminals.
\<close>

abbreviation (input) ts_builtin_sym_end :: nat where "ts_builtin_sym_end \<equiv> 0"
abbreviation (input) anon_sym_addon :: nat where "anon_sym_addon \<equiv> 1"
abbreviation (input) anon_sym_signer :: nat where "anon_sym_signer \<equiv> 2"
abbreviation (input) anon_sym_action :: nat where "anon_sym_action \<equiv> 3"
abbreviation (input) anon_sym_output :: nat where "anon_sym_output \<equiv> 4"
abbreviation (input) anon_sym_variable :: nat where "anon_sym_variable \<equiv> 5"
abbreviation (input) anon_sym_input :: nat where "anon_sym_input \<equiv> 6"
abbreviation (input) anon_sym_EQ :: nat where "anon_sym_EQ \<equiv> 7"
abbreviation (input) anon_sym_import :: nat where "anon_sym_import \<equiv> 8"
abbreviation (input) anon_sym_LBRACE :: nat where "anon_sym_LBRACE \<equiv> 9"
abbreviation (input) anon_sym_RBRACE :: nat where "anon_sym_RBRACE \<equiv> 10"
abbreviation (input) anon_sym_DQUOTE :: nat where "anon_sym_DQUOTE \<equiv> 11"
abbreviation (input) aux_sym_string_token1 :: nat where "aux_sym_string_token1 \<equiv> 12"
abbreviation (input) anon_sym_SQUOTE :: nat where "anon_sym_SQUOTE \<equiv> 13"
abbreviation (input) aux_sym_string_token2 :: nat where "aux_sym_string_token2 \<equiv> 14"
abbreviation (input) anon_sym_DQUOTE_DQUOTE_DQUOTE :: nat where "anon_sym_DQUOTE_DQUOTE_DQUOTE \<equiv> 15"
abbreviation (input) aux_sym_string_token3 :: nat where "aux_sym_string_token3 \<equiv> 16"
abbreviation (input) aux_sym_number_token1 :: nat where "aux_sym_number_token1 \<equiv> 17"
abbreviation (input) aux_sym_number_token2 :: nat where "aux_sym_number_token2 \<equiv> 18"
abbreviation (input) aux_sym_number_token3 :: nat where "aux_sym_number_token3 \<equiv> 19"
abbreviation (input) anon_sym_true :: nat where "anon_sym_true \<equiv> 20"
abbreviation (input) anon_sym_false :: nat where "anon_sym_false \<equiv> 21"
abbreviation (input) sym_null :: nat where "sym_null \<equiv> 22"
abbreviation (input) anon_sym_LBRACK :: nat where "anon_sym_LBRACK \<equiv> 23"
abbreviation (input) anon_sym_COMMA :: nat where "anon_sym_COMMA \<equiv> 24"
abbreviation (input) anon_sym_RBRACK :: nat where "anon_sym_RBRACK \<equiv> 25"
abbreviation (input) anon_sym_COLON :: nat where "anon_sym_COLON \<equiv> 26"
abbreviation (input) anon_sym_DOT :: nat where "anon_sym_DOT \<equiv> 27"
abbreviation (input) anon_sym_LPAREN :: nat where "anon_sym_LPAREN \<equiv> 28"
abbreviation (input) anon_sym_RPAREN :: nat where "anon_sym_RPAREN \<equiv> 29"
abbreviation (input) anon_sym_STAR :: nat where "anon_sym_STAR \<equiv> 30"
abbreviation (input) anon_sym_SLASH :: nat where "anon_sym_SLASH \<equiv> 31"
abbreviation (input) anon_sym_PLUS :: nat where "anon_sym_PLUS \<equiv> 32"
abbreviation (input) anon_sym_DASH :: nat where "anon_sym_DASH \<equiv> 33"
abbreviation (input) sym_identifier :: nat where "sym_identifier \<equiv> 34"
abbreviation (input) anon_sym_POUND :: nat where "anon_sym_POUND \<equiv> 35"
abbreviation (input) aux_sym_comment_token1 :: nat where "aux_sym_comment_token1 \<equiv> 36"
abbreviation (input) anon_sym_SLASH_SLASH :: nat where "anon_sym_SLASH_SLASH \<equiv> 37"
abbreviation (input) anon_sym_SLASH_STAR :: nat where "anon_sym_SLASH_STAR \<equiv> 38"
abbreviation (input) aux_sym_comment_token2 :: nat where "aux_sym_comment_token2 \<equiv> 39"
abbreviation (input) sym_runbook :: nat where "sym_runbook \<equiv> 40"
abbreviation (input) sym__statement :: nat where "sym__statement \<equiv> 41"
abbreviation (input) sym_addon_block :: nat where "sym_addon_block \<equiv> 42"
abbreviation (input) sym_signer_block :: nat where "sym_signer_block \<equiv> 43"
abbreviation (input) sym_action_block :: nat where "sym_action_block \<equiv> 44"
abbreviation (input) sym_output_block :: nat where "sym_output_block \<equiv> 45"
abbreviation (input) sym_variable_declaration :: nat where "sym_variable_declaration \<equiv> 46"
abbreviation (input) sym_input_declaration :: nat where "sym_input_declaration \<equiv> 47"
abbreviation (input) sym_import_statement :: nat where "sym_import_statement \<equiv> 48"
abbreviation (input) sym_block :: nat where "sym_block \<equiv> 49"
abbreviation (input) sym_attribute :: nat where "sym_attribute \<equiv> 50"
abbreviation (input) sym__expression :: nat where "sym__expression \<equiv> 51"
abbreviation (input) sym_string :: nat where "sym_string \<equiv> 52"
abbreviation (input) sym_number :: nat where "sym_number \<equiv> 53"
abbreviation (input) sym_boolean :: nat where "sym_boolean \<equiv> 54"
abbreviation (input) sym_array :: nat where "sym_array \<equiv> 55"
abbreviation (input) sym_object :: nat where "sym_object \<equiv> 56"
abbreviation (input) sym_object_field :: nat where "sym_object_field \<equiv> 57"
abbreviation (input) sym_reference :: nat where "sym_reference \<equiv> 58"
abbreviation (input) sym_index_access :: nat where "sym_index_access \<equiv> 59"
abbreviation (input) sym_function_call :: nat where "sym_function_call \<equiv> 60"
abbreviation (input) sym_binary_expression :: nat where "sym_binary_expression \<equiv> 61"
abbreviation (input) sym_comment :: nat where "sym_comment \<equiv> 62"
abbreviation (input) aux_sym_runbook_repeat1 :: nat where "aux_sym_runbook_repeat1 \<equiv> 63"
abbreviation (input) aux_sym_block_repeat1 :: nat where "aux_sym_block_repeat1 \<equiv> 64"
abbreviation (input) aux_sym_array_repeat1 :: nat where "aux_sym_array_repeat1 \<equiv> 65"
abbreviation (input) aux_sym_object_repeat1 :: nat where "aux_sym_object_repeat1 \<equiv> 66"
abbreviation (input) aux_sym_reference_repeat1 :: nat where "aux_sym_reference_repeat1 \<equiv> 67"

abbreviation (input) TOKEN_COUNT :: nat where "TOKEN_COUNT \<equiv> 40"
abbreviation (input) STATE_COUNT :: nat where "STATE_COUNT \<equiv> 153"
abbreviation (input) LARGE_STATE_COUNT :: nat where "LARGE_STATE_COUNT \<equiv> 2"
abbreviation (input) SYMBOL_COUNT :: nat where "SYMBOL_COUNT \<equiv> 68"

section \<open>The lexer automaton\<close>

text \<open>
  One pass through the \<^verbatim>\<open>switch\<close> of \<^verbatim>\<open>ts_lex\<close>: the token the state accepts
  (\<^verbatim>\<open>ACCEPT_TOKEN\<close>), if any, and how the state leaves (\<^verbatim>\<open>ADVANCE\<close>,
  \<^verbatim>\<open>SKIP\<close>, \<^verbatim>\<open>END_STATE\<close>, or the \<^verbatim>\<open>default\<close> branch that returns false).
\<close>

datatype lex_move = ADVANCE nat | SKIP nat | END_STATE | RETURN_FALSE

named_theorems lex_states \<open>the cases of the switch in ts_lex, one per lexer state\<close>
named_theorems parse_rows \<open>the rows of the parse tables, one per parse state\<close>

definition ts_lex_state_0 :: "bool \<Rightarrow> char \<Rightarrow> nat option \<times> lex_move" where
  [lex_states]: "ts_lex_state_0 eof lookahead =
    (None,
     if eof then ADVANCE 47
     else if lookahead = CHR 0x22 then ADVANCE 66
     else if lookahead = CHR ''#'' then ADVANCE 141
     else if lookahead = CHR 0x27 then ADVANCE 70
     else if lookahead = CHR ''('' then ADVANCE 91
     else if lookahead = CHR '')'' then ADVANCE 92
     else if lookahead = CHR ''*'' then ADVANCE 93
     else if lookahead = CHR ''+'' then ADVANCE 95
     else if lookahead = CHR '','' then ADVANCE 87
     else if lookahead = CHR ''-'' then ADVANCE 96
     else if lookahead = CHR ''.'' then ADVANCE 90
     else if lookahead = CHR ''/'' then ADVANCE 94
     else if lookahead = CHR ''0'' then ADVANCE 81
     else if lookahead = CHR '':'' then ADVANCE 89
     else if lookahead = CHR ''='' then ADVANCE 60
     else if lookahead = CHR ''['' then ADVANCE 86
     else if lookahead = CHR '']'' then ADVANCE 88
     else if lookahead = CHR ''a'' then ADVANCE 101
     else if lookahead = CHR ''f'' then ADVANCE 97
     else if lookahead = CHR ''i'' then ADVANCE 115
     else if lookahead = CHR ''n'' then ADVANCE 137
     else if lookahead = CHR ''o'' then ADVANCE 136
     else if lookahead = CHR ''s'' then ADVANCE 108
     else if lookahead = CHR ''t'' then ADVANCE 126
     else if lookahead = CHR ''v'' then ADVANCE 99
     else if lookahead = CHR ''{'' then ADVANCE 63
     else if lookahead = CHR ''}'' then ADVANCE 64
     else if lookahead = CHR 0x09 \<or> lookahead = CHR 0x0A \<or> lookahead = CHR 0x0D \<or> lookahead = CHR '' '' then SKIP 0
     else if (CHR ''1'' \<le> lookahead \<and> lookahead \<le> CHR ''9'') then ADVANCE 82
     else if (CHR ''A'' \<le> lookahead \<and> lookahead \<le> CHR ''Z'') \<or> lookahead = CHR ''_'' \<or> (CHR ''b'' \<le> lookahead \<and> lookahead \<le> CHR ''z'') then ADVANCE 140
     else END_STATE)"

definition ts_lex_state_1 :: "bool \<Rightarrow> char \<Rightarrow> nat option \<times> lex_move" where
  [lex_states]: "ts_lex_state_1 eof lookahead =
    (None,
     if lookahead = CHR 0x22 then ADVANCE 66
     else if lookahead = CHR ''#'' then ADVANCE 141
     else if lookahead = CHR 0x27 then ADVANCE 70
     else if lookahead = CHR ''('' then ADVANCE 91
     else if lookahead = CHR ''*'' then ADVANCE 93
     else if lookahead = CHR ''+'' then ADVANCE 95
     else if lookahead = CHR '','' then ADVANCE 87
     else if lookahead = CHR ''-'' then ADVANCE 96
     else if lookahead = CHR ''.'' then ADVANCE 90
     else if lookahead = CHR ''/'' then ADVANCE 94
     else if lookahead = CHR ''['' then ADVANCE 86
     else if lookahead = CHR ''}'' then ADVANCE 64
     else if lookahead = CHR 0x09 \<or> lookahead = CHR 0x0A \<or> lookahead = CHR 0x0D \<or> lookahead = CHR '' '' then SKIP 1
     else if (CHR ''A'' \<le> lookahead \<and> lookahead \<le> CHR ''Z'') \<or> lookahead = CHR ''_'' \<or> (CHR ''a'' \<le> lookahead \<and> lookahead \<le> CHR ''z'') then ADVANCE 140
     else END_STATE)"

definition ts_lex_state_2 :: "bool \<Rightarrow> char \<Rightarrow> nat option \<times> lex_move" where
  [lex_states]: "ts_lex_state_2 eof lookahead =
    (None,
     if lookahead = CHR 0x22 then ADVANCE 66
     else if lookahead = CHR ''#'' then ADVANCE 141
     else if lookahead = CHR 0x27 then ADVANCE 70
     else if lookahead = CHR '')'' then ADVANCE 92
     else if lookahead = CHR '','' then ADVANCE 87
     else if lookahead = CHR ''/'' then ADVANCE 8
     else if lookahead = CHR ''0'' then ADVANCE 81
     else if lookahead = CHR ''['' then ADVANCE 86
     else if lookahead = CHR '']'' then ADVANCE 88
     else if lookahead = CHR ''f'' then ADVANCE 97
     else if lookahead = CHR ''n'' then ADVANCE 137
     else if lookahead = CHR ''t'' then ADVANCE 126
     else if lookahead = CHR ''{'' then ADVANCE 63
     else if lookahead = CHR 0x09 \<or> lookahead = CHR 0x0A \<or> lookahead = CHR 0x0D \<or> lookahead = CHR '' '' then SKIP 2
     else if (CHR ''1'' \<le> lookahead \<and> lookahead \<le> CHR ''9'') then ADVANCE 82
     else if (CHR ''A'' \<le> lookahead \<and> lookahead \<le> CHR ''Z'') \<or> lookahead = CHR ''_'' \<or> (CHR ''a'' \<le> lookahead \<and> lookahead \<le> CHR ''z'') then ADVANCE 140
     else END_STATE)"

definition ts_lex_state_3 :: "bool \<Rightarrow> char \<Rightarrow> nat option \<times> lex_move" where
  [lex_states]: "ts_lex_state_3 eof lookahead =
    (None,
     if lookahead = CHR 0x22 then ADVANCE 74
     else END_STATE)"

definition ts_lex_state_4 :: "bool \<Rightarrow> char \<Rightarrow> nat option \<times> lex_move" where
  [lex_states]: "ts_lex_state_4 eof lookahead =
    (None,
     if lookahead = CHR 0x22 then ADVANCE 5
     else if lookahead = CHR ''#'' then ADVANCE 141
     else if lookahead = CHR ''/'' then ADVANCE 77
     else if lookahead = CHR 0x09 \<or> lookahead = CHR 0x0A \<or> lookahead = CHR 0x0D \<or> lookahead = CHR '' '' then ADVANCE 76
     else if lookahead \<noteq> CHR 0x00 then ADVANCE 75
     else END_STATE)"

definition ts_lex_state_5 :: "bool \<Rightarrow> char \<Rightarrow> nat option \<times> lex_move" where
  [lex_states]: "ts_lex_state_5 eof lookahead =
    (None,
     if lookahead = CHR 0x22 then ADVANCE 78
     else if lookahead \<noteq> CHR 0x00 then ADVANCE 75
     else END_STATE)"

definition ts_lex_state_6 :: "bool \<Rightarrow> char \<Rightarrow> nat option \<times> lex_move" where
  [lex_states]: "ts_lex_state_6 eof lookahead =
    (None,
     if lookahead = CHR 0x22 then ADVANCE 65
     else if lookahead = CHR ''#'' then ADVANCE 141
     else if lookahead = CHR ''/'' then ADVANCE 8
     else if lookahead = CHR 0x09 \<or> lookahead = CHR 0x0A \<or> lookahead = CHR 0x0D \<or> lookahead = CHR '' '' then SKIP 6
     else END_STATE)"

definition ts_lex_state_7 :: "bool \<Rightarrow> char \<Rightarrow> nat option \<times> lex_move" where
  [lex_states]: "ts_lex_state_7 eof lookahead =
    (None,
     if lookahead = CHR ''#'' then ADVANCE 142
     else if lookahead = CHR ''*'' then ADVANCE 159
     else if lookahead = CHR ''/'' then ADVANCE 10
     else if lookahead = CHR 0x09 \<or> lookahead = CHR 0x0A \<or> lookahead = CHR 0x0D \<or> lookahead = CHR '' '' then ADVANCE 7
     else if lookahead \<noteq> CHR 0x00 then ADVANCE 9
     else END_STATE)"

definition ts_lex_state_8 :: "bool \<Rightarrow> char \<Rightarrow> nat option \<times> lex_move" where
  [lex_states]: "ts_lex_state_8 eof lookahead =
    (None,
     if lookahead = CHR ''*'' then ADVANCE 154
     else if lookahead = CHR ''/'' then ADVANCE 149
     else END_STATE)"

definition ts_lex_state_9 :: "bool \<Rightarrow> char \<Rightarrow> nat option \<times> lex_move" where
  [lex_states]: "ts_lex_state_9 eof lookahead =
    (None,
     if lookahead = CHR ''*'' then ADVANCE 159
     else if lookahead \<noteq> CHR 0x00 then ADVANCE 9
     else END_STATE)"

definition ts_lex_state_10 :: "bool \<Rightarrow> char \<Rightarrow> nat option \<times> lex_move" where
  [lex_states]: "ts_lex_state_10 eof lookahead =
    (None,
     if lookahead = CHR ''*'' then ADVANCE 155
     else if lookahead = CHR ''/'' then ADVANCE 150
     else if lookahead \<noteq> CHR 0x00 then ADVANCE 9
     else END_STATE)"

definition ts_lex_state_11 :: "bool \<Rightarrow> char \<Rightarrow> nat option \<times> lex_move" where
  [lex_states]: "ts_lex_state_11 eof lookahead =
    (None,
     if lookahead = CHR ''a'' then ADVANCE 34
     else END_STATE)"

definition ts_lex_state_12 :: "bool \<Rightarrow> char \<Rightarrow> nat option \<times> lex_move" where
  [lex_states]: "ts_lex_state_12 eof lookahead =
    (None,
     if lookahead = CHR ''a'' then ADVANCE 13
     else END_STATE)"

definition ts_lex_state_13 :: "bool \<Rightarrow> char \<Rightarrow> nat option \<times> lex_move" where
  [lex_states]: "ts_lex_state_13 eof lookahead =
    (None,
     if lookahead = CHR ''b'' then ADVANCE 22
     else END_STATE)"

definition ts_lex_state_14 :: "bool \<Rightarrow> char \<Rightarrow> nat option \<times> lex_move" where
  [lex_states]: "ts_lex_state_14 eof lookahead =
    (None,
     if lookahead = CHR ''c'' then ADVANCE 39
     else if lookahead = CHR ''d'' then ADVANCE 15
     else END_STATE)"

definition ts_lex_state_15 :: "bool \<Rightarrow> char \<Rightarrow> nat option \<times> lex_move" where
  [lex_states]: "ts_lex_state_15 eof lookahead =
    (None,
     if lookahead = CHR ''d'' then ADVANCE 28
     else END_STATE)"

definition ts_lex_state_16 :: "bool \<Rightarrow> char \<Rightarrow> nat option \<times> lex_move" where
  [lex_states]: "ts_lex_state_16 eof lookahead =
    (None,
     if lookahead = CHR ''e'' then ADVANCE 56
     else END_STATE)"

definition ts_lex_state_17 :: "bool \<Rightarrow> char \<Rightarrow> nat option \<times> lex_move" where
  [lex_states]: "ts_lex_state_17 eof lookahead =
    (None,
     if lookahead = CHR ''e'' then ADVANCE 33
     else END_STATE)"

definition ts_lex_state_18 :: "bool \<Rightarrow> char \<Rightarrow> nat option \<times> lex_move" where
  [lex_states]: "ts_lex_state_18 eof lookahead =
    (None,
     if lookahead = CHR ''g'' then ADVANCE 24
     else END_STATE)"

definition ts_lex_state_19 :: "bool \<Rightarrow> char \<Rightarrow> nat option \<times> lex_move" where
  [lex_states]: "ts_lex_state_19 eof lookahead =
    (None,
     if lookahead = CHR ''i'' then ADVANCE 18
     else END_STATE)"

definition ts_lex_state_20 :: "bool \<Rightarrow> char \<Rightarrow> nat option \<times> lex_move" where
  [lex_states]: "ts_lex_state_20 eof lookahead =
    (None,
     if lookahead = CHR ''i'' then ADVANCE 12
     else END_STATE)"

definition ts_lex_state_21 :: "bool \<Rightarrow> char \<Rightarrow> nat option \<times> lex_move" where
  [lex_states]: "ts_lex_state_21 eof lookahead =
    (None,
     if lookahead = CHR ''i'' then ADVANCE 29
     else END_STATE)"

definition ts_lex_state_22 :: "bool \<Rightarrow> char \<Rightarrow> nat option \<times> lex_move" where
  [lex_states]: "ts_lex_state_22 eof lookahead =
    (None,
     if lookahead = CHR ''l'' then ADVANCE 16
     else END_STATE)"

definition ts_lex_state_23 :: "bool \<Rightarrow> char \<Rightarrow> nat option \<times> lex_move" where
  [lex_states]: "ts_lex_state_23 eof lookahead =
    (None,
     if lookahead = CHR ''m'' then ADVANCE 30
     else if lookahead = CHR ''n'' then ADVANCE 31
     else END_STATE)"

definition ts_lex_state_24 :: "bool \<Rightarrow> char \<Rightarrow> nat option \<times> lex_move" where
  [lex_states]: "ts_lex_state_24 eof lookahead =
    (None,
     if lookahead = CHR ''n'' then ADVANCE 17
     else END_STATE)"

definition ts_lex_state_25 :: "bool \<Rightarrow> char \<Rightarrow> nat option \<times> lex_move" where
  [lex_states]: "ts_lex_state_25 eof lookahead =
    (None,
     if lookahead = CHR ''n'' then ADVANCE 48
     else END_STATE)"

definition ts_lex_state_26 :: "bool \<Rightarrow> char \<Rightarrow> nat option \<times> lex_move" where
  [lex_states]: "ts_lex_state_26 eof lookahead =
    (None,
     if lookahead = CHR ''n'' then ADVANCE 52
     else END_STATE)"

definition ts_lex_state_27 :: "bool \<Rightarrow> char \<Rightarrow> nat option \<times> lex_move" where
  [lex_states]: "ts_lex_state_27 eof lookahead =
    (None,
     if lookahead = CHR ''o'' then ADVANCE 35
     else END_STATE)"

definition ts_lex_state_28 :: "bool \<Rightarrow> char \<Rightarrow> nat option \<times> lex_move" where
  [lex_states]: "ts_lex_state_28 eof lookahead =
    (None,
     if lookahead = CHR ''o'' then ADVANCE 25
     else END_STATE)"

definition ts_lex_state_29 :: "bool \<Rightarrow> char \<Rightarrow> nat option \<times> lex_move" where
  [lex_states]: "ts_lex_state_29 eof lookahead =
    (None,
     if lookahead = CHR ''o'' then ADVANCE 26
     else END_STATE)"

definition ts_lex_state_30 :: "bool \<Rightarrow> char \<Rightarrow> nat option \<times> lex_move" where
  [lex_states]: "ts_lex_state_30 eof lookahead =
    (None,
     if lookahead = CHR ''p'' then ADVANCE 27
     else END_STATE)"

definition ts_lex_state_31 :: "bool \<Rightarrow> char \<Rightarrow> nat option \<times> lex_move" where
  [lex_states]: "ts_lex_state_31 eof lookahead =
    (None,
     if lookahead = CHR ''p'' then ADVANCE 42
     else END_STATE)"

definition ts_lex_state_32 :: "bool \<Rightarrow> char \<Rightarrow> nat option \<times> lex_move" where
  [lex_states]: "ts_lex_state_32 eof lookahead =
    (None,
     if lookahead = CHR ''p'' then ADVANCE 43
     else END_STATE)"

definition ts_lex_state_33 :: "bool \<Rightarrow> char \<Rightarrow> nat option \<times> lex_move" where
  [lex_states]: "ts_lex_state_33 eof lookahead =
    (None,
     if lookahead = CHR ''r'' then ADVANCE 50
     else END_STATE)"

definition ts_lex_state_34 :: "bool \<Rightarrow> char \<Rightarrow> nat option \<times> lex_move" where
  [lex_states]: "ts_lex_state_34 eof lookahead =
    (None,
     if lookahead = CHR ''r'' then ADVANCE 20
     else END_STATE)"

definition ts_lex_state_35 :: "bool \<Rightarrow> char \<Rightarrow> nat option \<times> lex_move" where
  [lex_states]: "ts_lex_state_35 eof lookahead =
    (None,
     if lookahead = CHR ''r'' then ADVANCE 37
     else END_STATE)"

definition ts_lex_state_36 :: "bool \<Rightarrow> char \<Rightarrow> nat option \<times> lex_move" where
  [lex_states]: "ts_lex_state_36 eof lookahead =
    (None,
     if lookahead = CHR ''t'' then ADVANCE 58
     else END_STATE)"

definition ts_lex_state_37 :: "bool \<Rightarrow> char \<Rightarrow> nat option \<times> lex_move" where
  [lex_states]: "ts_lex_state_37 eof lookahead =
    (None,
     if lookahead = CHR ''t'' then ADVANCE 61
     else END_STATE)"

definition ts_lex_state_38 :: "bool \<Rightarrow> char \<Rightarrow> nat option \<times> lex_move" where
  [lex_states]: "ts_lex_state_38 eof lookahead =
    (None,
     if lookahead = CHR ''t'' then ADVANCE 54
     else END_STATE)"

definition ts_lex_state_39 :: "bool \<Rightarrow> char \<Rightarrow> nat option \<times> lex_move" where
  [lex_states]: "ts_lex_state_39 eof lookahead =
    (None,
     if lookahead = CHR ''t'' then ADVANCE 21
     else END_STATE)"

definition ts_lex_state_40 :: "bool \<Rightarrow> char \<Rightarrow> nat option \<times> lex_move" where
  [lex_states]: "ts_lex_state_40 eof lookahead =
    (None,
     if lookahead = CHR ''t'' then ADVANCE 32
     else END_STATE)"

definition ts_lex_state_41 :: "bool \<Rightarrow> char \<Rightarrow> nat option \<times> lex_move" where
  [lex_states]: "ts_lex_state_41 eof lookahead =
    (None,
     if lookahead = CHR ''u'' then ADVANCE 40
     else END_STATE)"

definition ts_lex_state_42 :: "bool \<Rightarrow> char \<Rightarrow> nat option \<times> lex_move" where
  [lex_states]: "ts_lex_state_42 eof lookahead =
    (None,
     if lookahead = CHR ''u'' then ADVANCE 36
     else END_STATE)"

definition ts_lex_state_43 :: "bool \<Rightarrow> char \<Rightarrow> nat option \<times> lex_move" where
  [lex_states]: "ts_lex_state_43 eof lookahead =
    (None,
     if lookahead = CHR ''u'' then ADVANCE 38
     else END_STATE)"

definition ts_lex_state_44 :: "bool \<Rightarrow> char \<Rightarrow> nat option \<times> lex_move" where
  [lex_states]: "ts_lex_state_44 eof lookahead =
    (None,
     if (CHR ''0'' \<le> lookahead \<and> lookahead \<le> CHR ''9'') then ADVANCE 80
     else END_STATE)"

definition ts_lex_state_45 :: "bool \<Rightarrow> char \<Rightarrow> nat option \<times> lex_move" where
  [lex_states]: "ts_lex_state_45 eof lookahead =
    (None,
     if (CHR ''0'' \<le> lookahead \<and> lookahead \<le> CHR ''9'') \<or> (CHR ''A'' \<le> lookahead \<and> lookahead \<le> CHR ''F'') \<or> (CHR ''a'' \<le> lookahead \<and> lookahead \<le> CHR ''f'') then ADVANCE 79
     else END_STATE)"

definition ts_lex_state_46 :: "bool \<Rightarrow> char \<Rightarrow> nat option \<times> lex_move" where
  [lex_states]: "ts_lex_state_46 eof lookahead =
    (None,
     if eof then ADVANCE 47
     else if lookahead = CHR 0x22 then ADVANCE 66
     else if lookahead = CHR ''#'' then ADVANCE 141
     else if lookahead = CHR 0x27 then ADVANCE 70
     else if lookahead = CHR ''('' then ADVANCE 91
     else if lookahead = CHR '')'' then ADVANCE 92
     else if lookahead = CHR ''*'' then ADVANCE 93
     else if lookahead = CHR ''+'' then ADVANCE 95
     else if lookahead = CHR '','' then ADVANCE 87
     else if lookahead = CHR ''-'' then ADVANCE 96
     else if lookahead = CHR ''.'' then ADVANCE 90
     else if lookahead = CHR ''/'' then ADVANCE 94
     else if lookahead = CHR '':'' then ADVANCE 89
     else if lookahead = CHR ''='' then ADVANCE 60
     else if lookahead = CHR ''['' then ADVANCE 86
     else if lookahead = CHR '']'' then ADVANCE 88
     else if lookahead = CHR ''a'' then ADVANCE 14
     else if lookahead = CHR ''i'' then ADVANCE 23
     else if lookahead = CHR ''o'' then ADVANCE 41
     else if lookahead = CHR ''s'' then ADVANCE 19
     else if lookahead = CHR ''v'' then ADVANCE 11
     else if lookahead = CHR ''{'' then ADVANCE 63
     else if lookahead = CHR ''}'' then ADVANCE 64
     else if lookahead = CHR 0x09 \<or> lookahead = CHR 0x0A \<or> lookahead = CHR 0x0D \<or> lookahead = CHR '' '' then SKIP 46
     else END_STATE)"

definition ts_lex_state_47 :: "bool \<Rightarrow> char \<Rightarrow> nat option \<times> lex_move" where
  [lex_states]: "ts_lex_state_47 eof lookahead =
    (Some ts_builtin_sym_end,
     END_STATE)"

definition ts_lex_state_48 :: "bool \<Rightarrow> char \<Rightarrow> nat option \<times> lex_move" where
  [lex_states]: "ts_lex_state_48 eof lookahead =
    (Some anon_sym_addon,
     END_STATE)"

definition ts_lex_state_49 :: "bool \<Rightarrow> char \<Rightarrow> nat option \<times> lex_move" where
  [lex_states]: "ts_lex_state_49 eof lookahead =
    (Some anon_sym_addon,
     if (CHR ''0'' \<le> lookahead \<and> lookahead \<le> CHR ''9'') \<or> (CHR ''A'' \<le> lookahead \<and> lookahead \<le> CHR ''Z'') \<or> lookahead = CHR ''_'' \<or> (CHR ''a'' \<le> lookahead \<and> lookahead \<le> CHR ''z'') then ADVANCE 140
     else END_STATE)"

definition ts_lex_state_50 :: "bool \<Rightarrow> char \<Rightarrow> nat option \<times> lex_move" where
  [lex_states]: "ts_lex_state_50 eof lookahead =
    (Some anon_sym_signer,
     END_STATE)"

definition ts_lex_state_51 :: "bool \<Rightarrow> char \<Rightarrow> nat option \<times> lex_move" where
  [lex_states]: "ts_lex_state_51 eof lookahead =
    (Some anon_sym_signer,
     if (CHR ''0'' \<le> lookahead \<and> lookahead \<le> CHR ''9'') \<or> (CHR ''A'' \<le> lookahead \<and> lookahead \<le> CHR ''Z'') \<or> lookahead = CHR ''_'' \<or> (CHR ''a'' \<le> lookahead \<and> lookahead \<le> CHR ''z'') then ADVANCE 140
     else END_STATE)"

definition ts_lex_state_52 :: "bool \<Rightarrow> char \<Rightarrow> nat option \<times> lex_move" where
  [lex_states]: "ts_lex_state_52 eof lookahead =
    (Some anon_sym_action,
     END_STATE)"

definition ts_lex_state_53 :: "bool \<Rightarrow> char \<Rightarrow> nat option \<times> lex_move" where
  [lex_states]: "ts_lex_state_53 eof lookahead =
    (Some anon_sym_action,
     if (CHR ''0'' \<le> lookahead \<and> lookahead \<le> CHR ''9'') \<or> (CHR ''A'' \<le> lookahead \<and> lookahead \<le> CHR ''Z'') \<or> lookahead = CHR ''_'' \<or> (CHR ''a'' \<le> lookahead \<and> lookahead \<le> CHR ''z'') then ADVANCE 140
     else END_STATE)"

definition ts_lex_state_54 :: "bool \<Rightarrow> char \<Rightarrow> nat option \<times> lex_move" where
  [lex_states]: "ts_lex_state_54 eof lookahead =
    (Some anon_sym_output,
     END_STATE)"

definition ts_lex_state_55 :: "bool \<Rightarrow> char \<Rightarrow> nat option \<times> lex_move" where
  [lex_states]: "ts_lex_state_55 eof lookahead =
    (Some anon_sym_output,
     if (CHR ''0'' \<le> lookahead \<and> lookahead \<le> CHR ''9'') \<or> (CHR ''A'' \<le> lookahead \<and> lookahead \<le> CHR ''Z'') \<or> lookahead = CHR ''_'' \<or> (CHR ''a'' \<le> lookahead \<and> lookahead \<le> CHR ''z'') then ADVANCE 140
     else END_STATE)"

definition ts_lex_state_56 :: "bool \<Rightarrow> char \<Rightarrow> nat option \<times> lex_move" where
  [lex_states]: "ts_lex_state_56 eof lookahead =
    (Some anon_sym_variable,
     END_STATE)"

definition ts_lex_state_57 :: "bool \<Rightarrow> char \<Rightarrow> nat option \<times> lex_move" where
  [lex_states]: "ts_lex_state_57 eof lookahead =
    (Some anon_sym_variable,
     if (CHR ''0'' \<le> lookahead \<and> lookahead \<le> CHR ''9'') \<or> (CHR ''A'' \<le> lookahead \<and> lookahead \<le> CHR ''Z'') \<or> lookahead = CHR ''_'' \<or> (CHR ''a'' \<le> lookahead \<and> lookahead \<le> CHR ''z'') then ADVANCE 140
     else END_STATE)"

definition ts_lex_state_58 :: "bool \<Rightarrow> char \<Rightarrow> nat option \<times> lex_move" where
  [lex_states]: "ts_lex_state_58 eof lookahead =
    (Some anon_sym_input,
     END_STATE)"

definition ts_lex_state_59 :: "bool \<Rightarrow> char \<Rightarrow> nat option \<times> lex_move" where
  [lex_states]: "ts_lex_state_59 eof lookahead =
    (Some anon_sym_input,
     if (CHR ''0'' \<le> lookahead \<and> lookahead \<le> CHR ''9'') \<or> (CHR ''A'' \<le> lookahead \<and> lookahead \<le> CHR ''Z'') \<or> lookahead = CHR ''_'' \<or> (CHR ''a'' \<le> lookahead \<and> lookahead \<le> CHR ''z'') then ADVANCE 140
     else END_STATE)"

definition ts_lex_state_60 :: "bool \<Rightarrow> char \<Rightarrow> nat option \<times> lex_move" where
  [lex_states]: "ts_lex_state_60 eof lookahead =
    (Some anon_sym_EQ,
     END_STATE)"

definition ts_lex_state_61 :: "bool \<Rightarrow> char \<Rightarrow> nat option \<times> lex_move" where
  [lex_states]: "ts_lex_state_61 eof lookahead =
    (Some anon_sym_import,
     END_STATE)"

definition ts_lex_state_62 :: "bool \<Rightarrow> char \<Rightarrow> nat option \<times> lex_move" where
  [lex_states]: "ts_lex_state_62 eof lookahead =
    (Some anon_sym_import,
     if (CHR ''0'' \<le> lookahead \<and> lookahead \<le> CHR ''9'') \<or> (CHR ''A'' \<le> lookahead \<and> lookahead \<le> CHR ''Z'') \<or> lookahead = CHR ''_'' \<or> (CHR ''a'' \<le> lookahead \<and> lookahead \<le> CHR ''z'') then ADVANCE 140
     else END_STATE)"

definition ts_lex_state_63 :: "bool \<Rightarrow> char \<Rightarrow> nat option \<times> lex_move" where
  [lex_states]: "ts_lex_state_63 eof lookahead =
    (Some anon_sym_LBRACE,
     END_STATE)"

definition ts_lex_state_64 :: "bool \<Rightarrow> char \<Rightarrow> nat option \<times> lex_move" where
  [lex_states]: "ts_lex_state_64 eof lookahead =
    (Some anon_sym_RBRACE,
     END_STATE)"

definition ts_lex_state_65 :: "bool \<Rightarrow> char \<Rightarrow> nat option \<times> lex_move" where
  [lex_states]: "ts_lex_state_65 eof lookahead =
    (Some anon_sym_DQUOTE,
     END_STATE)"

definition ts_lex_state_66 :: "bool \<Rightarrow> char \<Rightarrow> nat option \<times> lex_move" where
  [lex_states]: "ts_lex_state_66 eof lookahead =
    (Some anon_sym_DQUOTE,
     if lookahead = CHR 0x22 then ADVANCE 3
     else END_STATE)"

definition ts_lex_state_67 :: "bool \<Rightarrow> char \<Rightarrow> nat option \<times> lex_move" where
  [lex_states]: "ts_lex_state_67 eof lookahead =
    (Some aux_sym_string_token1,
     if lookahead = CHR ''#'' then ADVANCE 144
     else if lookahead = CHR ''/'' then ADVANCE 68
     else if lookahead = CHR 0x09 \<or> lookahead = CHR 0x0A \<or> lookahead = CHR 0x0D \<or> lookahead = CHR '' '' then ADVANCE 67
     else if lookahead \<noteq> CHR 0x00 \<and> lookahead \<noteq> CHR 0x22 then ADVANCE 69
     else END_STATE)"

definition ts_lex_state_68 :: "bool \<Rightarrow> char \<Rightarrow> nat option \<times> lex_move" where
  [lex_states]: "ts_lex_state_68 eof lookahead =
    (Some aux_sym_string_token1,
     if lookahead = CHR ''*'' then ADVANCE 157
     else if lookahead = CHR ''/'' then ADVANCE 152
     else if lookahead \<noteq> CHR 0x00 \<and> lookahead \<noteq> CHR 0x22 then ADVANCE 69
     else END_STATE)"

definition ts_lex_state_69 :: "bool \<Rightarrow> char \<Rightarrow> nat option \<times> lex_move" where
  [lex_states]: "ts_lex_state_69 eof lookahead =
    (Some aux_sym_string_token1,
     if lookahead \<noteq> CHR 0x00 \<and> lookahead \<noteq> CHR 0x22 then ADVANCE 69
     else END_STATE)"

definition ts_lex_state_70 :: "bool \<Rightarrow> char \<Rightarrow> nat option \<times> lex_move" where
  [lex_states]: "ts_lex_state_70 eof lookahead =
    (Some anon_sym_SQUOTE,
     END_STATE)"

definition ts_lex_state_71 :: "bool \<Rightarrow> char \<Rightarrow> nat option \<times> lex_move" where
  [lex_states]: "ts_lex_state_71 eof lookahead =
    (Some aux_sym_string_token2,
     if lookahead = CHR ''#'' then ADVANCE 145
     else if lookahead = CHR ''/'' then ADVANCE 72
     else if lookahead = CHR 0x09 \<or> lookahead = CHR 0x0A \<or> lookahead = CHR 0x0D \<or> lookahead = CHR '' '' then ADVANCE 71
     else if lookahead \<noteq> CHR 0x00 \<and> lookahead \<noteq> CHR 0x27 then ADVANCE 73
     else END_STATE)"

definition ts_lex_state_72 :: "bool \<Rightarrow> char \<Rightarrow> nat option \<times> lex_move" where
  [lex_states]: "ts_lex_state_72 eof lookahead =
    (Some aux_sym_string_token2,
     if lookahead = CHR ''*'' then ADVANCE 158
     else if lookahead = CHR ''/'' then ADVANCE 153
     else if lookahead \<noteq> CHR 0x00 \<and> lookahead \<noteq> CHR 0x27 then ADVANCE 73
     else END_STATE)"

definition ts_lex_state_73 :: "bool \<Rightarrow> char \<Rightarrow> nat option \<times> lex_move" where
  [lex_states]: "ts_lex_state_73 eof lookahead =
    (Some aux_sym_string_token2,
     if lookahead \<noteq> CHR 0x00 \<and> lookahead \<noteq> CHR 0x27 then ADVANCE 73
     else END_STATE)"

definition ts_lex_state_74 :: "bool \<Rightarrow> char \<Rightarrow> nat option \<times> lex_move" where
  [lex_states]: "ts_lex_state_74 eof lookahead =
    (Some anon_sym_DQUOTE_DQUOTE_DQUOTE,
     END_STATE)"

definition ts_lex_state_75 :: "bool \<Rightarrow> char \<Rightarrow> nat option \<times> lex_move" where
  [lex_states]: "ts_lex_state_75 eof lookahead =
    (Some aux_sym_string_token3,
     END_STATE)"

definition ts_lex_state_76 :: "bool \<Rightarrow> char \<Rightarrow> nat option \<times> lex_move" where
  [lex_states]: "ts_lex_state_76 eof lookahead =
    (Some aux_sym_string_token3,
     if lookahead = CHR 0x22 then ADVANCE 5
     else if lookahead = CHR ''#'' then ADVANCE 141
     else if lookahead = CHR ''/'' then ADVANCE 77
     else if lookahead = CHR 0x09 \<or> lookahead = CHR 0x0A \<or> lookahead = CHR 0x0D \<or> lookahead = CHR '' '' then ADVANCE 76
     else if lookahead \<noteq> CHR 0x00 then ADVANCE 75
     else END_STATE)"

definition ts_lex_state_77 :: "bool \<Rightarrow> char \<Rightarrow> nat option \<times> lex_move" where
  [lex_states]: "ts_lex_state_77 eof lookahead =
    (Some aux_sym_string_token3,
     if lookahead = CHR ''*'' then ADVANCE 154
     else if lookahead = CHR ''/'' then ADVANCE 149
     else END_STATE)"

definition ts_lex_state_78 :: "bool \<Rightarrow> char \<Rightarrow> nat option \<times> lex_move" where
  [lex_states]: "ts_lex_state_78 eof lookahead =
    (Some aux_sym_string_token3,
     if lookahead \<noteq> CHR 0x00 \<and> lookahead \<noteq> CHR 0x22 then ADVANCE 78
     else END_STATE)"

definition ts_lex_state_79 :: "bool \<Rightarrow> char \<Rightarrow> nat option \<times> lex_move" where
  [lex_states]: "ts_lex_state_79 eof lookahead =
    (Some aux_sym_number_token1,
     if (CHR ''0'' \<le> lookahead \<and> lookahead \<le> CHR ''9'') \<or> (CHR ''A'' \<le> lookahead \<and> lookahead \<le> CHR ''F'') \<or> (CHR ''a'' \<le> lookahead \<and> lookahead \<le> CHR ''f'') then ADVANCE 79
     else END_STATE)"

definition ts_lex_state_80 :: "bool \<Rightarrow> char \<Rightarrow> nat option \<times> lex_move" where
  [lex_states]: "ts_lex_state_80 eof lookahead =
    (Some aux_sym_number_token2,
     if (CHR ''0'' \<le> lookahead \<and> lookahead \<le> CHR ''9'') then ADVANCE 80
     else END_STATE)"

definition ts_lex_state_81 :: "bool \<Rightarrow> char \<Rightarrow> nat option \<times> lex_move" where
  [lex_states]: "ts_lex_state_81 eof lookahead =
    (Some aux_sym_number_token3,
     if lookahead = CHR ''.'' then ADVANCE 44
     else if lookahead = CHR ''x'' then ADVANCE 45
     else if (CHR ''0'' \<le> lookahead \<and> lookahead \<le> CHR ''9'') then ADVANCE 82
     else END_STATE)"

definition ts_lex_state_82 :: "bool \<Rightarrow> char \<Rightarrow> nat option \<times> lex_move" where
  [lex_states]: "ts_lex_state_82 eof lookahead =
    (Some aux_sym_number_token3,
     if lookahead = CHR ''.'' then ADVANCE 44
     else if (CHR ''0'' \<le> lookahead \<and> lookahead \<le> CHR ''9'') then ADVANCE 82
     else END_STATE)"

definition ts_lex_state_83 :: "bool \<Rightarrow> char \<Rightarrow> nat option \<times> lex_move" where
  [lex_states]: "ts_lex_state_83 eof lookahead =
    (Some anon_sym_true,
     if (CHR ''0'' \<le> lookahead \<and> lookahead \<le> CHR ''9'') \<or> (CHR ''A'' \<le> lookahead \<and> lookahead \<le> CHR ''Z'') \<or> lookahead = CHR ''_'' \<or> (CHR ''a'' \<le> lookahead \<and> lookahead \<le> CHR ''z'') then ADVANCE 140
     else END_STATE)"

definition ts_lex_state_84 :: "bool \<Rightarrow> char \<Rightarrow> nat option \<times> lex_move" where
  [lex_states]: "ts_lex_state_84 eof lookahead =
    (Some anon_sym_false,
     if (CHR ''0'' \<le> lookahead \<and> lookahead \<le> CHR ''9'') \<or> (CHR ''A'' \<le> lookahead \<and> lookahead \<le> CHR ''Z'') \<or> lookahead = CHR ''_'' \<or> (CHR ''a'' \<le> lookahead \<and> lookahead \<le> CHR ''z'') then ADVANCE 140
     else END_STATE)"

definition ts_lex_state_85 :: "bool \<Rightarrow> char \<Rightarrow> nat option \<times> lex_move" where
  [lex_states]: "ts_lex_state_85 eof lookahead =
    (Some sym_null,
     if (CHR ''0'' \<le> lookahead \<and> lookahead \<le> CHR ''9'') \<or> (CHR ''A'' \<le> lookahead \<and> lookahead \<le> CHR ''Z'') \<or> lookahead = CHR ''_'' \<or> (CHR ''a'' \<le> lookahead \<and> lookahead \<le> CHR ''z'') then ADVANCE 140
     else END_STATE)"

definition ts_lex_state_86 :: "bool \<Rightarrow> char \<Rightarrow> nat option \<times> lex_move" where
  [lex_states]: "ts_lex_state_86 eof lookahead =
    (Some anon_sym_LBRACK,
     END_STATE)"

definition ts_lex_state_87 :: "bool \<Rightarrow> char \<Rightarrow> nat option \<times> lex_move" where
  [lex_states]: "ts_lex_state_87 eof lookahead =
    (Some anon_sym_COMMA,
     END_STATE)"

definition ts_lex_state_88 :: "bool \<Rightarrow> char \<Rightarrow> nat option \<times> lex_move" where
  [lex_states]: "ts_lex_state_88 eof lookahead =
    (Some anon_sym_RBRACK,
     END_STATE)"

definition ts_lex_state_89 :: "bool \<Rightarrow> char \<Rightarrow> nat option \<times> lex_move" where
  [lex_states]: "ts_lex_state_89 eof lookahead =
    (Some anon_sym_COLON,
     END_STATE)"

definition ts_lex_state_90 :: "bool \<Rightarrow> char \<Rightarrow> nat option \<times> lex_move" where
  [lex_states]: "ts_lex_state_90 eof lookahead =
    (Some anon_sym_DOT,
     END_STATE)"

definition ts_lex_state_91 :: "bool \<Rightarrow> char \<Rightarrow> nat option \<times> lex_move" where
  [lex_states]: "ts_lex_state_91 eof lookahead =
    (Some anon_sym_LPAREN,
     END_STATE)"

definition ts_lex_state_92 :: "bool \<Rightarrow> char \<Rightarrow> nat option \<times> lex_move" where
  [lex_states]: "ts_lex_state_92 eof lookahead =
    (Some anon_sym_RPAREN,
     END_STATE)"

definition ts_lex_state_93 :: "bool \<Rightarrow> char \<Rightarrow> nat option \<times> lex_move" where
  [lex_states]: "ts_lex_state_93 eof lookahead =
    (Some anon_sym_STAR,
     END_STATE)"

definition ts_lex_state_94 :: "bool \<Rightarrow> char \<Rightarrow> nat option \<times> lex_move" where
  [lex_states]: "ts_lex_state_94 eof lookahead =
    (Some anon_sym_SLASH,
     if lookahead = CHR ''*'' then ADVANCE 154
     else if lookahead = CHR ''/'' then ADVANCE 149
     else END_STATE)"

definition ts_lex_state_95 :: "bool \<Rightarrow> char \<Rightarrow> nat option \<times> lex_move" where
  [lex_states]: "ts_lex_state_95 eof lookahead =
    (Some anon_sym_PLUS,
     END_STATE)"

definition ts_lex_state_96 :: "bool \<Rightarrow> char \<Rightarrow> nat option \<times> lex_move" where
  [lex_states]: "ts_lex_state_96 eof lookahead =
    (Some anon_sym_DASH,
     END_STATE)"

definition ts_lex_state_97 :: "bool \<Rightarrow> char \<Rightarrow> nat option \<times> lex_move" where
  [lex_states]: "ts_lex_state_97 eof lookahead =
    (Some sym_identifier,
     if lookahead = CHR ''a'' then ADVANCE 111
     else if (CHR ''0'' \<le> lookahead \<and> lookahead \<le> CHR ''9'') \<or> (CHR ''A'' \<le> lookahead \<and> lookahead \<le> CHR ''Z'') \<or> lookahead = CHR ''_'' \<or> (CHR ''b'' \<le> lookahead \<and> lookahead \<le> CHR ''z'') then ADVANCE 140
     else END_STATE)"

definition ts_lex_state_98 :: "bool \<Rightarrow> char \<Rightarrow> nat option \<times> lex_move" where
  [lex_states]: "ts_lex_state_98 eof lookahead =
    (Some sym_identifier,
     if lookahead = CHR ''a'' then ADVANCE 100
     else if (CHR ''0'' \<le> lookahead \<and> lookahead \<le> CHR ''9'') \<or> (CHR ''A'' \<le> lookahead \<and> lookahead \<le> CHR ''Z'') \<or> lookahead = CHR ''_'' \<or> (CHR ''b'' \<le> lookahead \<and> lookahead \<le> CHR ''z'') then ADVANCE 140
     else END_STATE)"

definition ts_lex_state_99 :: "bool \<Rightarrow> char \<Rightarrow> nat option \<times> lex_move" where
  [lex_states]: "ts_lex_state_99 eof lookahead =
    (Some sym_identifier,
     if lookahead = CHR ''a'' then ADVANCE 127
     else if (CHR ''0'' \<le> lookahead \<and> lookahead \<le> CHR ''9'') \<or> (CHR ''A'' \<le> lookahead \<and> lookahead \<le> CHR ''Z'') \<or> lookahead = CHR ''_'' \<or> (CHR ''b'' \<le> lookahead \<and> lookahead \<le> CHR ''z'') then ADVANCE 140
     else END_STATE)"

definition ts_lex_state_100 :: "bool \<Rightarrow> char \<Rightarrow> nat option \<times> lex_move" where
  [lex_states]: "ts_lex_state_100 eof lookahead =
    (Some sym_identifier,
     if lookahead = CHR ''b'' then ADVANCE 114
     else if (CHR ''0'' \<le> lookahead \<and> lookahead \<le> CHR ''9'') \<or> (CHR ''A'' \<le> lookahead \<and> lookahead \<le> CHR ''Z'') \<or> lookahead = CHR ''_'' \<or> (CHR ''a'' \<le> lookahead \<and> lookahead \<le> CHR ''z'') then ADVANCE 140
     else END_STATE)"

definition ts_lex_state_101 :: "bool \<Rightarrow> char \<Rightarrow> nat option \<times> lex_move" where
  [lex_states]: "ts_lex_state_101 eof lookahead =
    (Some sym_identifier,
     if lookahead = CHR ''c'' then ADVANCE 133
     else if lookahead = CHR ''d'' then ADVANCE 102
     else if (CHR ''0'' \<le> lookahead \<and> lookahead \<le> CHR ''9'') \<or> (CHR ''A'' \<le> lookahead \<and> lookahead \<le> CHR ''Z'') \<or> lookahead = CHR ''_'' \<or> (CHR ''a'' \<le> lookahead \<and> lookahead \<le> CHR ''z'') then ADVANCE 140
     else END_STATE)"

definition ts_lex_state_102 :: "bool \<Rightarrow> char \<Rightarrow> nat option \<times> lex_move" where
  [lex_states]: "ts_lex_state_102 eof lookahead =
    (Some sym_identifier,
     if lookahead = CHR ''d'' then ADVANCE 119
     else if (CHR ''0'' \<le> lookahead \<and> lookahead \<le> CHR ''9'') \<or> (CHR ''A'' \<le> lookahead \<and> lookahead \<le> CHR ''Z'') \<or> lookahead = CHR ''_'' \<or> (CHR ''a'' \<le> lookahead \<and> lookahead \<le> CHR ''z'') then ADVANCE 140
     else END_STATE)"

definition ts_lex_state_103 :: "bool \<Rightarrow> char \<Rightarrow> nat option \<times> lex_move" where
  [lex_states]: "ts_lex_state_103 eof lookahead =
    (Some sym_identifier,
     if lookahead = CHR ''e'' then ADVANCE 83
     else if (CHR ''0'' \<le> lookahead \<and> lookahead \<le> CHR ''9'') \<or> (CHR ''A'' \<le> lookahead \<and> lookahead \<le> CHR ''Z'') \<or> lookahead = CHR ''_'' \<or> (CHR ''a'' \<le> lookahead \<and> lookahead \<le> CHR ''z'') then ADVANCE 140
     else END_STATE)"

definition ts_lex_state_104 :: "bool \<Rightarrow> char \<Rightarrow> nat option \<times> lex_move" where
  [lex_states]: "ts_lex_state_104 eof lookahead =
    (Some sym_identifier,
     if lookahead = CHR ''e'' then ADVANCE 84
     else if (CHR ''0'' \<le> lookahead \<and> lookahead \<le> CHR ''9'') \<or> (CHR ''A'' \<le> lookahead \<and> lookahead \<le> CHR ''Z'') \<or> lookahead = CHR ''_'' \<or> (CHR ''a'' \<le> lookahead \<and> lookahead \<le> CHR ''z'') then ADVANCE 140
     else END_STATE)"

definition ts_lex_state_105 :: "bool \<Rightarrow> char \<Rightarrow> nat option \<times> lex_move" where
  [lex_states]: "ts_lex_state_105 eof lookahead =
    (Some sym_identifier,
     if lookahead = CHR ''e'' then ADVANCE 57
     else if (CHR ''0'' \<le> lookahead \<and> lookahead \<le> CHR ''9'') \<or> (CHR ''A'' \<le> lookahead \<and> lookahead \<le> CHR ''Z'') \<or> lookahead = CHR ''_'' \<or> (CHR ''a'' \<le> lookahead \<and> lookahead \<le> CHR ''z'') then ADVANCE 140
     else END_STATE)"

definition ts_lex_state_106 :: "bool \<Rightarrow> char \<Rightarrow> nat option \<times> lex_move" where
  [lex_states]: "ts_lex_state_106 eof lookahead =
    (Some sym_identifier,
     if lookahead = CHR ''e'' then ADVANCE 125
     else if (CHR ''0'' \<le> lookahead \<and> lookahead \<le> CHR ''9'') \<or> (CHR ''A'' \<le> lookahead \<and> lookahead \<le> CHR ''Z'') \<or> lookahead = CHR ''_'' \<or> (CHR ''a'' \<le> lookahead \<and> lookahead \<le> CHR ''z'') then ADVANCE 140
     else END_STATE)"

definition ts_lex_state_107 :: "bool \<Rightarrow> char \<Rightarrow> nat option \<times> lex_move" where
  [lex_states]: "ts_lex_state_107 eof lookahead =
    (Some sym_identifier,
     if lookahead = CHR ''g'' then ADVANCE 118
     else if (CHR ''0'' \<le> lookahead \<and> lookahead \<le> CHR ''9'') \<or> (CHR ''A'' \<le> lookahead \<and> lookahead \<le> CHR ''Z'') \<or> lookahead = CHR ''_'' \<or> (CHR ''a'' \<le> lookahead \<and> lookahead \<le> CHR ''z'') then ADVANCE 140
     else END_STATE)"

definition ts_lex_state_108 :: "bool \<Rightarrow> char \<Rightarrow> nat option \<times> lex_move" where
  [lex_states]: "ts_lex_state_108 eof lookahead =
    (Some sym_identifier,
     if lookahead = CHR ''i'' then ADVANCE 107
     else if (CHR ''0'' \<le> lookahead \<and> lookahead \<le> CHR ''9'') \<or> (CHR ''A'' \<le> lookahead \<and> lookahead \<le> CHR ''Z'') \<or> lookahead = CHR ''_'' \<or> (CHR ''a'' \<le> lookahead \<and> lookahead \<le> CHR ''z'') then ADVANCE 140
     else END_STATE)"

definition ts_lex_state_109 :: "bool \<Rightarrow> char \<Rightarrow> nat option \<times> lex_move" where
  [lex_states]: "ts_lex_state_109 eof lookahead =
    (Some sym_identifier,
     if lookahead = CHR ''i'' then ADVANCE 98
     else if (CHR ''0'' \<le> lookahead \<and> lookahead \<le> CHR ''9'') \<or> (CHR ''A'' \<le> lookahead \<and> lookahead \<le> CHR ''Z'') \<or> lookahead = CHR ''_'' \<or> (CHR ''a'' \<le> lookahead \<and> lookahead \<le> CHR ''z'') then ADVANCE 140
     else END_STATE)"

definition ts_lex_state_110 :: "bool \<Rightarrow> char \<Rightarrow> nat option \<times> lex_move" where
  [lex_states]: "ts_lex_state_110 eof lookahead =
    (Some sym_identifier,
     if lookahead = CHR ''i'' then ADVANCE 121
     else if (CHR ''0'' \<le> lookahead \<and> lookahead \<le> CHR ''9'') \<or> (CHR ''A'' \<le> lookahead \<and> lookahead \<le> CHR ''Z'') \<or> lookahead = CHR ''_'' \<or> (CHR ''a'' \<le> lookahead \<and> lookahead \<le> CHR ''z'') then ADVANCE 140
     else END_STATE)"

definition ts_lex_state_111 :: "bool \<Rightarrow> char \<Rightarrow> nat option \<times> lex_move" where
  [lex_states]: "ts_lex_state_111 eof lookahead =
    (Some sym_identifier,
     if lookahead = CHR ''l'' then ADVANCE 129
     else if (CHR ''0'' \<le> lookahead \<and> lookahead \<le> CHR ''9'') \<or> (CHR ''A'' \<le> lookahead \<and> lookahead \<le> CHR ''Z'') \<or> lookahead = CHR ''_'' \<or> (CHR ''a'' \<le> lookahead \<and> lookahead \<le> CHR ''z'') then ADVANCE 140
     else END_STATE)"

definition ts_lex_state_112 :: "bool \<Rightarrow> char \<Rightarrow> nat option \<times> lex_move" where
  [lex_states]: "ts_lex_state_112 eof lookahead =
    (Some sym_identifier,
     if lookahead = CHR ''l'' then ADVANCE 85
     else if (CHR ''0'' \<le> lookahead \<and> lookahead \<le> CHR ''9'') \<or> (CHR ''A'' \<le> lookahead \<and> lookahead \<le> CHR ''Z'') \<or> lookahead = CHR ''_'' \<or> (CHR ''a'' \<le> lookahead \<and> lookahead \<le> CHR ''z'') then ADVANCE 140
     else END_STATE)"

definition ts_lex_state_113 :: "bool \<Rightarrow> char \<Rightarrow> nat option \<times> lex_move" where
  [lex_states]: "ts_lex_state_113 eof lookahead =
    (Some sym_identifier,
     if lookahead = CHR ''l'' then ADVANCE 112
     else if (CHR ''0'' \<le> lookahead \<and> lookahead \<le> CHR ''9'') \<or> (CHR ''A'' \<le> lookahead \<and> lookahead \<le> CHR ''Z'') \<or> lookahead = CHR ''_'' \<or> (CHR ''a'' \<le> lookahead \<and> lookahead \<le> CHR ''z'') then ADVANCE 140
     else END_STATE)"

definition ts_lex_state_114 :: "bool \<Rightarrow> char \<Rightarrow> nat option \<times> lex_move" where
  [lex_states]: "ts_lex_state_114 eof lookahead =
    (Some sym_identifier,
     if lookahead = CHR ''l'' then ADVANCE 105
     else if (CHR ''0'' \<le> lookahead \<and> lookahead \<le> CHR ''9'') \<or> (CHR ''A'' \<le> lookahead \<and> lookahead \<le> CHR ''Z'') \<or> lookahead = CHR ''_'' \<or> (CHR ''a'' \<le> lookahead \<and> lookahead \<le> CHR ''z'') then ADVANCE 140
     else END_STATE)"

definition ts_lex_state_115 :: "bool \<Rightarrow> char \<Rightarrow> nat option \<times> lex_move" where
  [lex_states]: "ts_lex_state_115 eof lookahead =
    (Some sym_identifier,
     if lookahead = CHR ''m'' then ADVANCE 122
     else if lookahead = CHR ''n'' then ADVANCE 123
     else if (CHR ''0'' \<le> lookahead \<and> lookahead \<le> CHR ''9'') \<or> (CHR ''A'' \<le> lookahead \<and> lookahead \<le> CHR ''Z'') \<or> lookahead = CHR ''_'' \<or> (CHR ''a'' \<le> lookahead \<and> lookahead \<le> CHR ''z'') then ADVANCE 140
     else END_STATE)"

definition ts_lex_state_116 :: "bool \<Rightarrow> char \<Rightarrow> nat option \<times> lex_move" where
  [lex_states]: "ts_lex_state_116 eof lookahead =
    (Some sym_identifier,
     if lookahead = CHR ''n'' then ADVANCE 49
     else if (CHR ''0'' \<le> lookahead \<and> lookahead \<le> CHR ''9'') \<or> (CHR ''A'' \<le> lookahead \<and> lookahead \<le> CHR ''Z'') \<or> lookahead = CHR ''_'' \<or> (CHR ''a'' \<le> lookahead \<and> lookahead \<le> CHR ''z'') then ADVANCE 140
     else END_STATE)"

definition ts_lex_state_117 :: "bool \<Rightarrow> char \<Rightarrow> nat option \<times> lex_move" where
  [lex_states]: "ts_lex_state_117 eof lookahead =
    (Some sym_identifier,
     if lookahead = CHR ''n'' then ADVANCE 53
     else if (CHR ''0'' \<le> lookahead \<and> lookahead \<le> CHR ''9'') \<or> (CHR ''A'' \<le> lookahead \<and> lookahead \<le> CHR ''Z'') \<or> lookahead = CHR ''_'' \<or> (CHR ''a'' \<le> lookahead \<and> lookahead \<le> CHR ''z'') then ADVANCE 140
     else END_STATE)"

definition ts_lex_state_118 :: "bool \<Rightarrow> char \<Rightarrow> nat option \<times> lex_move" where
  [lex_states]: "ts_lex_state_118 eof lookahead =
    (Some sym_identifier,
     if lookahead = CHR ''n'' then ADVANCE 106
     else if (CHR ''0'' \<le> lookahead \<and> lookahead \<le> CHR ''9'') \<or> (CHR ''A'' \<le> lookahead \<and> lookahead \<le> CHR ''Z'') \<or> lookahead = CHR ''_'' \<or> (CHR ''a'' \<le> lookahead \<and> lookahead \<le> CHR ''z'') then ADVANCE 140
     else END_STATE)"

definition ts_lex_state_119 :: "bool \<Rightarrow> char \<Rightarrow> nat option \<times> lex_move" where
  [lex_states]: "ts_lex_state_119 eof lookahead =
    (Some sym_identifier,
     if lookahead = CHR ''o'' then ADVANCE 116
     else if (CHR ''0'' \<le> lookahead \<and> lookahead \<le> CHR ''9'') \<or> (CHR ''A'' \<le> lookahead \<and> lookahead \<le> CHR ''Z'') \<or> lookahead = CHR ''_'' \<or> (CHR ''a'' \<le> lookahead \<and> lookahead \<le> CHR ''z'') then ADVANCE 140
     else END_STATE)"

definition ts_lex_state_120 :: "bool \<Rightarrow> char \<Rightarrow> nat option \<times> lex_move" where
  [lex_states]: "ts_lex_state_120 eof lookahead =
    (Some sym_identifier,
     if lookahead = CHR ''o'' then ADVANCE 128
     else if (CHR ''0'' \<le> lookahead \<and> lookahead \<le> CHR ''9'') \<or> (CHR ''A'' \<le> lookahead \<and> lookahead \<le> CHR ''Z'') \<or> lookahead = CHR ''_'' \<or> (CHR ''a'' \<le> lookahead \<and> lookahead \<le> CHR ''z'') then ADVANCE 140
     else END_STATE)"

definition ts_lex_state_121 :: "bool \<Rightarrow> char \<Rightarrow> nat option \<times> lex_move" where
  [lex_states]: "ts_lex_state_121 eof lookahead =
    (Some sym_identifier,
     if lookahead = CHR ''o'' then ADVANCE 117
     else if (CHR ''0'' \<le> lookahead \<and> lookahead \<le> CHR ''9'') \<or> (CHR ''A'' \<le> lookahead \<and> lookahead \<le> CHR ''Z'') \<or> lookahead = CHR ''_'' \<or> (CHR ''a'' \<le> lookahead \<and> lookahead \<le> CHR ''z'') then ADVANCE 140
     else END_STATE)"

definition ts_lex_state_122 :: "bool \<Rightarrow> char \<Rightarrow> nat option \<times> lex_move" where
  [lex_states]: "ts_lex_state_122 eof lookahead =
    (Some sym_identifier,
     if lookahead = CHR ''p'' then ADVANCE 120
     else if (CHR ''0'' \<le> lookahead \<and> lookahead \<le> CHR ''9'') \<or> (CHR ''A'' \<le> lookahead \<and> lookahead \<le> CHR ''Z'') \<or> lookahead = CHR ''_'' \<or> (CHR ''a'' \<le> lookahead \<and> lookahead \<le> CHR ''z'') then ADVANCE 140
     else END_STATE)"

definition ts_lex_state_123 :: "bool \<Rightarrow> char \<Rightarrow> nat option \<times> lex_move" where
  [lex_states]: "ts_lex_state_123 eof lookahead =
    (Some sym_identifier,
     if lookahead = CHR ''p'' then ADVANCE 138
     else if (CHR ''0'' \<le> lookahead \<and> lookahead \<le> CHR ''9'') \<or> (CHR ''A'' \<le> lookahead \<and> lookahead \<le> CHR ''Z'') \<or> lookahead = CHR ''_'' \<or> (CHR ''a'' \<le> lookahead \<and> lookahead \<le> CHR ''z'') then ADVANCE 140
     else END_STATE)"

definition ts_lex_state_124 :: "bool \<Rightarrow> char \<Rightarrow> nat option \<times> lex_move" where
  [lex_states]: "ts_lex_state_124 eof lookahead =
    (Some sym_identifier,
     if lookahead = CHR ''p'' then ADVANCE 139
     else if (CHR ''0'' \<le> lookahead \<and> lookahead \<le> CHR ''9'') \<or> (CHR ''A'' \<le> lookahead \<and> lookahead \<le> CHR ''Z'') \<or> lookahead = CHR ''_'' \<or> (CHR ''a'' \<le> lookahead \<and> lookahead \<le> CHR ''z'') then ADVANCE 140
     else END_STATE)"

definition ts_lex_state_125 :: "bool \<Rightarrow> char \<Rightarrow> nat option \<times> lex_move" where
  [lex_states]: "ts_lex_state_125 eof lookahead =
    (Some sym_identifier,
     if lookahead = CHR ''r'' then ADVANCE 51
     else if (CHR ''0'' \<le> lookahead \<and> lookahead \<le> CHR ''9'') \<or> (CHR ''A'' \<le> lookahead \<and> lookahead \<le> CHR ''Z'') \<or> lookahead = CHR ''_'' \<or> (CHR ''a'' \<le> lookahead \<and> lookahead \<le> CHR ''z'') then ADVANCE 140
     else END_STATE)"

definition ts_lex_state_126 :: "bool \<Rightarrow> char \<Rightarrow> nat option \<times> lex_move" where
  [lex_states]: "ts_lex_state_126 eof lookahead =
    (Some sym_identifier,
     if lookahead = CHR ''r'' then ADVANCE 135
     else if (CHR ''0'' \<le> lookahead \<and> lookahead \<le> CHR ''9'') \<or> (CHR ''A'' \<le> lookahead \<and> lookahead \<le> CHR ''Z'') \<or> lookahead = CHR ''_'' \<or> (CHR ''a'' \<le> lookahead \<and> lookahead \<le> CHR ''z'') then ADVANCE 140
     else END_STATE)"

definition ts_lex_state_127 :: "bool \<Rightarrow> char \<Rightarrow> nat option \<times> lex_move" where
  [lex_states]: "ts_lex_state_127 eof lookahead =
    (Some sym_identifier,
     if lookahead = CHR ''r'' then ADVANCE 109
     else if (CHR ''0'' \<le> lookahead \<and> lookahead \<le> CHR ''9'') \<or> (CHR ''A'' \<le> lookahead \<and> lookahead \<le> CHR ''Z'') \<or> lookahead = CHR ''_'' \<or> (CHR ''a'' \<le> lookahead \<and> lookahead \<le> CHR ''z'') then ADVANCE 140
     else END_STATE)"

definition ts_lex_state_128 :: "bool \<Rightarrow> char \<Rightarrow> nat option \<times> lex_move" where
  [lex_states]: "ts_lex_state_128 eof lookahead =
    (Some sym_identifier,
     if lookahead = CHR ''r'' then ADVANCE 131
     else if (CHR ''0'' \<le> lookahead \<and> lookahead \<le> CHR ''9'') \<or> (CHR ''A'' \<le> lookahead \<and> lookahead \<le> CHR ''Z'') \<or> lookahead = CHR ''_'' \<or> (CHR ''a'' \<le> lookahead \<and> lookahead \<le> CHR ''z'') then ADVANCE 140
     else END_STATE)"

definition ts_lex_state_129 :: "bool \<Rightarrow> char \<Rightarrow> nat option \<times> lex_move" where
  [lex_states]: "ts_lex_state_129 eof lookahead =
    (Some sym_identifier,
     if lookahead = CHR ''s'' then ADVANCE 104
     else if (CHR ''0'' \<le> lookahead \<and> lookahead \<le> CHR ''9'') \<or> (CHR ''A'' \<le> lookahead \<and> lookahead \<le> CHR ''Z'') \<or> lookahead = CHR ''_'' \<or> (CHR ''a'' \<le> lookahead \<and> lookahead \<le> CHR ''z'') then ADVANCE 140
     else END_STATE)"

definition ts_lex_state_130 :: "bool \<Rightarrow> char \<Rightarrow> nat option \<times> lex_move" where
  [lex_states]: "ts_lex_state_130 eof lookahead =
    (Some sym_identifier,
     if lookahead = CHR ''t'' then ADVANCE 59
     else if (CHR ''0'' \<le> lookahead \<and> lookahead \<le> CHR ''9'') \<or> (CHR ''A'' \<le> lookahead \<and> lookahead \<le> CHR ''Z'') \<or> lookahead = CHR ''_'' \<or> (CHR ''a'' \<le> lookahead \<and> lookahead \<le> CHR ''z'') then ADVANCE 140
     else END_STATE)"

definition ts_lex_state_131 :: "bool \<Rightarrow> char \<Rightarrow> nat option \<times> lex_move" where
  [lex_states]: "ts_lex_state_131 eof lookahead =
    (Some sym_identifier,
     if lookahead = CHR ''t'' then ADVANCE 62
     else if (CHR ''0'' \<le> lookahead \<and> lookahead \<le> CHR ''9'') \<or> (CHR ''A'' \<le> lookahead \<and> lookahead \<le> CHR ''Z'') \<or> lookahead = CHR ''_'' \<or> (CHR ''a'' \<le> lookahead \<and> lookahead \<le> CHR ''z'') then ADVANCE 140
     else END_STATE)"

definition ts_lex_state_132 :: "bool \<Rightarrow> char \<Rightarrow> nat option \<times> lex_move" where
  [lex_states]: "ts_lex_state_132 eof lookahead =
    (Some sym_identifier,
     if lookahead = CHR ''t'' then ADVANCE 55
     else if (CHR ''0'' \<le> lookahead \<and> lookahead \<le> CHR ''9'') \<or> (CHR ''A'' \<le> lookahead \<and> lookahead \<le> CHR ''Z'') \<or> lookahead = CHR ''_'' \<or> (CHR ''a'' \<le> lookahead \<and> lookahead \<le> CHR ''z'') then ADVANCE 140
     else END_STATE)"

definition ts_lex_state_133 :: "bool \<Rightarrow> char \<Rightarrow> nat option \<times> lex_move" where
  [lex_states]: "ts_lex_state_133 eof lookahead =
    (Some sym_identifier,
     if lookahead = CHR ''t'' then ADVANCE 110
     else if (CHR ''0'' \<le> lookahead \<and> lookahead \<le> CHR ''9'') \<or> (CHR ''A'' \<le> lookahead \<and> lookahead \<le> CHR ''Z'') \<or> lookahead = CHR ''_'' \<or> (CHR ''a'' \<le> lookahead \<and> lookahead \<le> CHR ''z'') then ADVANCE 140
     else END_STATE)"

definition ts_lex_state_134 :: "bool \<Rightarrow> char \<Rightarrow> nat option \<times> lex_move" where
  [lex_states]: "ts_lex_state_134 eof lookahead =
    (Some sym_identifier,
     if lookahead = CHR ''t'' then ADVANCE 124
     else if (CHR ''0'' \<le> lookahead \<and> lookahead \<le> CHR ''9'') \<or> (CHR ''A'' \<le> lookahead \<and> lookahead \<le> CHR ''Z'') \<or> lookahead = CHR ''_'' \<or> (CHR ''a'' \<le> lookahead \<and> lookahead \<le> CHR ''z'') then ADVANCE 140
     else END_STATE)"

definition ts_lex_state_135 :: "bool \<Rightarrow> char \<Rightarrow> nat option \<times> lex_move" where
  [lex_states]: "ts_lex_state_135 eof lookahead =
    (Some sym_identifier,
     if lookahead = CHR ''u'' then ADVANCE 103
     else if (CHR ''0'' \<le> lookahead \<and> lookahead \<le> CHR ''9'') \<or> (CHR ''A'' \<le> lookahead \<and> lookahead \<le> CHR ''Z'') \<or> lookahead = CHR ''_'' \<or> (CHR ''a'' \<le> lookahead \<and> lookahead \<le> CHR ''z'') then ADVANCE 140
     else END_STATE)"

definition ts_lex_state_136 :: "bool \<Rightarrow> char \<Rightarrow> nat option \<times> lex_move" where
  [lex_states]: "ts_lex_state_136 eof lookahead =
    (Some sym_identifier,
     if lookahead = CHR ''u'' then ADVANCE 134
     else if (CHR ''0'' \<le> lookahead \<and> lookahead \<le> CHR ''9'') \<or> (CHR ''A'' \<le> lookahead \<and> lookahead \<le> CHR ''Z'') \<or> lookahead = CHR ''_'' \<or> (CHR ''a'' \<le> lookahead \<and> lookahead \<le> CHR ''z'') then ADVANCE 140
     else END_STATE)"

definition ts_lex_state_137 :: "bool \<Rightarrow> char \<Rightarrow> nat option \<times> lex_move" where
  [lex_states]: "ts_lex_state_137 eof lookahead =
    (Some sym_identifier,
     if lookahead = CHR ''u'' then ADVANCE 113
     else if (CHR ''0'' \<le> lookahead \<and> lookahead \<le> CHR ''9'') \<or> (CHR ''A'' \<le> lookahead \<and> lookahead \<le> CHR ''Z'') \<or> lookahead = CHR ''_'' \<or> (CHR ''a'' \<le> lookahead \<and> lookahead \<le> CHR ''z'') then ADVANCE 140
     else END_STATE)"

definition ts_lex_state_138 :: "bool \<Rightarrow> char \<Rightarrow> nat option \<times> lex_move" where
  [lex_states]: "ts_lex_state_138 eof lookahead =
    (Some sym_identifier,
     if lookahead = CHR ''u'' then ADVANCE 130
     else if (CHR ''0'' \<le> lookahead \<and> lookahead \<le> CHR ''9'') \<or> (CHR ''A'' \<le> lookahead \<and> lookahead \<le> CHR ''Z'') \<or> lookahead = CHR ''_'' \<or> (CHR ''a'' \<le> lookahead \<and> lookahead \<le> CHR ''z'') then ADVANCE 140
     else END_STATE)"

definition ts_lex_state_139 :: "bool \<Rightarrow> char \<Rightarrow> nat option \<times> lex_move" where
  [lex_states]: "ts_lex_state_139 eof lookahead =
    (Some sym_identifier,
     if lookahead = CHR ''u'' then ADVANCE 132
     else if (CHR ''0'' \<le> lookahead \<and> lookahead \<le> CHR ''9'') \<or> (CHR ''A'' \<le> lookahead \<and> lookahead \<le> CHR ''Z'') \<or> lookahead = CHR ''_'' \<or> (CHR ''a'' \<le> lookahead \<and> lookahead \<le> CHR ''z'') then ADVANCE 140
     else END_STATE)"

definition ts_lex_state_140 :: "bool \<Rightarrow> char \<Rightarrow> nat option \<times> lex_move" where
  [lex_states]: "ts_lex_state_140 eof lookahead =
    (Some sym_identifier,
     if (CHR ''0'' \<le> lookahead \<and> lookahead \<le> CHR ''9'') \<or> (CHR ''A'' \<le> lookahead \<and> lookahead \<le> CHR ''Z'') \<or> lookahead = CHR ''_'' \<or> (CHR ''a'' \<le> lookahead \<and> lookahead \<le> CHR ''z'') then ADVANCE 140
     else END_STATE)"

definition ts_lex_state_141 :: "bool \<Rightarrow> char \<Rightarrow> nat option \<times> lex_move" where
  [lex_states]: "ts_lex_state_141 eof lookahead =
    (Some anon_sym_POUND,
     END_STATE)"

definition ts_lex_state_142 :: "bool \<Rightarrow> char \<Rightarrow> nat option \<times> lex_move" where
  [lex_states]: "ts_lex_state_142 eof lookahead =
    (Some anon_sym_POUND,
     if lookahead = CHR ''*'' then ADVANCE 159
     else if lookahead \<noteq> CHR 0x00 then ADVANCE 9
     else END_STATE)"

definition ts_lex_state_143 :: "bool \<Rightarrow> char \<Rightarrow> nat option \<times> lex_move" where
  [lex_states]: "ts_lex_state_143 eof lookahead =
    (Some anon_sym_POUND,
     if lookahead \<noteq> CHR 0x00 \<and> lookahead \<noteq> CHR 0x0A then ADVANCE 148
     else END_STATE)"

definition ts_lex_state_144 :: "bool \<Rightarrow> char \<Rightarrow> nat option \<times> lex_move" where
  [lex_states]: "ts_lex_state_144 eof lookahead =
    (Some anon_sym_POUND,
     if lookahead \<noteq> CHR 0x00 \<and> lookahead \<noteq> CHR 0x22 then ADVANCE 69
     else END_STATE)"

definition ts_lex_state_145 :: "bool \<Rightarrow> char \<Rightarrow> nat option \<times> lex_move" where
  [lex_states]: "ts_lex_state_145 eof lookahead =
    (Some anon_sym_POUND,
     if lookahead \<noteq> CHR 0x00 \<and> lookahead \<noteq> CHR 0x27 then ADVANCE 73
     else END_STATE)"

definition ts_lex_state_146 :: "bool \<Rightarrow> char \<Rightarrow> nat option \<times> lex_move" where
  [lex_states]: "ts_lex_state_146 eof lookahead =
    (Some aux_sym_comment_token1,
     if lookahead = CHR ''#'' then ADVANCE 143
     else if lookahead = CHR ''/'' then ADVANCE 147
     else if lookahead = CHR 0x09 \<or> lookahead = CHR 0x0D \<or> lookahead = CHR '' '' then ADVANCE 146
     else if lookahead \<noteq> CHR 0x00 \<and> lookahead \<noteq> CHR 0x0A then ADVANCE 148
     else END_STATE)"

definition ts_lex_state_147 :: "bool \<Rightarrow> char \<Rightarrow> nat option \<times> lex_move" where
  [lex_states]: "ts_lex_state_147 eof lookahead =
    (Some aux_sym_comment_token1,
     if lookahead = CHR ''*'' then ADVANCE 156
     else if lookahead = CHR ''/'' then ADVANCE 151
     else if lookahead \<noteq> CHR 0x00 \<and> lookahead \<noteq> CHR 0x0A then ADVANCE 148
     else END_STATE)"

definition ts_lex_state_148 :: "bool \<Rightarrow> char \<Rightarrow> nat option \<times> lex_move" where
  [lex_states]: "ts_lex_state_148 eof lookahead =
    (Some aux_sym_comment_token1,
     if lookahead \<noteq> CHR 0x00 \<and> lookahead \<noteq> CHR 0x0A then ADVANCE 148
     else END_STATE)"

definition ts_lex_state_149 :: "bool \<Rightarrow> char \<Rightarrow> nat option \<times> lex_move" where
  [lex_states]: "ts_lex_state_149 eof lookahead =
    (Some anon_sym_SLASH_SLASH,
     END_STATE)"

definition ts_lex_state_150 :: "bool \<Rightarrow> char \<Rightarrow> nat option \<times> lex_move" where
  [lex_states]: "ts_lex_state_150 eof lookahead =
    (Some anon_sym_SLASH_SLASH,
     if lookahead = CHR ''*'' then ADVANCE 159
     else if lookahead \<noteq> CHR 0x00 then ADVANCE 9
     else END_STATE)"

definition ts_lex_state_151 :: "bool \<Rightarrow> char \<Rightarrow> nat option \<times> lex_move" where
  [lex_states]: "ts_lex_state_151 eof lookahead =
    (Some anon_sym_SLASH_SLASH,
     if lookahead \<noteq> CHR 0x00 \<and> lookahead \<noteq> CHR 0x0A then ADVANCE 148
     else END_STATE)"

definition ts_lex_state_152 :: "bool \<Rightarrow> char \<Rightarrow> nat option \<times> lex_move" where
  [lex_states]: "ts_lex_state_152 eof lookahead =
    (Some anon_sym_SLASH_SLASH,
     if lookahead \<noteq> CHR 0x00 \<and> lookahead \<noteq> CHR 0x22 then ADVANCE 69
     else END_STATE)"

definition ts_lex_state_153 :: "bool \<Rightarrow> char \<Rightarrow> nat option \<times> lex_move" where
  [lex_states]: "ts_lex_state_153 eof lookahead =
    (Some anon_sym_SLASH_SLASH,
     if lookahead \<noteq> CHR 0x00 \<and> lookahead \<noteq> CHR 0x27 then ADVANCE 73
     else END_STATE)"

definition ts_lex_state_154 :: "bool \<Rightarrow> char \<Rightarrow> nat option \<times> lex_move" where
  [lex_states]: "ts_lex_state_154 eof lookahead =
    (Some anon_sym_SLASH_STAR,
     END_STATE)"

definition ts_lex_state_155 :: "bool \<Rightarrow> char \<Rightarrow> nat option \<times> lex_move" where
  [lex_states]: "ts_lex_state_155 eof lookahead =
    (Some anon_sym_SLASH_STAR,
     if lookahead = CHR ''*'' then ADVANCE 159
     else if lookahead \<noteq> CHR 0x00 \<and> lookahead \<noteq> CHR ''/'' then ADVANCE 9
     else END_STATE)"

definition ts_lex_state_156 :: "bool \<Rightarrow> char \<Rightarrow> nat option \<times> lex_move" where
  [lex_states]: "ts_lex_state_156 eof lookahead =
    (Some anon_sym_SLASH_STAR,
     if lookahead \<noteq> CHR 0x00 \<and> lookahead \<noteq> CHR 0x0A then ADVANCE 148
     else END_STATE)"

definition ts_lex_state_157 :: "bool \<Rightarrow> char \<Rightarrow> nat option \<times> lex_move" where
  [lex_states]: "ts_lex_state_157 eof lookahead =
    (Some anon_sym_SLASH_STAR,
     if lookahead \<noteq> CHR 0x00 \<and> lookahead \<noteq> CHR 0x22 then ADVANCE 69
     else END_STATE)"

definition ts_lex_state_158 :: "bool \<Rightarrow> char \<Rightarrow> nat option \<times> lex_move" where
  [lex_states]: "ts_lex_state_158 eof lookahead =
    (Some anon_sym_SLASH_STAR,
     if lookahead \<noteq> CHR 0x00 \<and> lookahead \<noteq> CHR 0x27 then ADVANCE 73
     else END_STATE)"

definition ts_lex_state_159 :: "bool \<Rightarrow> char \<Rightarrow> nat option \<times> lex_move" where
  [lex_states]: "ts_lex_state_159 eof lookahead =
    (Some aux_sym_comment_token2,
     if lookahead = CHR ''*'' then ADVANCE 159
     else if lookahead \<noteq> CHR 0x00 \<and> lookahead \<noteq> CHR ''/'' then ADVANCE 9
     else END_STATE)"

definition ts_lex_case :: "nat \<Rightarrow> bool \<Rightarrow> char \<Rightarrow> nat option \<times> lex_move" where
  "ts_lex_case state =
    (if state = 0 then ts_lex_state_0
     else if state = 1 then ts_lex_state_1
     else if state = 2 then ts_lex_state_2
     else if state = 3 then ts_lex_state_3
     else if state = 4 then ts_lex_state_4
     else if state = 5 then ts_lex_state_5
     else if state = 6 then ts_lex_state_6
     else if state = 7 then ts_lex_state_7
     else if state = 8 then ts_lex_state_8
     else if state = 9 then ts_lex_state_9
     else if state = 10 then ts_lex_state_10
     else if state = 11 then ts_lex_state_11
     else if state = 12 then ts_lex_state_12
     else if state = 13 then ts_lex_state_13
     else if state = 14 then ts_lex_state_14
     else if state = 15 then ts_lex_state_15
     else if state = 16 then ts_lex_state_16
     else if state = 17 then ts_lex_state_17
     else if state = 18 then ts_lex_state_18
     else if state = 19 then ts_lex_state_19
     else if state = 20 then ts_lex_state_20
     else if state = 21 then ts_lex_state_21
     else if state = 22 then ts_lex_state_22
     else if state = 23 then ts_lex_state_23
     else if state = 24 then ts_lex_state_24
     else if state = 25 then ts_lex_state_25
     else if state = 26 then ts_lex_state_26
     else if state = 27 then ts_lex_state_27
     else if state = 28 then ts_lex_state_28
     else if state = 29 then ts_lex_state_29
     else if state = 30 then ts_lex_state_30
     else if state = 31 then ts_lex_state_31
     else if state = 32 then ts_lex_state_32
     else if state = 33 then ts_lex_state_33
     else if state = 34 then ts_lex_state_34
     else if state = 35 then ts_lex_state_35
     else if state = 36 then ts_lex_state_36
     else if state = 37 then ts_lex_state_37
     else if state = 38 then ts_lex_state_38
     else if state = 39 then ts_lex_state_39
     else if state = 40 then ts_lex_state_40
     else if state = 41 then ts_lex_state_41
     else if state = 42 then ts_lex_state_42
     else if state = 43 then ts_lex_state_43
     else if state = 44 then ts_lex_state_44
     else if state = 45 then ts_lex_state_45
     else if state = 46 then ts_lex_state_46
     else if state = 47 then ts_lex_state_47
     else if state = 48 then ts_lex_state_48
     else if state = 49 then ts_lex_state_49
     else if state = 50 then ts_lex_state_50
     else if state = 51 then ts_lex_state_51
     else if state = 52 then ts_lex_state_52
     else if state = 53 then ts_lex_state_53
     else if state = 54 then ts_lex_state_54
     else if state = 55 then ts_lex_state_55
     else if state = 56 then ts_lex_state_56
     else if state = 57 then ts_lex_state_57
     else if state = 58 then ts_lex_state_58
     else if state = 59 then ts_lex_state_59
     else if state = 60 then ts_lex_state_60
     else if state = 61 then ts_lex_state_61
     else if state = 62 then ts_lex_state_62
     else if state = 63 then ts_lex_state_63
     else if state = 64 then ts_lex_state_64
     else if state = 65 then ts_lex_state_65
     else if state = 66 then ts_lex_state_66
     else if state = 67 then ts_lex_state_67
     else if state = 68 then ts_lex_state_68
     else if state = 69 then ts_lex_state_69
     else if state = 70 then ts_lex_state_70
     else if state = 71 then ts_lex_state_71
     else if state = 72 then ts_lex_state_72
     else if state = 73 then ts_lex_state_73
     else if state = 74 then ts_lex_state_74
     else if state = 75 then ts_lex_state_75
     else if state = 76 then ts_lex_state_76
     else if state = 77 then ts_lex_state_77
     else if state = 78 then ts_lex_state_78
     else if state = 79 then ts_lex_state_79
     else if state = 80 then ts_lex_state_80
     else if state = 81 then ts_lex_state_81
     else if state = 82 then ts_lex_state_82
     else if state = 83 then ts_lex_state_83
     else if state = 84 then ts_lex_state_84
     else if state = 85 then ts_lex_state_85
     else if state = 86 then ts_lex_state_86
     else if state = 87 then ts_lex_state_87
     else if state = 88 then ts_lex_state_88
     else if state = 89 then ts_lex_state_89
     else if state = 90 then ts_lex_state_90
     else if state = 91 then ts_lex_state_91
     else if state = 92 then ts_lex_state_92
     else if state = 93 then ts_lex_state_93
     else if state = 94 then ts_lex_state_94
     else if state = 95 then ts_lex_state_95
     else if state = 96 then ts_lex_state_96
     else if state = 97 then ts_lex_state_97
     else if state = 98 then ts_lex_state_98
     else if state = 99 then ts_lex_state_99
     else if state = 100 then ts_lex_state_100
     else if state = 101 then ts_lex_state_101
     else if state = 102 then ts_lex_state_102
     else if state = 103 then ts_lex_state_103
     else if state = 104 then ts_lex_state_104
     else if state = 105 then ts_lex_state_105
     else if state = 106 then ts_lex_state_106
     else if state = 107 then ts_lex_state_107
     else if state = 108 then ts_lex_state_108
     else if state = 109 then ts_lex_state_109
     else if state = 110 then ts_lex_state_110
     else if state = 111 then ts_lex_state_111
     else if state = 112 then ts_lex_state_112
     else if state = 113 then ts_lex_state_113
     else if state = 114 then ts_lex_state_114
     else if state = 115 then ts_lex_state_115
     else if state = 116 then ts_lex_state_116
     else if state = 117 then ts_lex_state_117
     else if state = 118 then ts_lex_state_118
     else if state = 119 then ts_lex_state_119
     else if state = 120 then ts_lex_state_120
     else if state = 121 then ts_lex_state_121
     else if state = 122 then ts_lex_state_122
     else if state = 123 then ts_lex_state_123
     else if state = 124 then ts_lex_state_124
     else if state = 125 then ts_lex_state_125
     else if state = 126 then ts_lex_state_126
     else if state = 127 then ts_lex_state_127
     else if state = 128 then ts_lex_state_128
     else if state = 129 then ts_lex_state_129
     else if state = 130 then ts_lex_state_130
     else if state = 131 then ts_lex_state_131
     else if state = 132 then ts_lex_state_132
     else if state = 133 then ts_lex_state_133
     else if state = 134 then ts_lex_state_134
     else if state = 135 then ts_lex_state_135
     else if state = 136 then ts_lex_state_136
     else if state = 137 then ts_lex_state_137
     else if state = 138 then ts_lex_state_138
     else if state = 139 then ts_lex_state_139
     else if state = 140 then ts_lex_state_140
     else if state = 141 then ts_lex_state_141
     else if state = 142 then ts_lex_state_142
     else if state = 143 then ts_lex_state_143
     else if state = 144 then ts_lex_state_144
     else if state = 145 then ts_lex_state_145
     else if state = 146 then ts_lex_state_146
     else if state = 147 then ts_lex_state_147
     else if state = 148 then ts_lex_state_148
     else if state = 149 then ts_lex_state_149
     else if state = 150 then ts_lex_state_150
     else if state = 151 then ts_lex_state_151
     else if state = 152 then ts_lex_state_152
     else if state = 153 then ts_lex_state_153
     else if state = 154 then ts_lex_state_154
     else if state = 155 then ts_lex_state_155
     else if state = 156 then ts_lex_state_156
     else if state = 157 then ts_lex_state_157
     else if state = 158 then ts_lex_state_158
     else if state = 159 then ts_lex_state_159
     else (\<lambda>eof lookahead. (None, RETURN_FALSE)))"

subsection \<open>Running the automaton\<close>

text \<open>
  Modelled from the spec: the lexer object and the macros \<^verbatim>\<open>START_LEXER\<close>,
  \<^verbatim>\<open>ADVANCE\<close>, \<^verbatim>\<open>SKIP\<close>, \<^verbatim>\<open>ACCEPT_TOKEN\<close> and \<^verbatim>\<open>END_STATE\<close> come from
  \<^verbatim>\<open>tree_sitter/parser.h\<close>, which is not under \<^verbatim>\<open>src/\<close>. The lexer is a cursor over
  the buffer: \<open>chunk\<close> is the unread text, the lookahead is its first character (NUL at
  the end of input), advancing at the end of input does nothing, a skipped character moves
  the token start, and accepting a token sets the result symbol and marks the token end at
  the cursor.
\<close>

datatype lexer =
  Lexer (chunk: string) (current_position: nat) (token_start_position: nat)
    (token_end_position: nat) (result_symbol: nat)

fun lexer_lookahead :: "lexer \<Rightarrow> char" where
  "lexer_lookahead (Lexer [] pos tok_start tok_end symbol) = CHR 0x00"
| "lexer_lookahead (Lexer (c # cs) pos tok_start tok_end symbol) = c"

fun lexer_eof :: "lexer \<Rightarrow> bool" where
  "lexer_eof (Lexer [] pos tok_start tok_end symbol) = True"
| "lexer_eof (Lexer (c # cs) pos tok_start tok_end symbol) = False"

fun lexer_advance :: "lexer \<Rightarrow> bool \<Rightarrow> lexer" where
  "lexer_advance (Lexer [] pos tok_start tok_end symbol) skip = Lexer [] pos tok_start tok_end symbol"
| "lexer_advance (Lexer (c # cs) pos tok_start tok_end symbol) skip =
    Lexer cs (Suc pos) (if skip then Suc pos else tok_start) tok_end symbol"

fun accept_token :: "nat option \<Rightarrow> lexer \<Rightarrow> lexer" where
  "accept_token None lexer = lexer"
| "accept_token (Some symbol_value) (Lexer cs pos tok_start tok_end symbol) =
    Lexer cs pos tok_start pos symbol_value"

text \<open>The numbers below \<open>k\<close>, to run through the states of a table.\<close>

fun states_below :: "nat \<Rightarrow> nat list" where
  "states_below k = (if k = 0 then [] else (k - 1) # states_below (k - 1))"

declare states_below.simps [simp del]

definition eof_case_ok :: "nat \<Rightarrow> bool" where
  "eof_case_ok state =
    (case snd (ts_lex_case state True (CHR 0x00)) of
       ADVANCE s \<Rightarrow> (state = 0 \<or> state = 46) \<and> s = 47
     | SKIP s \<Rightarrow> False
     | END_STATE \<Rightarrow> True
     | RETURN_FALSE \<Rightarrow> True)"

fun accept_result :: "nat option \<Rightarrow> bool \<Rightarrow> bool" where
  "accept_result None result = result"
| "accept_result (Some symbol_value) result = True"

text \<open>
  The body of \<^verbatim>\<open>ts_lex\<close>: the loop through \<^verbatim>\<open>next_state\<close> and \<^verbatim>\<open>start\<close>, with the
  local variable \<^verbatim>\<open>result\<close> as an argument. \<^verbatim>\<open>ACCEPT_TOKEN\<close> comes first in a case,
  so the token is accepted before the state is left.
\<close>

function ts_lex_loop :: "lexer \<Rightarrow> nat \<Rightarrow> bool \<Rightarrow> lexer \<times> bool" where
  "ts_lex_loop lexer state result =
    (case ts_lex_case state (lexer_eof lexer) (lexer_lookahead lexer) of
       (accept, move) \<Rightarrow>
         (case move of
            ADVANCE s \<Rightarrow>
              ts_lex_loop (lexer_advance (accept_token accept lexer) False) s (accept_result accept result)
          | SKIP s \<Rightarrow>
              ts_lex_loop (lexer_advance (accept_token accept lexer) True) s (accept_result accept result)
          | END_STATE \<Rightarrow> (accept_token accept lexer, accept_result accept result)
          | RETURN_FALSE \<Rightarrow> (accept_token accept lexer, False)))"
  by pat_completeness auto

text \<open>
  The loop ends: every pass but one consumes a character. At the end of input only the
  states 0 and 46 advance, to state 47, which ends the loop; no state skips there.
\<close>

termination
proof (relation "measure (\<lambda>(lexer, state, result).
    2 * length (chunk lexer) + (if chunk lexer = [] \<and> (state = 0 \<or> state = 46) then 1 else 0))",
    goal_cases)
  have states: "list_all eof_case_ok (states_below 160)"
    by (simp add: states_below.simps eof_case_ok_def ts_lex_case_def lex_states)
  have below: "set (states_below k) = {..<k}" for k
  proof (induction k rule: states_below.induct)
    case (1 k)
    show ?case
    proof (cases "k = 0")
      case True
      then show ?thesis by (simp add: states_below.simps)
    next
      case False
      then have "set (states_below k) = insert (k - 1) {..<k - 1}"
        using 1 by (simp add: states_below.simps [of k])
      also have "\<dots> = {..<k}" using False by auto
      finally show ?thesis .
    qed
  qed
  have ok: "eof_case_ok state" for state
  proof (cases "state < 160")
    case True
    then show ?thesis using states by (simp add: list_all_iff below)
  next
    case False
    then show ?thesis by (simp add: eof_case_ok_def ts_lex_case_def)
  qed
  have advance_eof: "(state = 0 \<or> state = 46) \<and> s = 47"
    if "ts_lex_case state True (CHR 0x00) = (accept, ADVANCE s)" for state accept s
    using ok [of state] that by (simp add: eof_case_ok_def)
  have skip_eof: "ts_lex_case state True (CHR 0x00) \<noteq> (accept, SKIP s)" for state accept s
    using ok [of state] by (auto simp add: eof_case_ok_def)
  have chunk_accept: "chunk (accept_token accept lexer) = chunk lexer" for accept lexer
    by (cases accept; cases lexer) simp_all
  have shorter: "length (chunk (lexer_advance lexer skip)) < length (chunk lexer)"
    if "chunk lexer \<noteq> []" for lexer skip
    using that by (cases lexer; cases "chunk lexer") simp_all
  have stays: "chunk (lexer_advance lexer skip) = []" if "chunk lexer = []" for lexer skip
    using that by (cases lexer) simp
  have at_eof: "lexer_eof lexer \<and> lexer_lookahead lexer = CHR 0x00" if "chunk lexer = []" for lexer
    using that by (cases lexer) simp
  {
    case 1
    show ?case by simp
  next
    case (2 lexer state result accept move s)
    show ?case
    proof (cases "chunk lexer = []")
      case True
      then have "ts_lex_case state True (CHR 0x00) = (accept, ADVANCE s)"
        using 2 at_eof [of lexer] by simp
      then have "(state = 0 \<or> state = 46) \<and> s = 47"
        by (rule advance_eof)
      then show ?thesis
        using True stays [of "accept_token accept lexer" False]
        by (auto simp add: chunk_accept)
    next
      case False
      then show ?thesis
        using shorter [of "accept_token accept lexer" False]
        by (auto simp add: chunk_accept)
    qed
  next
    case (3 lexer state result accept move s)
    show ?case
    proof (cases "chunk lexer = []")
      case True
      then have "ts_lex_case state True (CHR 0x00) = (accept, SKIP s)"
        using 3 at_eof [of lexer] by simp
      then show ?thesis using skip_eof by blast
    next
      case False
      then show ?thesis
        using shorter [of "accept_token accept lexer" True]
        by (auto simp add: chunk_accept)
    qed
  }
qed

declare ts_lex_loop.simps [simp del]

definition ts_lex :: "lexer \<Rightarrow> nat \<Rightarrow> lexer \<times> bool" where
  "ts_lex lexer state = ts_lex_loop lexer state False"

section \<open>Lex modes, parse tables and parse actions\<close>

definition ts_lex_modes :: "nat \<Rightarrow> nat" where
  "ts_lex_modes state =
    (if state = 0 then 0
     else if state = 1 then 46
     else if state = 2 then 2
     else if state = 3 then 2
     else if state = 4 then 2
     else if state = 5 then 2
     else if state = 6 then 2
     else if state = 7 then 2
     else if state = 8 then 2
     else if state = 9 then 2
     else if state = 10 then 2
     else if state = 11 then 2
     else if state = 12 then 2
     else if state = 13 then 2
     else if state = 14 then 2
     else if state = 15 then 2
     else if state = 16 then 2
     else if state = 17 then 46
     else if state = 18 then 2
     else if state = 19 then 2
     else if state = 20 then 2
     else if state = 21 then 46
     else if state = 22 then 46
     else if state = 23 then 46
     else if state = 24 then 46
     else if state = 25 then 46
     else if state = 26 then 46
     else if state = 27 then 46
     else if state = 28 then 46
     else if state = 29 then 46
     else if state = 30 then 46
     else if state = 31 then 46
     else if state = 32 then 46
     else if state = 33 then 46
     else if state = 34 then 46
     else if state = 35 then 46
     else if state = 36 then 46
     else if state = 37 then 46
     else if state = 38 then 46
     else if state = 39 then 46
     else if state = 40 then 46
     else if state = 41 then 46
     else if state = 42 then 46
     else if state = 43 then 46
     else if state = 44 then 46
     else if state = 45 then 46
     else if state = 46 then 46
     else if state = 47 then 1
     else if state = 48 then 46
     else if state = 49 then 46
     else if state = 50 then 46
     else if state = 51 then 46
     else if state = 52 then 46
     else if state = 53 then 46
     else if state = 54 then 46
     else if state = 55 then 1
     else if state = 56 then 1
     else if state = 57 then 46
     else if state = 58 then 46
     else if state = 59 then 1
     else if state = 60 then 1
     else if state = 61 then 1
     else if state = 62 then 1
     else if state = 63 then 46
     else if state = 64 then 0
     else if state = 65 then 1
     else if state = 66 then 1
     else if state = 67 then 0
     else if state = 68 then 1
     else if state = 69 then 1
     else if state = 70 then 0
     else if state = 71 then 0
     else if state = 72 then 1
     else if state = 73 then 0
     else if state = 74 then 1
     else if state = 75 then 1
     else if state = 76 then 1
     else if state = 77 then 1
     else if state = 78 then 1
     else if state = 79 then 1
     else if state = 80 then 0
     else if state = 81 then 1
     else if state = 82 then 1
     else if state = 83 then 1
     else if state = 84 then 1
     else if state = 85 then 1
     else if state = 86 then 1
     else if state = 87 then 1
     else if state = 88 then 1
     else if state = 89 then 1
     else if state = 90 then 1
     else if state = 91 then 1
     else if state = 92 then 1
     else if state = 93 then 1
     else if state = 94 then 1
     else if state = 95 then 0
     else if state = 96 then 0
     else if state = 97 then 1
     else if state = 98 then 0
     else if state = 99 then 0
     else if state = 100 then 0
     else if state = 101 then 0
     else if state = 102 then 0
     else if state = 103 then 1
     else if state = 104 then 1
     else if state = 105 then 0
     else if state = 106 then 0
     else if state = 107 then 0
     else if state = 108 then 0
     else if state = 109 then 0
     else if state = 110 then 0
     else if state = 111 then 0
     else if state = 112 then 0
     else if state = 113 then 0
     else if state = 114 then 0
     else if state = 115 then 0
     else if state = 116 then 0
     else if state = 117 then 0
     else if state = 118 then 0
     else if state = 119 then 1
     else if state = 120 then 0
     else if state = 121 then 0
     else if state = 122 then 0
     else if state = 123 then 1
     else if state = 124 then 0
     else if state = 125 then 0
     else if state = 126 then 0
     else if state = 127 then 1
     else if state = 128 then 0
     else if state = 129 then 0
     else if state = 130 then 0
     else if state = 131 then 0
     else if state = 132 then 71
     else if state = 133 then 0
     else if state = 134 then 0
     else if state = 135 then 67
     else if state = 136 then 0
     else if state = 137 then 4
     else if state = 138 then 0
     else if state = 139 then 0
     else if state = 140 then 0
     else if state = 141 then 6
     else if state = 142 then 0
     else if state = 143 then 146
     else if state = 144 then 0
     else if state = 145 then 7
     else if state = 146 then 0
     else if state = 147 then 4
     else if state = 148 then 6
     else if state = 149 then 67
     else if state = 150 then 71
     else if state = 151 then 65535
     else if state = 152 then 65535
     else 0)"

text \<open>
  The two large states are stored as dense rows of \<^verbatim>\<open>ts_parse_table\<close>, with 0 wherever
  the initialiser names no symbol. A row is given here by its non-zero entries.
\<close>

definition ts_parse_table :: "nat \<Rightarrow> (nat \<times> nat) list" where
  "ts_parse_table state =
    (if state = 0 then [
        (sym_comment, 0),
        (ts_builtin_sym_end, 1),
        (anon_sym_addon, 1),
        (anon_sym_signer, 1),
        (anon_sym_action, 1),
        (anon_sym_output, 1),
        (anon_sym_variable, 1),
        (anon_sym_input, 1),
        (anon_sym_EQ, 1),
        (anon_sym_import, 1),
        (anon_sym_LBRACE, 1),
        (anon_sym_RBRACE, 1),
        (anon_sym_DQUOTE, 1),
        (anon_sym_SQUOTE, 1),
        (anon_sym_DQUOTE_DQUOTE_DQUOTE, 1),
        (aux_sym_number_token1, 1),
        (aux_sym_number_token2, 1),
        (aux_sym_number_token3, 1),
        (anon_sym_true, 1),
        (anon_sym_false, 1),
        (sym_null, 1),
        (anon_sym_LBRACK, 1),
        (anon_sym_COMMA, 1),
        (anon_sym_RBRACK, 1),
        (anon_sym_COLON, 1),
        (anon_sym_DOT, 1),
        (anon_sym_LPAREN, 1),
        (anon_sym_RPAREN, 1),
        (anon_sym_STAR, 1),
        (anon_sym_SLASH, 1),
        (anon_sym_PLUS, 1),
        (anon_sym_DASH, 1),
        (sym_identifier, 1),
        (anon_sym_POUND, 3),
        (anon_sym_SLASH_SLASH, 5),
        (anon_sym_SLASH_STAR, 5)]
     else if state = 1 then [
        (sym_runbook, 142),
        (sym__statement, 48),
        (sym_addon_block, 51),
        (sym_signer_block, 51),
        (sym_action_block, 51),
        (sym_output_block, 51),
        (sym_variable_declaration, 51),
        (sym_input_declaration, 51),
        (sym_import_statement, 51),
        (sym_comment, 1),
        (aux_sym_runbook_repeat1, 28),
        (ts_builtin_sym_end, 7),
        (anon_sym_addon, 9),
        (anon_sym_signer, 11),
        (anon_sym_action, 13),
        (anon_sym_output, 15),
        (anon_sym_variable, 17),
        (anon_sym_input, 19),
        (anon_sym_import, 21),
        (anon_sym_POUND, 3),
        (anon_sym_SLASH_SLASH, 5),
        (anon_sym_SLASH_STAR, 5)]
     else [])"

text \<open>
  \<^verbatim>\<open>ts_small_parse_table\<close>: for every other state, the groups of its row in the order of
  the array. A group is a value (\<^verbatim>\<open>ACTIONS(n)\<close> or \<^verbatim>\<open>STATE(n)\<close>, both the number
  \<open>n\<close>) and the symbols that share it; \<^verbatim>\<open>ts_small_parse_table_map\<close> gives the offset
  of the row of each state.
\<close>

definition ts_small_parse_table_2 :: "(nat \<times> nat list) list" where
  [parse_rows]: "ts_small_parse_table_2 = [
    (3, [anon_sym_POUND]),
    (23, [anon_sym_LBRACE]),
    (25, [anon_sym_DQUOTE]),
    (27, [anon_sym_SQUOTE]),
    (29, [anon_sym_DQUOTE_DQUOTE_DQUOTE]),
    (33, [aux_sym_number_token3]),
    (37, [sym_null]),
    (39, [anon_sym_LBRACK]),
    (41, [anon_sym_COMMA]),
    (43, [anon_sym_RBRACK]),
    (45, [sym_identifier]),
    (2, [sym_comment]),
    (25, [sym_index_access]),
    (70, [sym__expression]),
    (5, [anon_sym_SLASH_SLASH, anon_sym_SLASH_STAR]),
    (31, [aux_sym_number_token1, aux_sym_number_token2]),
    (35, [anon_sym_true, anon_sym_false]),
    (32, [sym_string, sym_number, sym_boolean, sym_array, sym_object, sym_reference, sym_function_call, sym_binary_expression])]"

definition ts_small_parse_table_3 :: "(nat \<times> nat list) list" where
  [parse_rows]: "ts_small_parse_table_3 = [
    (3, [anon_sym_POUND]),
    (23, [anon_sym_LBRACE]),
    (25, [anon_sym_DQUOTE]),
    (27, [anon_sym_SQUOTE]),
    (29, [anon_sym_DQUOTE_DQUOTE_DQUOTE]),
    (33, [aux_sym_number_token3]),
    (37, [sym_null]),
    (39, [anon_sym_LBRACK]),
    (45, [sym_identifier]),
    (47, [anon_sym_COMMA]),
    (49, [anon_sym_RBRACK]),
    (3, [sym_comment]),
    (25, [sym_index_access]),
    (73, [sym__expression]),
    (5, [anon_sym_SLASH_SLASH, anon_sym_SLASH_STAR]),
    (31, [aux_sym_number_token1, aux_sym_number_token2]),
    (35, [anon_sym_true, anon_sym_false]),
    (32, [sym_string, sym_number, sym_boolean, sym_array, sym_object, sym_reference, sym_function_call, sym_binary_expression])]"

definition ts_small_parse_table_4 :: "(nat \<times> nat list) list" where
  [parse_rows]: "ts_small_parse_table_4 = [
    (3, [anon_sym_POUND]),
    (23, [anon_sym_LBRACE]),
    (25, [anon_sym_DQUOTE]),
    (27, [anon_sym_SQUOTE]),
    (29, [anon_sym_DQUOTE_DQUOTE_DQUOTE]),
    (33, [aux_sym_number_token3]),
    (37, [sym_null]),
    (39, [anon_sym_LBRACK]),
    (45, [sym_identifier]),
    (51, [anon_sym_RBRACK]),
    (4, [sym_comment]),
    (25, [sym_index_access]),
    (64, [sym__expression]),
    (5, [anon_sym_SLASH_SLASH, anon_sym_SLASH_STAR]),
    (31, [aux_sym_number_token1, aux_sym_number_token2]),
    (35, [anon_sym_true, anon_sym_false]),
    (32, [sym_string, sym_number, sym_boolean, sym_array, sym_object, sym_reference, sym_function_call, sym_binary_expression])]"

definition ts_small_parse_table_5 :: "(nat \<times> nat list) list" where
  [parse_rows]: "ts_small_parse_table_5 = [
    (3, [anon_sym_POUND]),
    (23, [anon_sym_LBRACE]),
    (25, [anon_sym_DQUOTE]),
    (27, [anon_sym_SQUOTE]),
    (29, [anon_sym_DQUOTE_DQUOTE_DQUOTE]),
    (33, [aux_sym_number_token3]),
    (37, [sym_null]),
    (39, [anon_sym_LBRACK]),
    (45, [sym_identifier]),
    (53, [anon_sym_RBRACK]),
    (5, [sym_comment]),
    (25, [sym_index_access]),
    (64, [sym__expression]),
    (5, [anon_sym_SLASH_SLASH, anon_sym_SLASH_STAR]),
    (31, [aux_sym_number_token1, aux_sym_number_token2]),
    (35, [anon_sym_true, anon_sym_false]),
    (32, [sym_string, sym_number, sym_boolean, sym_array, sym_object, sym_reference, sym_function_call, sym_binary_expression])]"

definition ts_small_parse_table_6 :: "(nat \<times> nat list) list" where
  [parse_rows]: "ts_small_parse_table_6 = [
    (3, [anon_sym_POUND]),
    (23, [anon_sym_LBRACE]),
    (25, [anon_sym_DQUOTE]),
    (27, [anon_sym_SQUOTE]),
    (29, [anon_sym_DQUOTE_DQUOTE_DQUOTE]),
    (33, [aux_sym_number_token3]),
    (37, [sym_null]),
    (39, [anon_sym_LBRACK]),
    (45, [sym_identifier]),
    (55, [anon_sym_RBRACK]),
    (6, [sym_comment]),
    (25, [sym_index_access]),
    (64, [sym__expression]),
    (5, [anon_sym_SLASH_SLASH, anon_sym_SLASH_STAR]),
    (31, [aux_sym_number_token1, aux_sym_number_token2]),
    (35, [anon_sym_true, anon_sym_false]),
    (32, [sym_string, sym_number, sym_boolean, sym_array, sym_object, sym_reference, sym_function_call, sym_binary_expression])]"

definition ts_small_parse_table_7 :: "(nat \<times> nat list) list" where
  [parse_rows]: "ts_small_parse_table_7 = [
    (3, [anon_sym_POUND]),
    (23, [anon_sym_LBRACE]),
    (25, [anon_sym_DQUOTE]),
    (27, [anon_sym_SQUOTE]),
    (29, [anon_sym_DQUOTE_DQUOTE_DQUOTE]),
    (33, [aux_sym_number_token3]),
    (37, [sym_null]),
    (39, [anon_sym_LBRACK]),
    (45, [sym_identifier]),
    (57, [anon_sym_RBRACK]),
    (7, [sym_comment]),
    (25, [sym_index_access]),
    (64, [sym__expression]),
    (5, [anon_sym_SLASH_SLASH, anon_sym_SLASH_STAR]),
    (31, [aux_sym_number_token1, aux_sym_number_token2]),
    (35, [anon_sym_true, anon_sym_false]),
    (32, [sym_string, sym_number, sym_boolean, sym_array, sym_object, sym_reference, sym_function_call, sym_binary_expression])]"

definition ts_small_parse_table_8 :: "(nat \<times> nat list) list" where
  [parse_rows]: "ts_small_parse_table_8 = [
    (3, [anon_sym_POUND]),
    (23, [anon_sym_LBRACE]),
    (25, [anon_sym_DQUOTE]),
    (27, [anon_sym_SQUOTE]),
    (29, [anon_sym_DQUOTE_DQUOTE_DQUOTE]),
    (33, [aux_sym_number_token3]),
    (37, [sym_null]),
    (39, [anon_sym_LBRACK]),
    (45, [sym_identifier]),
    (59, [anon_sym_RPAREN]),
    (8, [sym_comment]),
    (25, [sym_index_access]),
    (67, [sym__expression]),
    (5, [anon_sym_SLASH_SLASH, anon_sym_SLASH_STAR]),
    (31, [aux_sym_number_token1, aux_sym_number_token2]),
    (35, [anon_sym_true, anon_sym_false]),
    (32, [sym_string, sym_number, sym_boolean, sym_array, sym_object, sym_reference, sym_function_call, sym_binary_expression])]"

definition ts_small_parse_table_9 :: "(nat \<times> nat list) list" where
  [parse_rows]: "ts_small_parse_table_9 = [
    (3, [anon_sym_POUND]),
    (23, [anon_sym_LBRACE]),
    (25, [anon_sym_DQUOTE]),
    (27, [anon_sym_SQUOTE]),
    (29, [anon_sym_DQUOTE_DQUOTE_DQUOTE]),
    (33, [aux_sym_number_token3]),
    (37, [sym_null]),
    (39, [anon_sym_LBRACK]),
    (45, [sym_identifier]),
    (61, [anon_sym_RPAREN]),
    (9, [sym_comment]),
    (25, [sym_index_access]),
    (71, [sym__expression]),
    (5, [anon_sym_SLASH_SLASH, anon_sym_SLASH_STAR]),
    (31, [aux_sym_number_token1, aux_sym_number_token2]),
    (35, [anon_sym_true, anon_sym_false]),
    (32, [sym_string, sym_number, sym_boolean, sym_array, sym_object, sym_reference, sym_function_call, sym_binary_expression])]"

definition ts_small_parse_table_10 :: "(nat \<times> nat list) list" where
  [parse_rows]: "ts_small_parse_table_10 = [
    (3, [anon_sym_POUND]),
    (63, [anon_sym_LBRACE]),
    (65, [anon_sym_DQUOTE]),
    (67, [anon_sym_SQUOTE]),
    (69, [anon_sym_DQUOTE_DQUOTE_DQUOTE]),
    (73, [aux_sym_number_token3]),
    (77, [sym_null]),
    (79, [anon_sym_LBRACK]),
    (81, [sym_identifier]),
    (10, [sym_comment]),
    (55, [sym_index_access]),
    (83, [sym__expression]),
    (5, [anon_sym_SLASH_SLASH, anon_sym_SLASH_STAR]),
    (71, [aux_sym_number_token1, aux_sym_number_token2]),
    (75, [anon_sym_true, anon_sym_false]),
    (93, [sym_string, sym_number, sym_boolean, sym_array, sym_object, sym_reference, sym_function_call, sym_binary_expression])]"

definition ts_small_parse_table_11 :: "(nat \<times> nat list) list" where
  [parse_rows]: "ts_small_parse_table_11 = [
    (3, [anon_sym_POUND]),
    (23, [anon_sym_LBRACE]),
    (25, [anon_sym_DQUOTE]),
    (27, [anon_sym_SQUOTE]),
    (29, [anon_sym_DQUOTE_DQUOTE_DQUOTE]),
    (33, [aux_sym_number_token3]),
    (37, [sym_null]),
    (39, [anon_sym_LBRACK]),
    (45, [sym_identifier]),
    (11, [sym_comment]),
    (25, [sym_index_access]),
    (80, [sym__expression]),
    (5, [anon_sym_SLASH_SLASH, anon_sym_SLASH_STAR]),
    (31, [aux_sym_number_token1, aux_sym_number_token2]),
    (35, [anon_sym_true, anon_sym_false]),
    (32, [sym_string, sym_number, sym_boolean, sym_array, sym_object, sym_reference, sym_function_call, sym_binary_expression])]"

definition ts_small_parse_table_12 :: "(nat \<times> nat list) list" where
  [parse_rows]: "ts_small_parse_table_12 = [
    (3, [anon_sym_POUND]),
    (23, [anon_sym_LBRACE]),
    (25, [anon_sym_DQUOTE]),
    (27, [anon_sym_SQUOTE]),
    (29, [anon_sym_DQUOTE_DQUOTE_DQUOTE]),
    (33, [aux_sym_number_token3]),
    (37, [sym_null]),
    (39, [anon_sym_LBRACK]),
    (45, [sym_identifier]),
    (12, [sym_comment]),
    (25, [sym_index_access]),
    (95, [sym__expression]),
    (5, [anon_sym_SLASH_SLASH, anon_sym_SLASH_STAR]),
    (31, [aux_sym_number_token1, aux_sym_number_token2]),
    (35, [anon_sym_true, anon_sym_false]),
    (32, [sym_string, sym_number, sym_boolean, sym_array, sym_object, sym_reference, sym_function_call, sym_binary_expression])]"

definition ts_small_parse_table_13 :: "(nat \<times> nat list) list" where
  [parse_rows]: "ts_small_parse_table_13 = [
    (3, [anon_sym_POUND]),
    (23, [anon_sym_LBRACE]),
    (25, [anon_sym_DQUOTE]),
    (27, [anon_sym_SQUOTE]),
    (29, [anon_sym_DQUOTE_DQUOTE_DQUOTE]),
    (33, [aux_sym_number_token3]),
    (37, [sym_null]),
    (39, [anon_sym_LBRACK]),
    (45, [sym_identifier]),
    (13, [sym_comment]),
    (25, [sym_index_access]),
    (41, [sym__expression]),
    (5, [anon_sym_SLASH_SLASH, anon_sym_SLASH_STAR]),
    (31, [aux_sym_number_token1, aux_sym_number_token2]),
    (35, [anon_sym_true, anon_sym_false]),
    (32, [sym_string, sym_number, sym_boolean, sym_array, sym_object, sym_reference, sym_function_call, sym_binary_expression])]"

definition ts_small_parse_table_14 :: "(nat \<times> nat list) list" where
  [parse_rows]: "ts_small_parse_table_14 = [
    (3, [anon_sym_POUND]),
    (23, [anon_sym_LBRACE]),
    (25, [anon_sym_DQUOTE]),
    (27, [anon_sym_SQUOTE]),
    (29, [anon_sym_DQUOTE_DQUOTE_DQUOTE]),
    (33, [aux_sym_number_token3]),
    (37, [sym_null]),
    (39, [anon_sym_LBRACK]),
    (45, [sym_identifier]),
    (14, [sym_comment]),
    (25, [sym_index_access]),
    (43, [sym__expression]),
    (5, [anon_sym_SLASH_SLASH, anon_sym_SLASH_STAR]),
    (31, [aux_sym_number_token1, aux_sym_number_token2]),
    (35, [anon_sym_true, anon_sym_false]),
    (32, [sym_string, sym_number, sym_boolean, sym_array, sym_object, sym_reference, sym_function_call, sym_binary_expression])]"

definition ts_small_parse_table_15 :: "(nat \<times> nat list) list" where
  [parse_rows]: "ts_small_parse_table_15 = [
    (3, [anon_sym_POUND]),
    (23, [anon_sym_LBRACE]),
    (25, [anon_sym_DQUOTE]),
    (27, [anon_sym_SQUOTE]),
    (29, [anon_sym_DQUOTE_DQUOTE_DQUOTE]),
    (33, [aux_sym_number_token3]),
    (37, [sym_null]),
    (39, [anon_sym_LBRACK]),
    (45, [sym_identifier]),
    (15, [sym_comment]),
    (25, [sym_index_access]),
    (64, [sym__expression]),
    (5, [anon_sym_SLASH_SLASH, anon_sym_SLASH_STAR]),
    (31, [aux_sym_number_token1, aux_sym_number_token2]),
    (35, [anon_sym_true, anon_sym_false]),
    (32, [sym_string, sym_number, sym_boolean, sym_array, sym_object, sym_reference, sym_function_call, sym_binary_expression])]"

definition ts_small_parse_table_16 :: "(nat \<times> nat list) list" where
  [parse_rows]: "ts_small_parse_table_16 = [
    (3, [anon_sym_POUND]),
    (23, [anon_sym_LBRACE]),
    (25, [anon_sym_DQUOTE]),
    (27, [anon_sym_SQUOTE]),
    (29, [anon_sym_DQUOTE_DQUOTE_DQUOTE]),
    (33, [aux_sym_number_token3]),
    (37, [sym_null]),
    (39, [anon_sym_LBRACK]),
    (45, [sym_identifier]),
    (16, [sym_comment]),
    (25, [sym_index_access]),
    (46, [sym__expression]),
    (5, [anon_sym_SLASH_SLASH, anon_sym_SLASH_STAR]),
    (31, [aux_sym_number_token1, aux_sym_number_token2]),
    (35, [anon_sym_true, anon_sym_false]),
    (32, [sym_string, sym_number, sym_boolean, sym_array, sym_object, sym_reference, sym_function_call, sym_binary_expression])]"

definition ts_small_parse_table_17 :: "(nat \<times> nat list) list" where
  [parse_rows]: "ts_small_parse_table_17 = [
    (3, [anon_sym_POUND]),
    (17, [sym_comment]),
    (5, [anon_sym_SLASH_SLASH, anon_sym_SLASH_STAR]),
    (85, [anon_sym_DQUOTE, anon_sym_SLASH]),
    (83, [ts_builtin_sym_end, anon_sym_addon, anon_sym_signer, anon_sym_action, anon_sym_output, anon_sym_variable, anon_sym_input, anon_sym_EQ, anon_sym_import, anon_sym_LBRACE, anon_sym_RBRACE, anon_sym_SQUOTE, anon_sym_DQUOTE_DQUOTE_DQUOTE, anon_sym_COMMA, anon_sym_RBRACK, anon_sym_COLON, anon_sym_RPAREN, anon_sym_STAR, anon_sym_PLUS, anon_sym_DASH])]"

definition ts_small_parse_table_18 :: "(nat \<times> nat list) list" where
  [parse_rows]: "ts_small_parse_table_18 = [
    (3, [anon_sym_POUND]),
    (63, [anon_sym_LBRACE]),
    (65, [anon_sym_DQUOTE]),
    (67, [anon_sym_SQUOTE]),
    (69, [anon_sym_DQUOTE_DQUOTE_DQUOTE]),
    (73, [aux_sym_number_token3]),
    (77, [sym_null]),
    (79, [anon_sym_LBRACK]),
    (81, [sym_identifier]),
    (18, [sym_comment]),
    (55, [sym_index_access]),
    (84, [sym__expression]),
    (5, [anon_sym_SLASH_SLASH, anon_sym_SLASH_STAR]),
    (71, [aux_sym_number_token1, aux_sym_number_token2]),
    (75, [anon_sym_true, anon_sym_false]),
    (93, [sym_string, sym_number, sym_boolean, sym_array, sym_object, sym_reference, sym_function_call, sym_binary_expression])]"

definition ts_small_parse_table_19 :: "(nat \<times> nat list) list" where
  [parse_rows]: "ts_small_parse_table_19 = [
    (3, [anon_sym_POUND]),
    (63, [anon_sym_LBRACE]),
    (65, [anon_sym_DQUOTE]),
    (67, [anon_sym_SQUOTE]),
    (69, [anon_sym_DQUOTE_DQUOTE_DQUOTE]),
    (73, [aux_sym_number_token3]),
    (77, [sym_null]),
    (79, [anon_sym_LBRACK]),
    (81, [sym_identifier]),
    (19, [sym_comment]),
    (55, [sym_index_access]),
    (77, [sym__expression]),
    (5, [anon_sym_SLASH_SLASH, anon_sym_SLASH_STAR]),
    (71, [aux_sym_number_token1, aux_sym_number_token2]),
    (75, [anon_sym_true, anon_sym_false]),
    (93, [sym_string, sym_number, sym_boolean, sym_array, sym_object, sym_reference, sym_function_call, sym_binary_expression])]"

definition ts_small_parse_table_20 :: "(nat \<times> nat list) list" where
  [parse_rows]: "ts_small_parse_table_20 = [
    (3, [anon_sym_POUND]),
    (23, [anon_sym_LBRACE]),
    (25, [anon_sym_DQUOTE]),
    (27, [anon_sym_SQUOTE]),
    (29, [anon_sym_DQUOTE_DQUOTE_DQUOTE]),
    (33, [aux_sym_number_token3]),
    (37, [sym_null]),
    (39, [anon_sym_LBRACK]),
    (45, [sym_identifier]),
    (20, [sym_comment]),
    (25, [sym_index_access]),
    (96, [sym__expression]),
    (5, [anon_sym_SLASH_SLASH, anon_sym_SLASH_STAR]),
    (31, [aux_sym_number_token1, aux_sym_number_token2]),
    (35, [anon_sym_true, anon_sym_false]),
    (32, [sym_string, sym_number, sym_boolean, sym_array, sym_object, sym_reference, sym_function_call, sym_binary_expression])]"

definition ts_small_parse_table_21 :: "(nat \<times> nat list) list" where
  [parse_rows]: "ts_small_parse_table_21 = [
    (3, [anon_sym_POUND]),
    (89, [anon_sym_LBRACK]),
    (91, [anon_sym_DOT]),
    (93, [anon_sym_LPAREN]),
    (95, [anon_sym_SLASH]),
    (21, [sym_comment]),
    (24, [aux_sym_reference_repeat1]),
    (5, [anon_sym_SLASH_SLASH, anon_sym_SLASH_STAR]),
    (87, [ts_builtin_sym_end, anon_sym_addon, anon_sym_signer, anon_sym_action, anon_sym_output, anon_sym_variable, anon_sym_input, anon_sym_import, anon_sym_RBRACE, anon_sym_COMMA, anon_sym_RBRACK, anon_sym_RPAREN, anon_sym_STAR, anon_sym_PLUS, anon_sym_DASH])]"

definition ts_small_parse_table_22 :: "(nat \<times> nat list) list" where
  [parse_rows]: "ts_small_parse_table_22 = [
    (3, [anon_sym_POUND]),
    (99, [anon_sym_DOT]),
    (102, [anon_sym_SLASH]),
    (5, [anon_sym_SLASH_SLASH, anon_sym_SLASH_STAR]),
    (22, [sym_comment, aux_sym_reference_repeat1]),
    (97, [ts_builtin_sym_end, anon_sym_addon, anon_sym_signer, anon_sym_action, anon_sym_output, anon_sym_variable, anon_sym_input, anon_sym_import, anon_sym_RBRACE, anon_sym_COMMA, anon_sym_RBRACK, anon_sym_RPAREN, anon_sym_STAR, anon_sym_PLUS, anon_sym_DASH])]"

definition ts_small_parse_table_23 :: "(nat \<times> nat list) list" where
  [parse_rows]: "ts_small_parse_table_23 = [
    (3, [anon_sym_POUND]),
    (89, [anon_sym_LBRACK]),
    (102, [anon_sym_SLASH]),
    (23, [sym_comment]),
    (5, [anon_sym_SLASH_SLASH, anon_sym_SLASH_STAR]),
    (97, [ts_builtin_sym_end, anon_sym_addon, anon_sym_signer, anon_sym_action, anon_sym_output, anon_sym_variable, anon_sym_input, anon_sym_import, anon_sym_RBRACE, anon_sym_COMMA, anon_sym_RBRACK, anon_sym_DOT, anon_sym_RPAREN, anon_sym_STAR, anon_sym_PLUS, anon_sym_DASH])]"

definition ts_small_parse_table_24 :: "(nat \<times> nat list) list" where
  [parse_rows]: "ts_small_parse_table_24 = [
    (3, [anon_sym_POUND]),
    (91, [anon_sym_DOT]),
    (106, [anon_sym_SLASH]),
    (22, [aux_sym_reference_repeat1]),
    (24, [sym_comment]),
    (5, [anon_sym_SLASH_SLASH, anon_sym_SLASH_STAR]),
    (104, [ts_builtin_sym_end, anon_sym_addon, anon_sym_signer, anon_sym_action, anon_sym_output, anon_sym_variable, anon_sym_input, anon_sym_import, anon_sym_RBRACE, anon_sym_COMMA, anon_sym_RBRACK, anon_sym_RPAREN, anon_sym_STAR, anon_sym_PLUS, anon_sym_DASH])]"

definition ts_small_parse_table_25 :: "(nat \<times> nat list) list" where
  [parse_rows]: "ts_small_parse_table_25 = [
    (3, [anon_sym_POUND]),
    (91, [anon_sym_DOT]),
    (95, [anon_sym_SLASH]),
    (24, [aux_sym_reference_repeat1]),
    (25, [sym_comment]),
    (5, [anon_sym_SLASH_SLASH, anon_sym_SLASH_STAR]),
    (87, [ts_builtin_sym_end, anon_sym_addon, anon_sym_signer, anon_sym_action, anon_sym_output, anon_sym_variable, anon_sym_input, anon_sym_import, anon_sym_RBRACE, anon_sym_COMMA, anon_sym_RBRACK, anon_sym_RPAREN, anon_sym_STAR, anon_sym_PLUS, anon_sym_DASH])]"

definition ts_small_parse_table_26 :: "(nat \<times> nat list) list" where
  [parse_rows]: "ts_small_parse_table_26 = [
    (3, [anon_sym_POUND]),
    (110, [anon_sym_SLASH]),
    (26, [sym_comment]),
    (5, [anon_sym_SLASH_SLASH, anon_sym_SLASH_STAR]),
    (108, [ts_builtin_sym_end, anon_sym_addon, anon_sym_signer, anon_sym_action, anon_sym_output, anon_sym_variable, anon_sym_input, anon_sym_import, anon_sym_RBRACE, anon_sym_COMMA, anon_sym_RBRACK, anon_sym_DOT, anon_sym_RPAREN, anon_sym_STAR, anon_sym_PLUS, anon_sym_DASH])]"

definition ts_small_parse_table_27 :: "(nat \<times> nat list) list" where
  [parse_rows]: "ts_small_parse_table_27 = [
    (3, [anon_sym_POUND]),
    (102, [anon_sym_SLASH]),
    (27, [sym_comment]),
    (5, [anon_sym_SLASH_SLASH, anon_sym_SLASH_STAR]),
    (97, [ts_builtin_sym_end, anon_sym_addon, anon_sym_signer, anon_sym_action, anon_sym_output, anon_sym_variable, anon_sym_input, anon_sym_import, anon_sym_RBRACE, anon_sym_COMMA, anon_sym_RBRACK, anon_sym_DOT, anon_sym_RPAREN, anon_sym_STAR, anon_sym_PLUS, anon_sym_DASH])]"

definition ts_small_parse_table_28 :: "(nat \<times> nat list) list" where
  [parse_rows]: "ts_small_parse_table_28 = [
    (3, [anon_sym_POUND]),
    (9, [anon_sym_addon]),
    (11, [anon_sym_signer]),
    (13, [anon_sym_action]),
    (15, [anon_sym_output]),
    (17, [anon_sym_variable]),
    (19, [anon_sym_input]),
    (21, [anon_sym_import]),
    (112, [ts_builtin_sym_end]),
    (28, [sym_comment]),
    (29, [aux_sym_runbook_repeat1]),
    (48, [sym__statement]),
    (5, [anon_sym_SLASH_SLASH, anon_sym_SLASH_STAR]),
    (51, [sym_addon_block, sym_signer_block, sym_action_block, sym_output_block, sym_variable_declaration, sym_input_declaration, sym_import_statement])]"

definition ts_small_parse_table_29 :: "(nat \<times> nat list) list" where
  [parse_rows]: "ts_small_parse_table_29 = [
    (3, [anon_sym_POUND]),
    (114, [ts_builtin_sym_end]),
    (116, [anon_sym_addon]),
    (119, [anon_sym_signer]),
    (122, [anon_sym_action]),
    (125, [anon_sym_output]),
    (128, [anon_sym_variable]),
    (131, [anon_sym_input]),
    (134, [anon_sym_import]),
    (48, [sym__statement]),
    (5, [anon_sym_SLASH_SLASH, anon_sym_SLASH_STAR]),
    (29, [sym_comment, aux_sym_runbook_repeat1]),
    (51, [sym_addon_block, sym_signer_block, sym_action_block, sym_output_block, sym_variable_declaration, sym_input_declaration, sym_import_statement])]"

definition ts_small_parse_table_30 :: "(nat \<times> nat list) list" where
  [parse_rows]: "ts_small_parse_table_30 = [
    (3, [anon_sym_POUND]),
    (139, [anon_sym_SLASH]),
    (30, [sym_comment]),
    (5, [anon_sym_SLASH_SLASH, anon_sym_SLASH_STAR]),
    (137, [ts_builtin_sym_end, anon_sym_addon, anon_sym_signer, anon_sym_action, anon_sym_output, anon_sym_variable, anon_sym_input, anon_sym_import, anon_sym_RBRACE, anon_sym_COMMA, anon_sym_RBRACK, anon_sym_RPAREN, anon_sym_STAR, anon_sym_PLUS, anon_sym_DASH])]"

definition ts_small_parse_table_31 :: "(nat \<times> nat list) list" where
  [parse_rows]: "ts_small_parse_table_31 = [
    (3, [anon_sym_POUND]),
    (143, [anon_sym_SLASH]),
    (31, [sym_comment]),
    (5, [anon_sym_SLASH_SLASH, anon_sym_SLASH_STAR]),
    (141, [ts_builtin_sym_end, anon_sym_addon, anon_sym_signer, anon_sym_action, anon_sym_output, anon_sym_variable, anon_sym_input, anon_sym_import, anon_sym_RBRACE, anon_sym_COMMA, anon_sym_RBRACK, anon_sym_RPAREN, anon_sym_STAR, anon_sym_PLUS, anon_sym_DASH])]"

definition ts_small_parse_table_32 :: "(nat \<times> nat list) list" where
  [parse_rows]: "ts_small_parse_table_32 = [
    (3, [anon_sym_POUND]),
    (147, [anon_sym_SLASH]),
    (32, [sym_comment]),
    (5, [anon_sym_SLASH_SLASH, anon_sym_SLASH_STAR]),
    (145, [ts_builtin_sym_end, anon_sym_addon, anon_sym_signer, anon_sym_action, anon_sym_output, anon_sym_variable, anon_sym_input, anon_sym_import, anon_sym_RBRACE, anon_sym_COMMA, anon_sym_RBRACK, anon_sym_RPAREN, anon_sym_STAR, anon_sym_PLUS, anon_sym_DASH])]"

definition ts_small_parse_table_33 :: "(nat \<times> nat list) list" where
  [parse_rows]: "ts_small_parse_table_33 = [
    (3, [anon_sym_POUND]),
    (151, [anon_sym_SLASH]),
    (33, [sym_comment]),
    (5, [anon_sym_SLASH_SLASH, anon_sym_SLASH_STAR]),
    (149, [ts_builtin_sym_end, anon_sym_addon, anon_sym_signer, anon_sym_action, anon_sym_output, anon_sym_variable, anon_sym_input, anon_sym_import, anon_sym_RBRACE, anon_sym_COMMA, anon_sym_RBRACK, anon_sym_RPAREN, anon_sym_STAR, anon_sym_PLUS, anon_sym_DASH])]"

definition ts_small_parse_table_34 :: "(nat \<times> nat list) list" where
  [parse_rows]: "ts_small_parse_table_34 = [
    (3, [anon_sym_POUND]),
    (155, [anon_sym_SLASH]),
    (34, [sym_comment]),
    (5, [anon_sym_SLASH_SLASH, anon_sym_SLASH_STAR]),
    (153, [ts_builtin_sym_end, anon_sym_addon, anon_sym_signer, anon_sym_action, anon_sym_output, anon_sym_variable, anon_sym_input, anon_sym_import, anon_sym_RBRACE, anon_sym_COMMA, anon_sym_RBRACK, anon_sym_RPAREN, anon_sym_STAR, anon_sym_PLUS, anon_sym_DASH])]"

definition ts_small_parse_table_35 :: "(nat \<times> nat list) list" where
  [parse_rows]: "ts_small_parse_table_35 = [
    (3, [anon_sym_POUND]),
    (159, [anon_sym_SLASH]),
    (35, [sym_comment]),
    (5, [anon_sym_SLASH_SLASH, anon_sym_SLASH_STAR]),
    (157, [ts_builtin_sym_end, anon_sym_addon, anon_sym_signer, anon_sym_action, anon_sym_output, anon_sym_variable, anon_sym_input, anon_sym_import, anon_sym_RBRACE, anon_sym_COMMA, anon_sym_RBRACK, anon_sym_RPAREN, anon_sym_STAR, anon_sym_PLUS, anon_sym_DASH])]"

definition ts_small_parse_table_36 :: "(nat \<times> nat list) list" where
  [parse_rows]: "ts_small_parse_table_36 = [
    (3, [anon_sym_POUND]),
    (163, [anon_sym_SLASH]),
    (36, [sym_comment]),
    (5, [anon_sym_SLASH_SLASH, anon_sym_SLASH_STAR]),
    (161, [ts_builtin_sym_end, anon_sym_addon, anon_sym_signer, anon_sym_action, anon_sym_output, anon_sym_variable, anon_sym_input, anon_sym_import, anon_sym_RBRACE, anon_sym_COMMA, anon_sym_RBRACK, anon_sym_RPAREN, anon_sym_STAR, anon_sym_PLUS, anon_sym_DASH])]"

definition ts_small_parse_table_37 :: "(nat \<times> nat list) list" where
  [parse_rows]: "ts_small_parse_table_37 = [
    (3, [anon_sym_POUND]),
    (167, [anon_sym_SLASH]),
    (37, [sym_comment]),
    (5, [anon_sym_SLASH_SLASH, anon_sym_SLASH_STAR]),
    (165, [ts_builtin_sym_end, anon_sym_addon, anon_sym_signer, anon_sym_action, anon_sym_output, anon_sym_variable, anon_sym_input, anon_sym_import, anon_sym_RBRACE, anon_sym_COMMA, anon_sym_RBRACK, anon_sym_RPAREN, anon_sym_STAR, anon_sym_PLUS, anon_sym_DASH])]"

definition ts_small_parse_table_38 :: "(nat \<times> nat list) list" where
  [parse_rows]: "ts_small_parse_table_38 = [
    (3, [anon_sym_POUND]),
    (171, [anon_sym_SLASH]),
    (38, [sym_comment]),
    (5, [anon_sym_SLASH_SLASH, anon_sym_SLASH_STAR]),
    (169, [ts_builtin_sym_end, anon_sym_addon, anon_sym_signer, anon_sym_action, anon_sym_output, anon_sym_variable, anon_sym_input, anon_sym_import, anon_sym_RBRACE, anon_sym_COMMA, anon_sym_RBRACK, anon_sym_RPAREN, anon_sym_STAR, anon_sym_PLUS, anon_sym_DASH])]"

definition ts_small_parse_table_39 :: "(nat \<times> nat list) list" where
  [parse_rows]: "ts_small_parse_table_39 = [
    (3, [anon_sym_POUND]),
    (175, [anon_sym_SLASH]),
    (39, [sym_comment]),
    (5, [anon_sym_SLASH_SLASH, anon_sym_SLASH_STAR]),
    (173, [ts_builtin_sym_end, anon_sym_addon, anon_sym_signer, anon_sym_action, anon_sym_output, anon_sym_variable, anon_sym_input, anon_sym_import, anon_sym_RBRACE, anon_sym_COMMA, anon_sym_RBRACK, anon_sym_RPAREN, anon_sym_STAR, anon_sym_PLUS, anon_sym_DASH])]"

definition ts_small_parse_table_40 :: "(nat \<times> nat list) list" where
  [parse_rows]: "ts_small_parse_table_40 = [
    (3, [anon_sym_POUND]),
    (179, [anon_sym_SLASH]),
    (40, [sym_comment]),
    (5, [anon_sym_SLASH_SLASH, anon_sym_SLASH_STAR]),
    (177, [ts_builtin_sym_end, anon_sym_addon, anon_sym_signer, anon_sym_action, anon_sym_output, anon_sym_variable, anon_sym_input, anon_sym_import, anon_sym_RBRACE, anon_sym_COMMA, anon_sym_RBRACK, anon_sym_RPAREN, anon_sym_STAR, anon_sym_PLUS, anon_sym_DASH])]"

definition ts_small_parse_table_41 :: "(nat \<times> nat list) list" where
  [parse_rows]: "ts_small_parse_table_41 = [
    (3, [anon_sym_POUND]),
    (183, [anon_sym_SLASH]),
    (41, [sym_comment]),
    (5, [anon_sym_SLASH_SLASH, anon_sym_SLASH_STAR]),
    (181, [ts_builtin_sym_end, anon_sym_addon, anon_sym_signer, anon_sym_action, anon_sym_output, anon_sym_variable, anon_sym_input, anon_sym_import, anon_sym_RBRACE, anon_sym_COMMA, anon_sym_RBRACK, anon_sym_RPAREN, anon_sym_STAR, anon_sym_PLUS, anon_sym_DASH])]"

definition ts_small_parse_table_42 :: "(nat \<times> nat list) list" where
  [parse_rows]: "ts_small_parse_table_42 = [
    (3, [anon_sym_POUND]),
    (187, [anon_sym_SLASH]),
    (42, [sym_comment]),
    (5, [anon_sym_SLASH_SLASH, anon_sym_SLASH_STAR]),
    (185, [ts_builtin_sym_end, anon_sym_addon, anon_sym_signer, anon_sym_action, anon_sym_output, anon_sym_variable, anon_sym_input, anon_sym_import, anon_sym_RBRACE, anon_sym_COMMA, anon_sym_RBRACK, anon_sym_RPAREN, anon_sym_STAR, anon_sym_PLUS, anon_sym_DASH])]"

definition ts_small_parse_table_43 :: "(nat \<times> nat list) list" where
  [parse_rows]: "ts_small_parse_table_43 = [
    (3, [anon_sym_POUND]),
    (189, [anon_sym_STAR]),
    (191, [anon_sym_SLASH]),
    (43, [sym_comment]),
    (5, [anon_sym_SLASH_SLASH, anon_sym_SLASH_STAR]),
    (181, [ts_builtin_sym_end, anon_sym_addon, anon_sym_signer, anon_sym_action, anon_sym_output, anon_sym_variable, anon_sym_input, anon_sym_import, anon_sym_RBRACE, anon_sym_COMMA, anon_sym_RBRACK, anon_sym_RPAREN, anon_sym_PLUS, anon_sym_DASH])]"

definition ts_small_parse_table_44 :: "(nat \<times> nat list) list" where
  [parse_rows]: "ts_small_parse_table_44 = [
    (3, [anon_sym_POUND]),
    (195, [anon_sym_SLASH]),
    (44, [sym_comment]),
    (5, [anon_sym_SLASH_SLASH, anon_sym_SLASH_STAR]),
    (193, [ts_builtin_sym_end, anon_sym_addon, anon_sym_signer, anon_sym_action, anon_sym_output, anon_sym_variable, anon_sym_input, anon_sym_import, anon_sym_RBRACE, anon_sym_COMMA, anon_sym_RBRACK, anon_sym_RPAREN, anon_sym_STAR, anon_sym_PLUS, anon_sym_DASH])]"

definition ts_small_parse_table_45 :: "(nat \<times> nat list) list" where
  [parse_rows]: "ts_small_parse_table_45 = [
    (3, [anon_sym_POUND]),
    (199, [anon_sym_SLASH]),
    (45, [sym_comment]),
    (5, [anon_sym_SLASH_SLASH, anon_sym_SLASH_STAR]),
    (197, [ts_builtin_sym_end, anon_sym_addon, anon_sym_signer, anon_sym_action, anon_sym_output, anon_sym_variable, anon_sym_input, anon_sym_import, anon_sym_RBRACE, anon_sym_COMMA, anon_sym_RBRACK, anon_sym_RPAREN, anon_sym_STAR, anon_sym_PLUS, anon_sym_DASH])]"

definition ts_small_parse_table_46 :: "(nat \<times> nat list) list" where
  [parse_rows]: "ts_small_parse_table_46 = [
    (3, [anon_sym_POUND]),
    (189, [anon_sym_STAR]),
    (191, [anon_sym_SLASH]),
    (46, [sym_comment]),
    (5, [anon_sym_SLASH_SLASH, anon_sym_SLASH_STAR]),
    (203, [anon_sym_PLUS, anon_sym_DASH]),
    (201, [ts_builtin_sym_end, anon_sym_addon, anon_sym_signer, anon_sym_action, anon_sym_output, anon_sym_variable, anon_sym_input, anon_sym_import])]"

definition ts_small_parse_table_47 :: "(nat \<times> nat list) list" where
  [parse_rows]: "ts_small_parse_table_47 = [
    (3, [anon_sym_POUND]),
    (95, [anon_sym_SLASH]),
    (205, [anon_sym_LBRACK]),
    (207, [anon_sym_DOT]),
    (209, [anon_sym_LPAREN]),
    (47, [sym_comment]),
    (56, [aux_sym_reference_repeat1]),
    (5, [anon_sym_SLASH_SLASH, anon_sym_SLASH_STAR]),
    (87, [anon_sym_RBRACE, anon_sym_STAR, anon_sym_PLUS, anon_sym_DASH, sym_identifier])]"

definition ts_small_parse_table_48 :: "(nat \<times> nat list) list" where
  [parse_rows]: "ts_small_parse_table_48 = [
    (3, [anon_sym_POUND]),
    (48, [sym_comment]),
    (5, [anon_sym_SLASH_SLASH, anon_sym_SLASH_STAR]),
    (211, [ts_builtin_sym_end, anon_sym_addon, anon_sym_signer, anon_sym_action, anon_sym_output, anon_sym_variable, anon_sym_input, anon_sym_import])]"

definition ts_small_parse_table_49 :: "(nat \<times> nat list) list" where
  [parse_rows]: "ts_small_parse_table_49 = [
    (3, [anon_sym_POUND]),
    (49, [sym_comment]),
    (5, [anon_sym_SLASH_SLASH, anon_sym_SLASH_STAR]),
    (213, [ts_builtin_sym_end, anon_sym_addon, anon_sym_signer, anon_sym_action, anon_sym_output, anon_sym_variable, anon_sym_input, anon_sym_import])]"

definition ts_small_parse_table_50 :: "(nat \<times> nat list) list" where
  [parse_rows]: "ts_small_parse_table_50 = [
    (3, [anon_sym_POUND]),
    (50, [sym_comment]),
    (5, [anon_sym_SLASH_SLASH, anon_sym_SLASH_STAR]),
    (215, [ts_builtin_sym_end, anon_sym_addon, anon_sym_signer, anon_sym_action, anon_sym_output, anon_sym_variable, anon_sym_input, anon_sym_import])]"

definition ts_small_parse_table_51 :: "(nat \<times> nat list) list" where
  [parse_rows]: "ts_small_parse_table_51 = [
    (3, [anon_sym_POUND]),
    (51, [sym_comment]),
    (5, [anon_sym_SLASH_SLASH, anon_sym_SLASH_STAR]),
    (217, [ts_builtin_sym_end, anon_sym_addon, anon_sym_signer, anon_sym_action, anon_sym_output, anon_sym_variable, anon_sym_input, anon_sym_import])]"

definition ts_small_parse_table_52 :: "(nat \<times> nat list) list" where
  [parse_rows]: "ts_small_parse_table_52 = [
    (3, [anon_sym_POUND]),
    (52, [sym_comment]),
    (5, [anon_sym_SLASH_SLASH, anon_sym_SLASH_STAR]),
    (219, [ts_builtin_sym_end, anon_sym_addon, anon_sym_signer, anon_sym_action, anon_sym_output, anon_sym_variable, anon_sym_input, anon_sym_import])]"

definition ts_small_parse_table_53 :: "(nat \<times> nat list) list" where
  [parse_rows]: "ts_small_parse_table_53 = [
    (3, [anon_sym_POUND]),
    (53, [sym_comment]),
    (5, [anon_sym_SLASH_SLASH, anon_sym_SLASH_STAR]),
    (221, [ts_builtin_sym_end, anon_sym_addon, anon_sym_signer, anon_sym_action, anon_sym_output, anon_sym_variable, anon_sym_input, anon_sym_import])]"

definition ts_small_parse_table_54 :: "(nat \<times> nat list) list" where
  [parse_rows]: "ts_small_parse_table_54 = [
    (3, [anon_sym_POUND]),
    (54, [sym_comment]),
    (5, [anon_sym_SLASH_SLASH, anon_sym_SLASH_STAR]),
    (223, [ts_builtin_sym_end, anon_sym_addon, anon_sym_signer, anon_sym_action, anon_sym_output, anon_sym_variable, anon_sym_input, anon_sym_import])]"

definition ts_small_parse_table_55 :: "(nat \<times> nat list) list" where
  [parse_rows]: "ts_small_parse_table_55 = [
    (3, [anon_sym_POUND]),
    (95, [anon_sym_SLASH]),
    (207, [anon_sym_DOT]),
    (55, [sym_comment]),
    (56, [aux_sym_reference_repeat1]),
    (5, [anon_sym_SLASH_SLASH, anon_sym_SLASH_STAR]),
    (87, [anon_sym_RBRACE, anon_sym_STAR, anon_sym_PLUS, anon_sym_DASH, sym_identifier])]"

definition ts_small_parse_table_56 :: "(nat \<times> nat list) list" where
  [parse_rows]: "ts_small_parse_table_56 = [
    (3, [anon_sym_POUND]),
    (106, [anon_sym_SLASH]),
    (207, [anon_sym_DOT]),
    (56, [sym_comment]),
    (61, [aux_sym_reference_repeat1]),
    (5, [anon_sym_SLASH_SLASH, anon_sym_SLASH_STAR]),
    (104, [anon_sym_RBRACE, anon_sym_STAR, anon_sym_PLUS, anon_sym_DASH, sym_identifier])]"

definition ts_small_parse_table_57 :: "(nat \<times> nat list) list" where
  [parse_rows]: "ts_small_parse_table_57 = [
    (3, [anon_sym_POUND]),
    (57, [sym_comment]),
    (5, [anon_sym_SLASH_SLASH, anon_sym_SLASH_STAR]),
    (225, [ts_builtin_sym_end, anon_sym_addon, anon_sym_signer, anon_sym_action, anon_sym_output, anon_sym_variable, anon_sym_input, anon_sym_import])]"

definition ts_small_parse_table_58 :: "(nat \<times> nat list) list" where
  [parse_rows]: "ts_small_parse_table_58 = [
    (3, [anon_sym_POUND]),
    (58, [sym_comment]),
    (5, [anon_sym_SLASH_SLASH, anon_sym_SLASH_STAR]),
    (227, [ts_builtin_sym_end, anon_sym_addon, anon_sym_signer, anon_sym_action, anon_sym_output, anon_sym_variable, anon_sym_input, anon_sym_import])]"

definition ts_small_parse_table_59 :: "(nat \<times> nat list) list" where
  [parse_rows]: "ts_small_parse_table_59 = [
    (3, [anon_sym_POUND]),
    (25, [anon_sym_DQUOTE]),
    (27, [anon_sym_SQUOTE]),
    (29, [anon_sym_DQUOTE_DQUOTE_DQUOTE]),
    (229, [anon_sym_RBRACE]),
    (231, [anon_sym_COMMA]),
    (233, [sym_identifier]),
    (59, [sym_comment]),
    (114, [sym_object_field]),
    (140, [sym_string]),
    (5, [anon_sym_SLASH_SLASH, anon_sym_SLASH_STAR])]"

definition ts_small_parse_table_60 :: "(nat \<times> nat list) list" where
  [parse_rows]: "ts_small_parse_table_60 = [
    (3, [anon_sym_POUND]),
    (102, [anon_sym_SLASH]),
    (205, [anon_sym_LBRACK]),
    (60, [sym_comment]),
    (5, [anon_sym_SLASH_SLASH, anon_sym_SLASH_STAR]),
    (97, [anon_sym_RBRACE, anon_sym_DOT, anon_sym_STAR, anon_sym_PLUS, anon_sym_DASH, sym_identifier])]"

definition ts_small_parse_table_61 :: "(nat \<times> nat list) list" where
  [parse_rows]: "ts_small_parse_table_61 = [
    (3, [anon_sym_POUND]),
    (102, [anon_sym_SLASH]),
    (235, [anon_sym_DOT]),
    (5, [anon_sym_SLASH_SLASH, anon_sym_SLASH_STAR]),
    (61, [sym_comment, aux_sym_reference_repeat1]),
    (97, [anon_sym_RBRACE, anon_sym_STAR, anon_sym_PLUS, anon_sym_DASH, sym_identifier])]"

definition ts_small_parse_table_62 :: "(nat \<times> nat list) list" where
  [parse_rows]: "ts_small_parse_table_62 = [
    (3, [anon_sym_POUND]),
    (25, [anon_sym_DQUOTE]),
    (27, [anon_sym_SQUOTE]),
    (29, [anon_sym_DQUOTE_DQUOTE_DQUOTE]),
    (233, [sym_identifier]),
    (238, [anon_sym_RBRACE]),
    (240, [anon_sym_COMMA]),
    (62, [sym_comment]),
    (116, [sym_object_field]),
    (140, [sym_string]),
    (5, [anon_sym_SLASH_SLASH, anon_sym_SLASH_STAR])]"

definition ts_small_parse_table_63 :: "(nat \<times> nat list) list" where
  [parse_rows]: "ts_small_parse_table_63 = [
    (3, [anon_sym_POUND]),
    (63, [sym_comment]),
    (5, [anon_sym_SLASH_SLASH, anon_sym_SLASH_STAR]),
    (242, [ts_builtin_sym_end, anon_sym_addon, anon_sym_signer, anon_sym_action, anon_sym_output, anon_sym_variable, anon_sym_input, anon_sym_import])]"

definition ts_small_parse_table_64 :: "(nat \<times> nat list) list" where
  [parse_rows]: "ts_small_parse_table_64 = [
    (3, [anon_sym_POUND]),
    (189, [anon_sym_STAR]),
    (191, [anon_sym_SLASH]),
    (64, [sym_comment]),
    (5, [anon_sym_SLASH_SLASH, anon_sym_SLASH_STAR]),
    (203, [anon_sym_PLUS, anon_sym_DASH]),
    (244, [anon_sym_COMMA, anon_sym_RBRACK, anon_sym_RPAREN])]"

definition ts_small_parse_table_65 :: "(nat \<times> nat list) list" where
  [parse_rows]: "ts_small_parse_table_65 = [
    (3, [anon_sym_POUND]),
    (25, [anon_sym_DQUOTE]),
    (27, [anon_sym_SQUOTE]),
    (29, [anon_sym_DQUOTE_DQUOTE_DQUOTE]),
    (233, [sym_identifier]),
    (246, [anon_sym_RBRACE]),
    (65, [sym_comment]),
    (120, [sym_object_field]),
    (140, [sym_string]),
    (5, [anon_sym_SLASH_SLASH, anon_sym_SLASH_STAR])]"

definition ts_small_parse_table_66 :: "(nat \<times> nat list) list" where
  [parse_rows]: "ts_small_parse_table_66 = [
    (3, [anon_sym_POUND]),
    (25, [anon_sym_DQUOTE]),
    (27, [anon_sym_SQUOTE]),
    (29, [anon_sym_DQUOTE_DQUOTE_DQUOTE]),
    (233, [sym_identifier]),
    (248, [anon_sym_RBRACE]),
    (66, [sym_comment]),
    (120, [sym_object_field]),
    (140, [sym_string]),
    (5, [anon_sym_SLASH_SLASH, anon_sym_SLASH_STAR])]"

definition ts_small_parse_table_67 :: "(nat \<times> nat list) list" where
  [parse_rows]: "ts_small_parse_table_67 = [
    (3, [anon_sym_POUND]),
    (189, [anon_sym_STAR]),
    (191, [anon_sym_SLASH]),
    (250, [anon_sym_COMMA]),
    (252, [anon_sym_RPAREN]),
    (67, [sym_comment]),
    (117, [aux_sym_array_repeat1]),
    (5, [anon_sym_SLASH_SLASH, anon_sym_SLASH_STAR]),
    (203, [anon_sym_PLUS, anon_sym_DASH])]"

definition ts_small_parse_table_68 :: "(nat \<times> nat list) list" where
  [parse_rows]: "ts_small_parse_table_68 = [
    (3, [anon_sym_POUND]),
    (102, [anon_sym_SLASH]),
    (68, [sym_comment]),
    (5, [anon_sym_SLASH_SLASH, anon_sym_SLASH_STAR]),
    (97, [anon_sym_RBRACE, anon_sym_DOT, anon_sym_STAR, anon_sym_PLUS, anon_sym_DASH, sym_identifier])]"

definition ts_small_parse_table_69 :: "(nat \<times> nat list) list" where
  [parse_rows]: "ts_small_parse_table_69 = [
    (3, [anon_sym_POUND]),
    (25, [anon_sym_DQUOTE]),
    (27, [anon_sym_SQUOTE]),
    (29, [anon_sym_DQUOTE_DQUOTE_DQUOTE]),
    (233, [sym_identifier]),
    (254, [anon_sym_RBRACE]),
    (69, [sym_comment]),
    (120, [sym_object_field]),
    (140, [sym_string]),
    (5, [anon_sym_SLASH_SLASH, anon_sym_SLASH_STAR])]"

definition ts_small_parse_table_70 :: "(nat \<times> nat list) list" where
  [parse_rows]: "ts_small_parse_table_70 = [
    (3, [anon_sym_POUND]),
    (189, [anon_sym_STAR]),
    (191, [anon_sym_SLASH]),
    (256, [anon_sym_COMMA]),
    (258, [anon_sym_RBRACK]),
    (70, [sym_comment]),
    (112, [aux_sym_array_repeat1]),
    (5, [anon_sym_SLASH_SLASH, anon_sym_SLASH_STAR]),
    (203, [anon_sym_PLUS, anon_sym_DASH])]"

definition ts_small_parse_table_71 :: "(nat \<times> nat list) list" where
  [parse_rows]: "ts_small_parse_table_71 = [
    (3, [anon_sym_POUND]),
    (189, [anon_sym_STAR]),
    (191, [anon_sym_SLASH]),
    (250, [anon_sym_COMMA]),
    (260, [anon_sym_RPAREN]),
    (71, [sym_comment]),
    (113, [aux_sym_array_repeat1]),
    (5, [anon_sym_SLASH_SLASH, anon_sym_SLASH_STAR]),
    (203, [anon_sym_PLUS, anon_sym_DASH])]"

definition ts_small_parse_table_72 :: "(nat \<times> nat list) list" where
  [parse_rows]: "ts_small_parse_table_72 = [
    (3, [anon_sym_POUND]),
    (110, [anon_sym_SLASH]),
    (72, [sym_comment]),
    (5, [anon_sym_SLASH_SLASH, anon_sym_SLASH_STAR]),
    (108, [anon_sym_RBRACE, anon_sym_DOT, anon_sym_STAR, anon_sym_PLUS, anon_sym_DASH, sym_identifier])]"

definition ts_small_parse_table_73 :: "(nat \<times> nat list) list" where
  [parse_rows]: "ts_small_parse_table_73 = [
    (3, [anon_sym_POUND]),
    (189, [anon_sym_STAR]),
    (191, [anon_sym_SLASH]),
    (262, [anon_sym_COMMA]),
    (264, [anon_sym_RBRACK]),
    (73, [sym_comment]),
    (110, [aux_sym_array_repeat1]),
    (5, [anon_sym_SLASH_SLASH, anon_sym_SLASH_STAR]),
    (203, [anon_sym_PLUS, anon_sym_DASH])]"

definition ts_small_parse_table_74 :: "(nat \<times> nat list) list" where
  [parse_rows]: "ts_small_parse_table_74 = [
    (3, [anon_sym_POUND]),
    (25, [anon_sym_DQUOTE]),
    (27, [anon_sym_SQUOTE]),
    (29, [anon_sym_DQUOTE_DQUOTE_DQUOTE]),
    (233, [sym_identifier]),
    (266, [anon_sym_RBRACE]),
    (74, [sym_comment]),
    (120, [sym_object_field]),
    (140, [sym_string]),
    (5, [anon_sym_SLASH_SLASH, anon_sym_SLASH_STAR])]"

definition ts_small_parse_table_75 :: "(nat \<times> nat list) list" where
  [parse_rows]: "ts_small_parse_table_75 = [
    (3, [anon_sym_POUND]),
    (159, [anon_sym_SLASH]),
    (75, [sym_comment]),
    (5, [anon_sym_SLASH_SLASH, anon_sym_SLASH_STAR]),
    (157, [anon_sym_RBRACE, anon_sym_STAR, anon_sym_PLUS, anon_sym_DASH, sym_identifier])]"

definition ts_small_parse_table_76 :: "(nat \<times> nat list) list" where
  [parse_rows]: "ts_small_parse_table_76 = [
    (3, [anon_sym_POUND]),
    (195, [anon_sym_SLASH]),
    (76, [sym_comment]),
    (5, [anon_sym_SLASH_SLASH, anon_sym_SLASH_STAR]),
    (193, [anon_sym_RBRACE, anon_sym_STAR, anon_sym_PLUS, anon_sym_DASH, sym_identifier])]"

definition ts_small_parse_table_77 :: "(nat \<times> nat list) list" where
  [parse_rows]: "ts_small_parse_table_77 = [
    (3, [anon_sym_POUND]),
    (270, [anon_sym_STAR]),
    (272, [anon_sym_SLASH]),
    (77, [sym_comment]),
    (5, [anon_sym_SLASH_SLASH, anon_sym_SLASH_STAR]),
    (268, [anon_sym_RBRACE, sym_identifier]),
    (274, [anon_sym_PLUS, anon_sym_DASH])]"

definition ts_small_parse_table_78 :: "(nat \<times> nat list) list" where
  [parse_rows]: "ts_small_parse_table_78 = [
    (3, [anon_sym_POUND]),
    (175, [anon_sym_SLASH]),
    (78, [sym_comment]),
    (5, [anon_sym_SLASH_SLASH, anon_sym_SLASH_STAR]),
    (173, [anon_sym_RBRACE, anon_sym_STAR, anon_sym_PLUS, anon_sym_DASH, sym_identifier])]"

definition ts_small_parse_table_79 :: "(nat \<times> nat list) list" where
  [parse_rows]: "ts_small_parse_table_79 = [
    (3, [anon_sym_POUND]),
    (25, [anon_sym_DQUOTE]),
    (27, [anon_sym_SQUOTE]),
    (29, [anon_sym_DQUOTE_DQUOTE_DQUOTE]),
    (233, [sym_identifier]),
    (79, [sym_comment]),
    (120, [sym_object_field]),
    (140, [sym_string]),
    (5, [anon_sym_SLASH_SLASH, anon_sym_SLASH_STAR])]"

definition ts_small_parse_table_80 :: "(nat \<times> nat list) list" where
  [parse_rows]: "ts_small_parse_table_80 = [
    (3, [anon_sym_POUND]),
    (189, [anon_sym_STAR]),
    (191, [anon_sym_SLASH]),
    (80, [sym_comment]),
    (5, [anon_sym_SLASH_SLASH, anon_sym_SLASH_STAR]),
    (203, [anon_sym_PLUS, anon_sym_DASH]),
    (276, [anon_sym_RBRACE, anon_sym_COMMA])]"

definition ts_small_parse_table_81 :: "(nat \<times> nat list) list" where
  [parse_rows]: "ts_small_parse_table_81 = [
    (3, [anon_sym_POUND]),
    (199, [anon_sym_SLASH]),
    (81, [sym_comment]),
    (5, [anon_sym_SLASH_SLASH, anon_sym_SLASH_STAR]),
    (197, [anon_sym_RBRACE, anon_sym_STAR, anon_sym_PLUS, anon_sym_DASH, sym_identifier])]"

definition ts_small_parse_table_82 :: "(nat \<times> nat list) list" where
  [parse_rows]: "ts_small_parse_table_82 = [
    (3, [anon_sym_POUND]),
    (171, [anon_sym_SLASH]),
    (82, [sym_comment]),
    (5, [anon_sym_SLASH_SLASH, anon_sym_SLASH_STAR]),
    (169, [anon_sym_RBRACE, anon_sym_STAR, anon_sym_PLUS, anon_sym_DASH, sym_identifier])]"

definition ts_small_parse_table_83 :: "(nat \<times> nat list) list" where
  [parse_rows]: "ts_small_parse_table_83 = [
    (3, [anon_sym_POUND]),
    (270, [anon_sym_STAR]),
    (272, [anon_sym_SLASH]),
    (83, [sym_comment]),
    (5, [anon_sym_SLASH_SLASH, anon_sym_SLASH_STAR]),
    (181, [anon_sym_RBRACE, anon_sym_PLUS, anon_sym_DASH, sym_identifier])]"

definition ts_small_parse_table_84 :: "(nat \<times> nat list) list" where
  [parse_rows]: "ts_small_parse_table_84 = [
    (3, [anon_sym_POUND]),
    (183, [anon_sym_SLASH]),
    (84, [sym_comment]),
    (5, [anon_sym_SLASH_SLASH, anon_sym_SLASH_STAR]),
    (181, [anon_sym_RBRACE, anon_sym_STAR, anon_sym_PLUS, anon_sym_DASH, sym_identifier])]"

definition ts_small_parse_table_85 :: "(nat \<times> nat list) list" where
  [parse_rows]: "ts_small_parse_table_85 = [
    (3, [anon_sym_POUND]),
    (187, [anon_sym_SLASH]),
    (85, [sym_comment]),
    (5, [anon_sym_SLASH_SLASH, anon_sym_SLASH_STAR]),
    (185, [anon_sym_RBRACE, anon_sym_STAR, anon_sym_PLUS, anon_sym_DASH, sym_identifier])]"

definition ts_small_parse_table_86 :: "(nat \<times> nat list) list" where
  [parse_rows]: "ts_small_parse_table_86 = [
    (3, [anon_sym_POUND]),
    (179, [anon_sym_SLASH]),
    (86, [sym_comment]),
    (5, [anon_sym_SLASH_SLASH, anon_sym_SLASH_STAR]),
    (177, [anon_sym_RBRACE, anon_sym_STAR, anon_sym_PLUS, anon_sym_DASH, sym_identifier])]"

definition ts_small_parse_table_87 :: "(nat \<times> nat list) list" where
  [parse_rows]: "ts_small_parse_table_87 = [
    (3, [anon_sym_POUND]),
    (85, [anon_sym_SLASH]),
    (87, [sym_comment]),
    (5, [anon_sym_SLASH_SLASH, anon_sym_SLASH_STAR]),
    (83, [anon_sym_RBRACE, anon_sym_STAR, anon_sym_PLUS, anon_sym_DASH, sym_identifier])]"

definition ts_small_parse_table_88 :: "(nat \<times> nat list) list" where
  [parse_rows]: "ts_small_parse_table_88 = [
    (3, [anon_sym_POUND]),
    (139, [anon_sym_SLASH]),
    (88, [sym_comment]),
    (5, [anon_sym_SLASH_SLASH, anon_sym_SLASH_STAR]),
    (137, [anon_sym_RBRACE, anon_sym_STAR, anon_sym_PLUS, anon_sym_DASH, sym_identifier])]"

definition ts_small_parse_table_89 :: "(nat \<times> nat list) list" where
  [parse_rows]: "ts_small_parse_table_89 = [
    (3, [anon_sym_POUND]),
    (155, [anon_sym_SLASH]),
    (89, [sym_comment]),
    (5, [anon_sym_SLASH_SLASH, anon_sym_SLASH_STAR]),
    (153, [anon_sym_RBRACE, anon_sym_STAR, anon_sym_PLUS, anon_sym_DASH, sym_identifier])]"

definition ts_small_parse_table_90 :: "(nat \<times> nat list) list" where
  [parse_rows]: "ts_small_parse_table_90 = [
    (3, [anon_sym_POUND]),
    (163, [anon_sym_SLASH]),
    (90, [sym_comment]),
    (5, [anon_sym_SLASH_SLASH, anon_sym_SLASH_STAR]),
    (161, [anon_sym_RBRACE, anon_sym_STAR, anon_sym_PLUS, anon_sym_DASH, sym_identifier])]"

definition ts_small_parse_table_91 :: "(nat \<times> nat list) list" where
  [parse_rows]: "ts_small_parse_table_91 = [
    (3, [anon_sym_POUND]),
    (143, [anon_sym_SLASH]),
    (91, [sym_comment]),
    (5, [anon_sym_SLASH_SLASH, anon_sym_SLASH_STAR]),
    (141, [anon_sym_RBRACE, anon_sym_STAR, anon_sym_PLUS, anon_sym_DASH, sym_identifier])]"

definition ts_small_parse_table_92 :: "(nat \<times> nat list) list" where
  [parse_rows]: "ts_small_parse_table_92 = [
    (3, [anon_sym_POUND]),
    (167, [anon_sym_SLASH]),
    (92, [sym_comment]),
    (5, [anon_sym_SLASH_SLASH, anon_sym_SLASH_STAR]),
    (165, [anon_sym_RBRACE, anon_sym_STAR, anon_sym_PLUS, anon_sym_DASH, sym_identifier])]"

definition ts_small_parse_table_93 :: "(nat \<times> nat list) list" where
  [parse_rows]: "ts_small_parse_table_93 = [
    (3, [anon_sym_POUND]),
    (147, [anon_sym_SLASH]),
    (93, [sym_comment]),
    (5, [anon_sym_SLASH_SLASH, anon_sym_SLASH_STAR]),
    (145, [anon_sym_RBRACE, anon_sym_STAR, anon_sym_PLUS, anon_sym_DASH, sym_identifier])]"

definition ts_small_parse_table_94 :: "(nat \<times> nat list) list" where
  [parse_rows]: "ts_small_parse_table_94 = [
    (3, [anon_sym_POUND]),
    (151, [anon_sym_SLASH]),
    (94, [sym_comment]),
    (5, [anon_sym_SLASH_SLASH, anon_sym_SLASH_STAR]),
    (149, [anon_sym_RBRACE, anon_sym_STAR, anon_sym_PLUS, anon_sym_DASH, sym_identifier])]"

definition ts_small_parse_table_95 :: "(nat \<times> nat list) list" where
  [parse_rows]: "ts_small_parse_table_95 = [
    (3, [anon_sym_POUND]),
    (189, [anon_sym_STAR]),
    (191, [anon_sym_SLASH]),
    (278, [anon_sym_RBRACK]),
    (95, [sym_comment]),
    (5, [anon_sym_SLASH_SLASH, anon_sym_SLASH_STAR]),
    (203, [anon_sym_PLUS, anon_sym_DASH])]"

definition ts_small_parse_table_96 :: "(nat \<times> nat list) list" where
  [parse_rows]: "ts_small_parse_table_96 = [
    (3, [anon_sym_POUND]),
    (189, [anon_sym_STAR]),
    (191, [anon_sym_SLASH]),
    (280, [anon_sym_RBRACK]),
    (96, [sym_comment]),
    (5, [anon_sym_SLASH_SLASH, anon_sym_SLASH_STAR]),
    (203, [anon_sym_PLUS, anon_sym_DASH])]"

definition ts_small_parse_table_97 :: "(nat \<times> nat list) list" where
  [parse_rows]: "ts_small_parse_table_97 = [
    (3, [anon_sym_POUND]),
    (282, [anon_sym_RBRACE]),
    (284, [sym_identifier]),
    (97, [sym_comment]),
    (103, [aux_sym_block_repeat1]),
    (123, [sym_attribute]),
    (5, [anon_sym_SLASH_SLASH, anon_sym_SLASH_STAR])]"

definition ts_small_parse_table_98 :: "(nat \<times> nat list) list" where
  [parse_rows]: "ts_small_parse_table_98 = [
    (3, [anon_sym_POUND]),
    (25, [anon_sym_DQUOTE]),
    (27, [anon_sym_SQUOTE]),
    (29, [anon_sym_DQUOTE_DQUOTE_DQUOTE]),
    (98, [sym_comment]),
    (121, [sym_string]),
    (5, [anon_sym_SLASH_SLASH, anon_sym_SLASH_STAR])]"

definition ts_small_parse_table_99 :: "(nat \<times> nat list) list" where
  [parse_rows]: "ts_small_parse_table_99 = [
    (3, [anon_sym_POUND]),
    (25, [anon_sym_DQUOTE]),
    (27, [anon_sym_SQUOTE]),
    (29, [anon_sym_DQUOTE_DQUOTE_DQUOTE]),
    (99, [sym_comment]),
    (124, [sym_string]),
    (5, [anon_sym_SLASH_SLASH, anon_sym_SLASH_STAR])]"

definition ts_small_parse_table_100 :: "(nat \<times> nat list) list" where
  [parse_rows]: "ts_small_parse_table_100 = [
    (3, [anon_sym_POUND]),
    (25, [anon_sym_DQUOTE]),
    (27, [anon_sym_SQUOTE]),
    (29, [anon_sym_DQUOTE_DQUOTE_DQUOTE]),
    (50, [sym_string]),
    (100, [sym_comment]),
    (5, [anon_sym_SLASH_SLASH, anon_sym_SLASH_STAR])]"

definition ts_small_parse_table_101 :: "(nat \<times> nat list) list" where
  [parse_rows]: "ts_small_parse_table_101 = [
    (3, [anon_sym_POUND]),
    (25, [anon_sym_DQUOTE]),
    (27, [anon_sym_SQUOTE]),
    (29, [anon_sym_DQUOTE_DQUOTE_DQUOTE]),
    (101, [sym_comment]),
    (125, [sym_string]),
    (5, [anon_sym_SLASH_SLASH, anon_sym_SLASH_STAR])]"

definition ts_small_parse_table_102 :: "(nat \<times> nat list) list" where
  [parse_rows]: "ts_small_parse_table_102 = [
    (3, [anon_sym_POUND]),
    (25, [anon_sym_DQUOTE]),
    (27, [anon_sym_SQUOTE]),
    (29, [anon_sym_DQUOTE_DQUOTE_DQUOTE]),
    (102, [sym_comment]),
    (122, [sym_string]),
    (5, [anon_sym_SLASH_SLASH, anon_sym_SLASH_STAR])]"

definition ts_small_parse_table_103 :: "(nat \<times> nat list) list" where
  [parse_rows]: "ts_small_parse_table_103 = [
    (3, [anon_sym_POUND]),
    (284, [sym_identifier]),
    (286, [anon_sym_RBRACE]),
    (103, [sym_comment]),
    (104, [aux_sym_block_repeat1]),
    (123, [sym_attribute]),
    (5, [anon_sym_SLASH_SLASH, anon_sym_SLASH_STAR])]"

definition ts_small_parse_table_104 :: "(nat \<times> nat list) list" where
  [parse_rows]: "ts_small_parse_table_104 = [
    (3, [anon_sym_POUND]),
    (288, [anon_sym_RBRACE]),
    (290, [sym_identifier]),
    (123, [sym_attribute]),
    (5, [anon_sym_SLASH_SLASH, anon_sym_SLASH_STAR]),
    (104, [sym_comment, aux_sym_block_repeat1])]"

definition ts_small_parse_table_105 :: "(nat \<times> nat list) list" where
  [parse_rows]: "ts_small_parse_table_105 = [
    (3, [anon_sym_POUND]),
    (25, [anon_sym_DQUOTE]),
    (27, [anon_sym_SQUOTE]),
    (29, [anon_sym_DQUOTE_DQUOTE_DQUOTE]),
    (105, [sym_comment]),
    (146, [sym_string]),
    (5, [anon_sym_SLASH_SLASH, anon_sym_SLASH_STAR])]"

definition ts_small_parse_table_106 :: "(nat \<times> nat list) list" where
  [parse_rows]: "ts_small_parse_table_106 = [
    (3, [anon_sym_POUND]),
    (25, [anon_sym_DQUOTE]),
    (27, [anon_sym_SQUOTE]),
    (29, [anon_sym_DQUOTE_DQUOTE_DQUOTE]),
    (106, [sym_comment]),
    (107, [sym_string]),
    (5, [anon_sym_SLASH_SLASH, anon_sym_SLASH_STAR])]"

definition ts_small_parse_table_107 :: "(nat \<times> nat list) list" where
  [parse_rows]: "ts_small_parse_table_107 = [
    (3, [anon_sym_POUND]),
    (25, [anon_sym_DQUOTE]),
    (27, [anon_sym_SQUOTE]),
    (29, [anon_sym_DQUOTE_DQUOTE_DQUOTE]),
    (107, [sym_comment]),
    (126, [sym_string]),
    (5, [anon_sym_SLASH_SLASH, anon_sym_SLASH_STAR])]"

definition ts_small_parse_table_108 :: "(nat \<times> nat list) list" where
  [parse_rows]: "ts_small_parse_table_108 = [
    (3, [anon_sym_POUND]),
    (293, [anon_sym_COMMA]),
    (5, [anon_sym_SLASH_SLASH, anon_sym_SLASH_STAR]),
    (244, [anon_sym_RBRACK, anon_sym_RPAREN]),
    (108, [sym_comment, aux_sym_array_repeat1])]"

definition ts_small_parse_table_109 :: "(nat \<times> nat list) list" where
  [parse_rows]: "ts_small_parse_table_109 = [
    (3, [anon_sym_POUND]),
    (25, [anon_sym_DQUOTE]),
    (27, [anon_sym_SQUOTE]),
    (29, [anon_sym_DQUOTE_DQUOTE_DQUOTE]),
    (98, [sym_string]),
    (109, [sym_comment]),
    (5, [anon_sym_SLASH_SLASH, anon_sym_SLASH_STAR])]"

definition ts_small_parse_table_110 :: "(nat \<times> nat list) list" where
  [parse_rows]: "ts_small_parse_table_110 = [
    (3, [anon_sym_POUND]),
    (53, [anon_sym_RBRACK]),
    (296, [anon_sym_COMMA]),
    (108, [aux_sym_array_repeat1]),
    (110, [sym_comment]),
    (5, [anon_sym_SLASH_SLASH, anon_sym_SLASH_STAR])]"

definition ts_small_parse_table_111 :: "(nat \<times> nat list) list" where
  [parse_rows]: "ts_small_parse_table_111 = [
    (3, [anon_sym_POUND]),
    (254, [anon_sym_RBRACE]),
    (298, [anon_sym_COMMA]),
    (111, [sym_comment]),
    (115, [aux_sym_object_repeat1]),
    (5, [anon_sym_SLASH_SLASH, anon_sym_SLASH_STAR])]"

definition ts_small_parse_table_112 :: "(nat \<times> nat list) list" where
  [parse_rows]: "ts_small_parse_table_112 = [
    (3, [anon_sym_POUND]),
    (57, [anon_sym_RBRACK]),
    (300, [anon_sym_COMMA]),
    (108, [aux_sym_array_repeat1]),
    (112, [sym_comment]),
    (5, [anon_sym_SLASH_SLASH, anon_sym_SLASH_STAR])]"

definition ts_small_parse_table_113 :: "(nat \<times> nat list) list" where
  [parse_rows]: "ts_small_parse_table_113 = [
    (3, [anon_sym_POUND]),
    (250, [anon_sym_COMMA]),
    (302, [anon_sym_RPAREN]),
    (108, [aux_sym_array_repeat1]),
    (113, [sym_comment]),
    (5, [anon_sym_SLASH_SLASH, anon_sym_SLASH_STAR])]"

definition ts_small_parse_table_114 :: "(nat \<times> nat list) list" where
  [parse_rows]: "ts_small_parse_table_114 = [
    (3, [anon_sym_POUND]),
    (304, [anon_sym_RBRACE]),
    (306, [anon_sym_COMMA]),
    (114, [sym_comment]),
    (118, [aux_sym_object_repeat1]),
    (5, [anon_sym_SLASH_SLASH, anon_sym_SLASH_STAR])]"

definition ts_small_parse_table_115 :: "(nat \<times> nat list) list" where
  [parse_rows]: "ts_small_parse_table_115 = [
    (3, [anon_sym_POUND]),
    (308, [anon_sym_RBRACE]),
    (310, [anon_sym_COMMA]),
    (5, [anon_sym_SLASH_SLASH, anon_sym_SLASH_STAR]),
    (115, [sym_comment, aux_sym_object_repeat1])]"

definition ts_small_parse_table_116 :: "(nat \<times> nat list) list" where
  [parse_rows]: "ts_small_parse_table_116 = [
    (3, [anon_sym_POUND]),
    (313, [anon_sym_RBRACE]),
    (315, [anon_sym_COMMA]),
    (111, [aux_sym_object_repeat1]),
    (116, [sym_comment]),
    (5, [anon_sym_SLASH_SLASH, anon_sym_SLASH_STAR])]"

definition ts_small_parse_table_117 :: "(nat \<times> nat list) list" where
  [parse_rows]: "ts_small_parse_table_117 = [
    (3, [anon_sym_POUND]),
    (250, [anon_sym_COMMA]),
    (317, [anon_sym_RPAREN]),
    (108, [aux_sym_array_repeat1]),
    (117, [sym_comment]),
    (5, [anon_sym_SLASH_SLASH, anon_sym_SLASH_STAR])]"

definition ts_small_parse_table_118 :: "(nat \<times> nat list) list" where
  [parse_rows]: "ts_small_parse_table_118 = [
    (3, [anon_sym_POUND]),
    (266, [anon_sym_RBRACE]),
    (319, [anon_sym_COMMA]),
    (115, [aux_sym_object_repeat1]),
    (118, [sym_comment]),
    (5, [anon_sym_SLASH_SLASH, anon_sym_SLASH_STAR])]"

definition ts_small_parse_table_119 :: "(nat \<times> nat list) list" where
  [parse_rows]: "ts_small_parse_table_119 = [
    (3, [anon_sym_POUND]),
    (321, [sym_identifier]),
    (68, [sym_index_access]),
    (119, [sym_comment]),
    (5, [anon_sym_SLASH_SLASH, anon_sym_SLASH_STAR])]"

definition ts_small_parse_table_120 :: "(nat \<times> nat list) list" where
  [parse_rows]: "ts_small_parse_table_120 = [
    (3, [anon_sym_POUND]),
    (120, [sym_comment]),
    (5, [anon_sym_SLASH_SLASH, anon_sym_SLASH_STAR]),
    (308, [anon_sym_RBRACE, anon_sym_COMMA])]"

definition ts_small_parse_table_121 :: "(nat \<times> nat list) list" where
  [parse_rows]: "ts_small_parse_table_121 = [
    (3, [anon_sym_POUND]),
    (323, [anon_sym_LBRACE]),
    (58, [sym_block]),
    (121, [sym_comment]),
    (5, [anon_sym_SLASH_SLASH, anon_sym_SLASH_STAR])]"

definition ts_small_parse_table_122 :: "(nat \<times> nat list) list" where
  [parse_rows]: "ts_small_parse_table_122 = [
    (3, [anon_sym_POUND]),
    (323, [anon_sym_LBRACE]),
    (53, [sym_block]),
    (122, [sym_comment]),
    (5, [anon_sym_SLASH_SLASH, anon_sym_SLASH_STAR])]"

definition ts_small_parse_table_123 :: "(nat \<times> nat list) list" where
  [parse_rows]: "ts_small_parse_table_123 = [
    (3, [anon_sym_POUND]),
    (123, [sym_comment]),
    (5, [anon_sym_SLASH_SLASH, anon_sym_SLASH_STAR]),
    (325, [anon_sym_RBRACE, sym_identifier])]"

definition ts_small_parse_table_124 :: "(nat \<times> nat list) list" where
  [parse_rows]: "ts_small_parse_table_124 = [
    (3, [anon_sym_POUND]),
    (323, [anon_sym_LBRACE]),
    (52, [sym_block]),
    (124, [sym_comment]),
    (5, [anon_sym_SLASH_SLASH, anon_sym_SLASH_STAR])]"

definition ts_small_parse_table_125 :: "(nat \<times> nat list) list" where
  [parse_rows]: "ts_small_parse_table_125 = [
    (3, [anon_sym_POUND]),
    (323, [anon_sym_LBRACE]),
    (49, [sym_block]),
    (125, [sym_comment]),
    (5, [anon_sym_SLASH_SLASH, anon_sym_SLASH_STAR])]"

definition ts_small_parse_table_126 :: "(nat \<times> nat list) list" where
  [parse_rows]: "ts_small_parse_table_126 = [
    (3, [anon_sym_POUND]),
    (323, [anon_sym_LBRACE]),
    (57, [sym_block]),
    (126, [sym_comment]),
    (5, [anon_sym_SLASH_SLASH, anon_sym_SLASH_STAR])]"

definition ts_small_parse_table_127 :: "(nat \<times> nat list) list" where
  [parse_rows]: "ts_small_parse_table_127 = [
    (3, [anon_sym_POUND]),
    (327, [sym_identifier]),
    (27, [sym_index_access]),
    (127, [sym_comment]),
    (5, [anon_sym_SLASH_SLASH, anon_sym_SLASH_STAR])]"

definition ts_small_parse_table_128 :: "(nat \<times> nat list) list" where
  [parse_rows]: "ts_small_parse_table_128 = [
    (3, [anon_sym_POUND]),
    (258, [anon_sym_RBRACK]),
    (128, [sym_comment]),
    (5, [anon_sym_SLASH_SLASH, anon_sym_SLASH_STAR])]"

definition ts_small_parse_table_129 :: "(nat \<times> nat list) list" where
  [parse_rows]: "ts_small_parse_table_129 = [
    (3, [anon_sym_POUND]),
    (329, [anon_sym_SQUOTE]),
    (129, [sym_comment]),
    (5, [anon_sym_SLASH_SLASH, anon_sym_SLASH_STAR])]"

definition ts_small_parse_table_130 :: "(nat \<times> nat list) list" where
  [parse_rows]: "ts_small_parse_table_130 = [
    (3, [anon_sym_POUND]),
    (331, [anon_sym_SQUOTE]),
    (130, [sym_comment]),
    (5, [anon_sym_SLASH_SLASH, anon_sym_SLASH_STAR])]"

definition ts_small_parse_table_131 :: "(nat \<times> nat list) list" where
  [parse_rows]: "ts_small_parse_table_131 = [
    (3, [anon_sym_POUND]),
    (331, [anon_sym_DQUOTE_DQUOTE_DQUOTE]),
    (131, [sym_comment]),
    (5, [anon_sym_SLASH_SLASH, anon_sym_SLASH_STAR])]"

definition ts_small_parse_table_132 :: "(nat \<times> nat list) list" where
  [parse_rows]: "ts_small_parse_table_132 = [
    (333, [aux_sym_string_token2]),
    (335, [anon_sym_POUND]),
    (132, [sym_comment]),
    (337, [anon_sym_SLASH_SLASH, anon_sym_SLASH_STAR])]"

definition ts_small_parse_table_133 :: "(nat \<times> nat list) list" where
  [parse_rows]: "ts_small_parse_table_133 = [
    (3, [anon_sym_POUND]),
    (339, [anon_sym_EQ]),
    (133, [sym_comment]),
    (5, [anon_sym_SLASH_SLASH, anon_sym_SLASH_STAR])]"

definition ts_small_parse_table_134 :: "(nat \<times> nat list) list" where
  [parse_rows]: "ts_small_parse_table_134 = [
    (3, [anon_sym_POUND]),
    (313, [anon_sym_RBRACE]),
    (134, [sym_comment]),
    (5, [anon_sym_SLASH_SLASH, anon_sym_SLASH_STAR])]"

definition ts_small_parse_table_135 :: "(nat \<times> nat list) list" where
  [parse_rows]: "ts_small_parse_table_135 = [
    (335, [anon_sym_POUND]),
    (341, [aux_sym_string_token1]),
    (135, [sym_comment]),
    (337, [anon_sym_SLASH_SLASH, anon_sym_SLASH_STAR])]"

definition ts_small_parse_table_136 :: "(nat \<times> nat list) list" where
  [parse_rows]: "ts_small_parse_table_136 = [
    (3, [anon_sym_POUND]),
    (264, [anon_sym_RBRACK]),
    (136, [sym_comment]),
    (5, [anon_sym_SLASH_SLASH, anon_sym_SLASH_STAR])]"

definition ts_small_parse_table_137 :: "(nat \<times> nat list) list" where
  [parse_rows]: "ts_small_parse_table_137 = [
    (335, [anon_sym_POUND]),
    (343, [aux_sym_string_token3]),
    (137, [sym_comment]),
    (337, [anon_sym_SLASH_SLASH, anon_sym_SLASH_STAR])]"

definition ts_small_parse_table_138 :: "(nat \<times> nat list) list" where
  [parse_rows]: "ts_small_parse_table_138 = [
    (3, [anon_sym_POUND]),
    (329, [anon_sym_DQUOTE_DQUOTE_DQUOTE]),
    (138, [sym_comment]),
    (5, [anon_sym_SLASH_SLASH, anon_sym_SLASH_STAR])]"

definition ts_small_parse_table_139 :: "(nat \<times> nat list) list" where
  [parse_rows]: "ts_small_parse_table_139 = [
    (3, [anon_sym_POUND]),
    (345, [anon_sym_SLASH]),
    (139, [sym_comment]),
    (5, [anon_sym_SLASH_SLASH, anon_sym_SLASH_STAR])]"

definition ts_small_parse_table_140 :: "(nat \<times> nat list) list" where
  [parse_rows]: "ts_small_parse_table_140 = [
    (3, [anon_sym_POUND]),
    (347, [anon_sym_COLON]),
    (140, [sym_comment]),
    (5, [anon_sym_SLASH_SLASH, anon_sym_SLASH_STAR])]"

definition ts_small_parse_table_141 :: "(nat \<times> nat list) list" where
  [parse_rows]: "ts_small_parse_table_141 = [
    (3, [anon_sym_POUND]),
    (331, [anon_sym_DQUOTE]),
    (141, [sym_comment]),
    (5, [anon_sym_SLASH_SLASH, anon_sym_SLASH_STAR])]"

definition ts_small_parse_table_142 :: "(nat \<times> nat list) list" where
  [parse_rows]: "ts_small_parse_table_142 = [
    (3, [anon_sym_POUND]),
    (349, [ts_builtin_sym_end]),
    (142, [sym_comment]),
    (5, [anon_sym_SLASH_SLASH, anon_sym_SLASH_STAR])]"

definition ts_small_parse_table_143 :: "(nat \<times> nat list) list" where
  [parse_rows]: "ts_small_parse_table_143 = [
    (335, [anon_sym_POUND]),
    (351, [aux_sym_comment_token1]),
    (143, [sym_comment]),
    (337, [anon_sym_SLASH_SLASH, anon_sym_SLASH_STAR])]"

definition ts_small_parse_table_144 :: "(nat \<times> nat list) list" where
  [parse_rows]: "ts_small_parse_table_144 = [
    (3, [anon_sym_POUND]),
    (304, [anon_sym_RBRACE]),
    (144, [sym_comment]),
    (5, [anon_sym_SLASH_SLASH, anon_sym_SLASH_STAR])]"

definition ts_small_parse_table_145 :: "(nat \<times> nat list) list" where
  [parse_rows]: "ts_small_parse_table_145 = [
    (335, [anon_sym_POUND]),
    (353, [aux_sym_comment_token2]),
    (145, [sym_comment]),
    (337, [anon_sym_SLASH_SLASH, anon_sym_SLASH_STAR])]"

definition ts_small_parse_table_146 :: "(nat \<times> nat list) list" where
  [parse_rows]: "ts_small_parse_table_146 = [
    (3, [anon_sym_POUND]),
    (355, [anon_sym_EQ]),
    (146, [sym_comment]),
    (5, [anon_sym_SLASH_SLASH, anon_sym_SLASH_STAR])]"

definition ts_small_parse_table_147 :: "(nat \<times> nat list) list" where
  [parse_rows]: "ts_small_parse_table_147 = [
    (335, [anon_sym_POUND]),
    (357, [aux_sym_string_token3]),
    (147, [sym_comment]),
    (337, [anon_sym_SLASH_SLASH, anon_sym_SLASH_STAR])]"

definition ts_small_parse_table_148 :: "(nat \<times> nat list) list" where
  [parse_rows]: "ts_small_parse_table_148 = [
    (3, [anon_sym_POUND]),
    (329, [anon_sym_DQUOTE]),
    (148, [sym_comment]),
    (5, [anon_sym_SLASH_SLASH, anon_sym_SLASH_STAR])]"

definition ts_small_parse_table_149 :: "(nat \<times> nat list) list" where
  [parse_rows]: "ts_small_parse_table_149 = [
    (335, [anon_sym_POUND]),
    (359, [aux_sym_string_token1]),
    (149, [sym_comment]),
    (337, [anon_sym_SLASH_SLASH, anon_sym_SLASH_STAR])]"

definition ts_small_parse_table_150 :: "(nat \<times> nat list) list" where
  [parse_rows]: "ts_small_parse_table_150 = [
    (335, [anon_sym_POUND]),
    (361, [aux_sym_string_token2]),
    (150, [sym_comment]),
    (337, [anon_sym_SLASH_SLASH, anon_sym_SLASH_STAR])]"

definition ts_small_parse_table_151 :: "(nat \<times> nat list) list" where
  [parse_rows]: "ts_small_parse_table_151 = [
    (363, [ts_builtin_sym_end])]"

definition ts_small_parse_table_152 :: "(nat \<times> nat list) list" where
  [parse_rows]: "ts_small_parse_table_152 = [
    (365, [ts_builtin_sym_end])]"

definition ts_small_parse_table :: "nat \<Rightarrow> (nat \<times> nat list) list" where
  "ts_small_parse_table state =
    (if state = 2 then ts_small_parse_table_2
     else if state = 3 then ts_small_parse_table_3
     else if state = 4 then ts_small_parse_table_4
     else if state = 5 then ts_small_parse_table_5
     else if state = 6 then ts_small_parse_table_6
     else if state = 7 then ts_small_parse_table_7
     else if state = 8 then ts_small_parse_table_8
     else if state = 9 then ts_small_parse_table_9
     else if state = 10 then ts_small_parse_table_10
     else if state = 11 then ts_small_parse_table_11
     else if state = 12 then ts_small_parse_table_12
     else if state = 13 then ts_small_parse_table_13
     else if state = 14 then ts_small_parse_table_14
     else if state = 15 then ts_small_parse_table_15
     else if state = 16 then ts_small_parse_table_16
     else if state = 17 then ts_small_parse_table_17
     else if state = 18 then ts_small_parse_table_18
     else if state = 19 then ts_small_parse_table_19
     else if state = 20 then ts_small_parse_table_20
     else if state = 21 then ts_small_parse_table_21
     else if state = 22 then ts_small_parse_table_22
     else if state = 23 then ts_small_parse_table_23
     else if state = 24 then ts_small_parse_table_24
     else if state = 25 then ts_small_parse_table_25
     else if state = 26 then ts_small_parse_table_26
     else if state = 27 then ts_small_parse_table_27
     else if state = 28 then ts_small_parse_table_28
     else if state = 29 then ts_small_parse_table_29
     else if state = 30 then ts_small_parse_table_30
     else if state = 31 then ts_small_parse_table_31
     else if state = 32 then ts_small_parse_table_32
     else if state = 33 then ts_small_parse_table_33
     else if state = 34 then ts_small_parse_table_34
     else if state = 35 then ts_small_parse_table_35
     else if state = 36 then ts_small_parse_table_36
     else if state = 37 then ts_small_parse_table_37
     else if state = 38 then ts_small_parse_table_38
     else if state = 39 then ts_small_parse_table_39
     else if state = 40 then ts_small_parse_table_40
     else if state = 41 then ts_small_parse_table_41
     else if state = 42 then ts_small_parse_table_42
     else if state = 43 then ts_small_parse_table_43
     else if state = 44 then ts_small_parse_table_44
     else if state = 45 then ts_small_parse_table_45
     else if state = 46 then ts_small_parse_table_46
     else if state = 47 then ts_small_parse_table_47
     else if state = 48 then ts_small_parse_table_48
     else if state = 49 then ts_small_parse_table_49
     else if state = 50 then ts_small_parse_table_50
     else if state = 51 then ts_small_parse_table_51
     else if state = 52 then ts_small_parse_table_52
     else if state = 53 then ts_small_parse_table_53
     else if state = 54 then ts_small_parse_table_54
     else if state = 55 then ts_small_parse_table_55
     else if state = 56 then ts_small_parse_table_56
     else if state = 57 then ts_small_parse_table_57
     else if state = 58 then ts_small_parse_table_58
     else if state = 59 then ts_small_parse_table_59
     else if state = 60 then ts_small_parse_table_60
     else if state = 61 then ts_small_parse_table_61
     else if state = 62 then ts_small_parse_table_62
     else if state = 63 then ts_small_parse_table_63
     else if state = 64 then ts_small_parse_table_64
     else if state = 65 then ts_small_parse_table_65
     else if state = 66 then ts_small_parse_table_66
     else if state = 67 then ts_small_parse_table_67
     else if state = 68 then ts_small_parse_table_68
     else if state = 69 then ts_small_parse_table_69
     else if state = 70 then ts_small_parse_table_70
     else if state = 71 then ts_small_parse_table_71
     else if state = 72 then ts_small_parse_table_72
     else if state = 73 then ts_small_parse_table_73
     else if state = 74 then ts_small_parse_table_74
     else if state = 75 then ts_small_parse_table_75
     else if state = 76 then ts_small_parse_table_76
     else if state = 77 then ts_small_parse_table_77
     else if state = 78 then ts_small_parse_table_78
     else if state = 79 then ts_small_parse_table_79
     else if state = 80 then ts_small_parse_table_80
     else if state = 81 then ts_small_parse_table_81
     else if state = 82 then ts_small_parse_table_82
     else if state = 83 then ts_small_parse_table_83
     else if state = 84 then ts_small_parse_table_84
     else if state = 85 then ts_small_parse_table_85
     else if state = 86 then ts_small_parse_table_86
     else if state = 87 then ts_small_parse_table_87
     else if state = 88 then ts_small_parse_table_88
     else if state = 89 then ts_small_parse_table_89
     else if state = 90 then ts_small_parse_table_90
     else if state = 91 then ts_small_parse_table_91
     else if state = 92 then ts_small_parse_table_92
     else if state = 93 then ts_small_parse_table_93
     else if state = 94 then ts_small_parse_table_94
     else if state = 95 then ts_small_parse_table_95
     else if state = 96 then ts_small_parse_table_96
     else if state = 97 then ts_small_parse_table_97
     else if state = 98 then ts_small_parse_table_98
     else if state = 99 then ts_small_parse_table_99
     else if state = 100 then ts_small_parse_table_100
     else if state = 101 then ts_small_parse_table_101
     else if state = 102 then ts_small_parse_table_102
     else if state = 103 then ts_small_parse_table_103
     else if state = 104 then ts_small_parse_table_104
     else if state = 105 then ts_small_parse_table_105
     else if state = 106 then ts_small_parse_table_106
     else if state = 107 then ts_small_parse_table_107
     else if state = 108 then ts_small_parse_table_108
     else if state = 109 then ts_small_parse_table_109
     else if state = 110 then ts_small_parse_table_110
     else if state = 111 then ts_small_parse_table_111
     else if state = 112 then ts_small_parse_table_112
     else if state = 113 then ts_small_parse_table_113
     else if state = 114 then ts_small_parse_table_114
     else if state = 115 then ts_small_parse_table_115
     else if state = 116 then ts_small_parse_table_116
     else if state = 117 then ts_small_parse_table_117
     else if state = 118 then ts_small_parse_table_118
     else if state = 119 then ts_small_parse_table_119
     else if state = 120 then ts_small_parse_table_120
     else if state = 121 then ts_small_parse_table_121
     else if state = 122 then ts_small_parse_table_122
     else if state = 123 then ts_small_parse_table_123
     else if state = 124 then ts_small_parse_table_124
     else if state = 125 then ts_small_parse_table_125
     else if state = 126 then ts_small_parse_table_126
     else if state = 127 then ts_small_parse_table_127
     else if state = 128 then ts_small_parse_table_128
     else if state = 129 then ts_small_parse_table_129
     else if state = 130 then ts_small_parse_table_130
     else if state = 131 then ts_small_parse_table_131
     else if state = 132 then ts_small_parse_table_132
     else if state = 133 then ts_small_parse_table_133
     else if state = 134 then ts_small_parse_table_134
     else if state = 135 then ts_small_parse_table_135
     else if state = 136 then ts_small_parse_table_136
     else if state = 137 then ts_small_parse_table_137
     else if state = 138 then ts_small_parse_table_138
     else if state = 139 then ts_small_parse_table_139
     else if state = 140 then ts_small_parse_table_140
     else if state = 141 then ts_small_parse_table_141
     else if state = 142 then ts_small_parse_table_142
     else if state = 143 then ts_small_parse_table_143
     else if state = 144 then ts_small_parse_table_144
     else if state = 145 then ts_small_parse_table_145
     else if state = 146 then ts_small_parse_table_146
     else if state = 147 then ts_small_parse_table_147
     else if state = 148 then ts_small_parse_table_148
     else if state = 149 then ts_small_parse_table_149
     else if state = 150 then ts_small_parse_table_150
     else if state = 151 then ts_small_parse_table_151
     else if state = 152 then ts_small_parse_table_152
     else [])"

datatype parse_action =
    SHIFT nat
  | SHIFT_REPEAT nat
  | REDUCE nat nat nat
  | RECOVER
  | ACCEPT_INPUT

text \<open>
  \<^verbatim>\<open>ts_parse_actions\<close>: the actions of the entry at an index. \<open>REDUCE symbol n p\<close> is a
  reduction of \<open>n\<close> children to \<open>symbol\<close> with production id \<open>p\<close> (0 when the source
  names none).
\<close>

definition ts_parse_actions :: "nat \<Rightarrow> parse_action list" where
  "ts_parse_actions index =
    (if index = 0 then []
     else if index = 1 then [RECOVER]
     else if index = 3 then [SHIFT 143]
     else if index = 5 then [SHIFT 145]
     else if index = 7 then [REDUCE sym_runbook 0 0]
     else if index = 9 then [SHIFT 101]
     else if index = 11 then [SHIFT 106]
     else if index = 13 then [SHIFT 109]
     else if index = 15 then [SHIFT 99]
     else if index = 17 then [SHIFT 102]
     else if index = 19 then [SHIFT 105]
     else if index = 21 then [SHIFT 100]
     else if index = 23 then [SHIFT 59]
     else if index = 25 then [SHIFT 135]
     else if index = 27 then [SHIFT 132]
     else if index = 29 then [SHIFT 137]
     else if index = 31 then [SHIFT 34]
     else if index = 33 then [SHIFT 34]
     else if index = 35 then [SHIFT 33]
     else if index = 37 then [SHIFT 32]
     else if index = 39 then [SHIFT 3]
     else if index = 41 then [SHIFT 128]
     else if index = 43 then [SHIFT 91]
     else if index = 45 then [SHIFT 21]
     else if index = 47 then [SHIFT 136]
     else if index = 49 then [SHIFT 31]
     else if index = 51 then [SHIFT 39]
     else if index = 53 then [SHIFT 44]
     else if index = 55 then [SHIFT 78]
     else if index = 57 then [SHIFT 76]
     else if index = 59 then [SHIFT 75]
     else if index = 61 then [SHIFT 35]
     else if index = 63 then [SHIFT 62]
     else if index = 65 then [SHIFT 149]
     else if index = 67 then [SHIFT 150]
     else if index = 69 then [SHIFT 147]
     else if index = 71 then [SHIFT 89]
     else if index = 73 then [SHIFT 89]
     else if index = 75 then [SHIFT 94]
     else if index = 77 then [SHIFT 93]
     else if index = 79 then [SHIFT 2]
     else if index = 81 then [SHIFT 47]
     else if index = 83 then [REDUCE sym_string 3 0]
     else if index = 85 then [REDUCE sym_string 3 0]
     else if index = 87 then [REDUCE sym_reference 1 0]
     else if index = 89 then [SHIFT 20]
     else if index = 91 then [SHIFT 127]
     else if index = 93 then [SHIFT 9]
     else if index = 95 then [REDUCE sym_reference 1 0]
     else if index = 97 then [REDUCE aux_sym_reference_repeat1 2 0]
     else if index = 99 then [REDUCE aux_sym_reference_repeat1 2 0, SHIFT_REPEAT 127]
     else if index = 102 then [REDUCE aux_sym_reference_repeat1 2 0]
     else if index = 104 then [REDUCE sym_reference 2 0]
     else if index = 106 then [REDUCE sym_reference 2 0]
     else if index = 108 then [REDUCE sym_index_access 4 0]
     else if index = 110 then [REDUCE sym_index_access 4 0]
     else if index = 112 then [REDUCE sym_runbook 1 0]
     else if index = 114 then [REDUCE aux_sym_runbook_repeat1 2 0]
     else if index = 116 then [REDUCE aux_sym_runbook_repeat1 2 0, SHIFT_REPEAT 101]
     else if index = 119 then [REDUCE aux_sym_runbook_repeat1 2 0, SHIFT_REPEAT 106]
     else if index = 122 then [REDUCE aux_sym_runbook_repeat1 2 0, SHIFT_REPEAT 109]
     else if index = 125 then [REDUCE aux_sym_runbook_repeat1 2 0, SHIFT_REPEAT 99]
     else if index = 128 then [REDUCE aux_sym_runbook_repeat1 2 0, SHIFT_REPEAT 102]
     else if index = 131 then [REDUCE aux_sym_runbook_repeat1 2 0, SHIFT_REPEAT 105]
     else if index = 134 then [REDUCE aux_sym_runbook_repeat1 2 0, SHIFT_REPEAT 100]
     else if index = 137 then [REDUCE sym_array 3 0]
     else if index = 139 then [REDUCE sym_array 3 0]
     else if index = 141 then [REDUCE sym_array 2 0]
     else if index = 143 then [REDUCE sym_array 2 0]
     else if index = 145 then [REDUCE sym__expression 1 0]
     else if index = 147 then [REDUCE sym__expression 1 0]
     else if index = 149 then [REDUCE sym_boolean 1 0]
     else if index = 151 then [REDUCE sym_boolean 1 0]
     else if index = 153 then [REDUCE sym_number 1 0]
     else if index = 155 then [REDUCE sym_number 1 0]
     else if index = 157 then [REDUCE sym_function_call 3 7]
     else if index = 159 then [REDUCE sym_function_call 3 7]
     else if index = 161 then [REDUCE sym_object 3 0]
     else if index = 163 then [REDUCE sym_object 3 0]
     else if index = 165 then [REDUCE sym_object 2 0]
     else if index = 167 then [REDUCE sym_object 2 0]
     else if index = 169 then [REDUCE sym_function_call 5 9]
     else if index = 171 then [REDUCE sym_function_call 5 9]
     else if index = 173 then [REDUCE sym_array 5 0]
     else if index = 175 then [REDUCE sym_array 5 0]
     else if index = 177 then [REDUCE sym_object 5 0]
     else if index = 179 then [REDUCE sym_object 5 0]
     else if index = 181 then [REDUCE sym_binary_expression 3 0]
     else if index = 183 then [REDUCE sym_binary_expression 3 0]
     else if index = 185 then [REDUCE sym_function_call 4 8]
     else if index = 187 then [REDUCE sym_function_call 4 8]
     else if index = 189 then [SHIFT 13]
     else if index = 191 then [SHIFT 13]
     else if index = 193 then [REDUCE sym_array 4 0]
     else if index = 195 then [REDUCE sym_array 4 0]
     else if index = 197 then [REDUCE sym_object 4 0]
     else if index = 199 then [REDUCE sym_object 4 0]
     else if index = 201 then [REDUCE sym_input_declaration 4 5]
     else if index = 203 then [SHIFT 14]
     else if index = 205 then [SHIFT 12]
     else if index = 207 then [SHIFT 119]
     else if index = 209 then [SHIFT 8]
     else if index = 211 then [REDUCE aux_sym_runbook_repeat1 1 0]
     else if index = 213 then [REDUCE sym_addon_block 3 2]
     else if index = 215 then [REDUCE sym_import_statement 2 1]
     else if index = 217 then [REDUCE sym__statement 1 0]
     else if index = 219 then [REDUCE sym_output_block 3 3]
     else if index = 221 then [REDUCE sym_variable_declaration 3 3]
     else if index = 223 then [REDUCE sym_block 2 0]
     else if index = 225 then [REDUCE sym_signer_block 4 4]
     else if index = 227 then [REDUCE sym_action_block 4 4]
     else if index = 229 then [SHIFT 37]
     else if index = 231 then [SHIFT 144]
     else if index = 233 then [SHIFT 140]
     else if index = 235 then [REDUCE aux_sym_reference_repeat1 2 0, SHIFT_REPEAT 119]
     else if index = 238 then [SHIFT 92]
     else if index = 240 then [SHIFT 134]
     else if index = 242 then [REDUCE sym_block 3 0]
     else if index = 244 then [REDUCE aux_sym_array_repeat1 2 0]
     else if index = 246 then [SHIFT 40]
     else if index = 248 then [SHIFT 86]
     else if index = 250 then [SHIFT 15]
     else if index = 252 then [SHIFT 85]
     else if index = 254 then [SHIFT 81]
     else if index = 256 then [SHIFT 7]
     else if index = 258 then [SHIFT 88]
     else if index = 260 then [SHIFT 42]
     else if index = 262 then [SHIFT 5]
     else if index = 264 then [SHIFT 30]
     else if index = 266 then [SHIFT 45]
     else if index = 268 then [REDUCE sym_attribute 3 6]
     else if index = 270 then [SHIFT 18]
     else if index = 272 then [SHIFT 18]
     else if index = 274 then [SHIFT 10]
     else if index = 276 then [REDUCE sym_object_field 3 6]
     else if index = 278 then [SHIFT 72]
     else if index = 280 then [SHIFT 26]
     else if index = 282 then [SHIFT 54]
     else if index = 284 then [SHIFT 133]
     else if index = 286 then [SHIFT 63]
     else if index = 288 then [REDUCE aux_sym_block_repeat1 2 0]
     else if index = 290 then [REDUCE aux_sym_block_repeat1 2 0, SHIFT_REPEAT 133]
     else if index = 293 then [REDUCE aux_sym_array_repeat1 2 0, SHIFT_REPEAT 15]
     else if index = 296 then [SHIFT 4]
     else if index = 298 then [SHIFT 66]
     else if index = 300 then [SHIFT 6]
     else if index = 302 then [SHIFT 38]
     else if index = 304 then [SHIFT 36]
     else if index = 306 then [SHIFT 74]
     else if index = 308 then [REDUCE aux_sym_object_repeat1 2 0]
     else if index = 310 then [REDUCE aux_sym_object_repeat1 2 0, SHIFT_REPEAT 79]
     else if index = 313 then [SHIFT 90]
     else if index = 315 then [SHIFT 69]
     else if index = 317 then [SHIFT 82]
     else if index = 319 then [SHIFT 65]
     else if index = 321 then [SHIFT 60]
     else if index = 323 then [SHIFT 97]
     else if index = 325 then [REDUCE aux_sym_block_repeat1 1 0]
     else if index = 327 then [SHIFT 23]
     else if index = 329 then [SHIFT 17]
     else if index = 331 then [SHIFT 87]
     else if index = 333 then [SHIFT 129]
     else if index = 335 then [SHIFT 143]
     else if index = 337 then [SHIFT 145]
     else if index = 339 then [SHIFT 19]
     else if index = 341 then [SHIFT 148]
     else if index = 343 then [SHIFT 138]
     else if index = 345 then [SHIFT 151]
     else if index = 347 then [SHIFT 11]
     else if index = 349 then [ACCEPT_INPUT]
     else if index = 351 then [SHIFT 152]
     else if index = 353 then [SHIFT 139]
     else if index = 355 then [SHIFT 16]
     else if index = 357 then [SHIFT 131]
     else if index = 359 then [SHIFT 141]
     else if index = 361 then [SHIFT 130]
     else if index = 363 then [REDUCE sym_comment 3 0]
     else if index = 365 then [REDUCE sym_comment 2 0]
     else [])"

section \<open>Fields and symbol metadata\<close>

abbreviation (input) field_arguments :: nat where "field_arguments \<equiv> 1"
abbreviation (input) field_config :: nat where "field_config \<equiv> 2"
abbreviation (input) field_key :: nat where "field_key \<equiv> 3"
abbreviation (input) field_name :: nat where "field_name \<equiv> 4"
abbreviation (input) field_network :: nat where "field_network \<equiv> 5"
abbreviation (input) field_path :: nat where "field_path \<equiv> 6"
abbreviation (input) field_type :: nat where "field_type \<equiv> 7"
abbreviation (input) field_value :: nat where "field_value \<equiv> 8"

text \<open>
  \<^verbatim>\<open>ts_field_map_slices\<close> and \<^verbatim>\<open>ts_field_map_entries\<close> together: the entries
  \<open>(field, child index)\<close> of a production id.
\<close>

definition ts_field_map :: "nat \<Rightarrow> (nat \<times> nat) list" where
  "ts_field_map production_id =
    (if production_id = 1 then [(field_path, 1)]
     else if production_id = 2 then [(field_config, 2), (field_network, 1)]
     else if production_id = 3 then [(field_config, 2), (field_name, 1)]
     else if production_id = 4 then [(field_config, 3), (field_name, 1), (field_type, 2)]
     else if production_id = 5 then [(field_name, 1), (field_value, 3)]
     else if production_id = 6 then [(field_key, 0), (field_value, 2)]
     else if production_id = 7 then [(field_name, 0)]
     else if production_id = 8 then [(field_arguments, 2), (field_name, 0)]
     else if production_id = 9 then [(field_arguments, 2), (field_arguments, 3), (field_name, 0)]
     else [])"

definition ts_field_names :: "nat \<Rightarrow> string" where
  "ts_field_names field =
    (if field = field_arguments then ''arguments''
     else if field = field_config then ''config''
     else if field = field_key then ''key''
     else if field = field_name then ''name''
     else if field = field_network then ''network''
     else if field = field_path then ''path''
     else if field = field_type then ''type''
     else if field = field_value then ''value''
     else [])"

definition ts_symbol_visible :: "nat \<Rightarrow> bool" where
  "ts_symbol_visible symbol = (symbol \<in> set [
     anon_sym_addon, anon_sym_signer, anon_sym_action, anon_sym_output, anon_sym_variable,
     anon_sym_input, anon_sym_EQ, anon_sym_import, anon_sym_LBRACE, anon_sym_RBRACE,
     anon_sym_DQUOTE, anon_sym_SQUOTE, anon_sym_DQUOTE_DQUOTE_DQUOTE, anon_sym_true,
     anon_sym_false, sym_null, anon_sym_LBRACK, anon_sym_COMMA, anon_sym_RBRACK,
     anon_sym_COLON, anon_sym_DOT, anon_sym_LPAREN, anon_sym_RPAREN, anon_sym_STAR,
     anon_sym_SLASH, anon_sym_PLUS, anon_sym_DASH, sym_identifier, anon_sym_POUND,
     anon_sym_SLASH_SLASH, anon_sym_SLASH_STAR, sym_runbook, sym_addon_block, sym_signer_block,
     sym_action_block, sym_output_block, sym_variable_declaration, sym_input_declaration,
     sym_import_statement, sym_block, sym_attribute, sym_string, sym_number, sym_boolean,
     sym_array, sym_object, sym_object_field, sym_reference, sym_index_access,
     sym_function_call, sym_binary_expression, sym_comment])"

definition ts_symbol_named :: "nat \<Rightarrow> bool" where
  "ts_symbol_named symbol = (symbol \<in> set [
     ts_builtin_sym_end, sym_null, sym_identifier, sym_runbook, sym__statement,
     sym_addon_block, sym_signer_block, sym_action_block, sym_output_block,
     sym_variable_declaration, sym_input_declaration, sym_import_statement, sym_block,
     sym_attribute, sym__expression, sym_string, sym_number, sym_boolean, sym_array,
     sym_object, sym_object_field, sym_reference, sym_index_access, sym_function_call,
     sym_binary_expression, sym_comment])"

section \<open>The table interpreter\<close>

text \<open>
  Modelled from the spec: the interpreter of the tables (the parsing library that calls
  \<^verbatim>\<open>ts_lex\<close> and reads \<^verbatim>\<open>ts_parse_table\<close>, \<^verbatim>\<open>ts_small_parse_table\<close> and
  \<^verbatim>\<open>ts_parse_actions\<close>) is not under \<^verbatim>\<open>src/\<close>; the spec calls the reference a compact
  finite-state lexer and a shift/reduce action table. It is modelled as the deterministic
  shift/reduce machine those tables are generated for.

  The spec has the parser recover from an error and go on to a tree with a list of
  diagnostics (sections 4.4 and 7); what it does after an error is not in the tables. This
  machine goes as far as the tables decide: it returns the tree of a parse without
  diagnostics, or else the first diagnostic, where recovery would start, and no tree.
  Nothing is stated here about the tree that recovery would build.
\<close>

datatype subtree =
    Leaf nat string string
  | Node nat nat bool "subtree list"

text \<open>
  A leaf carries its symbol, its padding (the text skipped before the token) and its text;
  a node carries its symbol, its production id, whether it is an extra, and its children.
  The end-of-input leaf counts as an extra.
\<close>

fun ts_subtree_symbol :: "subtree \<Rightarrow> nat" where
  "ts_subtree_symbol (Leaf symbol padding txt) = symbol"
| "ts_subtree_symbol (Node symbol production_id extra children) = symbol"

fun ts_subtree_extra :: "subtree \<Rightarrow> bool" where
  "ts_subtree_extra (Leaf symbol padding txt) = (symbol = ts_builtin_sym_end)"
| "ts_subtree_extra (Node symbol production_id extra children) = extra"

fun small_parse_table_lookup :: "(nat \<times> nat list) list \<Rightarrow> nat \<Rightarrow> nat" where
  "small_parse_table_lookup [] symbol = 0"
| "small_parse_table_lookup ((section_value, symbols) # groups) symbol =
    (if symbol \<in> set symbols then section_value else small_parse_table_lookup groups symbol)"

fun parse_table_lookup :: "(nat \<times> nat) list \<Rightarrow> nat \<Rightarrow> nat" where
  "parse_table_lookup [] symbol = 0"
| "parse_table_lookup ((s, v) # row) symbol =
    (if symbol = s then v else parse_table_lookup row symbol)"

definition ts_language_lookup :: "nat \<Rightarrow> nat \<Rightarrow> nat" where
  "ts_language_lookup state symbol =
    (if LARGE_STATE_COUNT \<le> state then small_parse_table_lookup (ts_small_parse_table state) symbol
     else parse_table_lookup (ts_parse_table state) symbol)"

definition ts_language_actions :: "nat \<Rightarrow> nat \<Rightarrow> parse_action list" where
  "ts_language_actions state symbol = ts_parse_actions (ts_language_lookup state symbol)"

definition ts_language_next_state :: "nat \<Rightarrow> nat \<Rightarrow> nat" where
  "ts_language_next_state state symbol = ts_language_lookup state symbol"

subsection \<open>Lexing one token\<close>

text \<open>
  A cursor at \<open>position\<close> whose unread text is \<open>input\<close>; and the end of a lexer run,
  where a token end before the token start moves the start back to the end.
\<close>

definition lexer_start :: "string \<Rightarrow> nat \<Rightarrow> lexer" where
  "lexer_start input position = Lexer input position position position 0"

fun lexer_finish :: "lexer \<Rightarrow> lexer" where
  "lexer_finish (Lexer cs pos tok_start tok_end symbol) =
    Lexer cs pos (if tok_end < tok_start then tok_end else tok_start) tok_end symbol"

text \<open>
  The token of a finished lexer run that started at \<open>position\<close> with \<open>input\<close> unread: its
  leaf, the input left after it, and the offset where it ends. The padding of the leaf is
  the text skipped before the token.
\<close>

fun lexed_token :: "string \<Rightarrow> nat \<Rightarrow> lexer \<Rightarrow> subtree \<times> string \<times> nat" where
  "lexed_token input position (Lexer cs pos tok_start tok_end symbol) =
    (Leaf symbol (take (tok_start - position) input)
       (take (tok_end - tok_start) (drop (tok_start - position) input)),
     drop (tok_end - position) input, tok_end)"

fun found_token :: "string \<Rightarrow> nat \<Rightarrow> lexer \<times> bool \<Rightarrow> (subtree \<times> string \<times> nat) option" where
  "found_token input position (lexer, True) = Some (lexed_token input position (lexer_finish lexer))"
| "found_token input position (lexer, False) = None"

definition lex_token :: "nat \<Rightarrow> string \<Rightarrow> nat \<Rightarrow> (subtree \<times> string \<times> nat) option" where
  "lex_token lex_state input position =
    found_token input position (ts_lex (lexer_start input position) lex_state)"

datatype parse_error = LexError nat | SyntaxError nat nat | Unsupported nat

text \<open>
  The first diagnostic of a parse. \<open>LexError p\<close>: no token at offset \<open>p\<close>, neither in the
  lex mode of the state nor in the mode of state 0; \<open>SyntaxError p symbol\<close>: the token
  \<open>symbol\<close> that ends at offset \<open>p\<close> has no action in the current state;
  \<open>Unsupported\<close>: a table entry this machine does not interpret (the recovery entry of
  state 0, which no shift or goto enters, or more than one action).
\<close>

datatype lookahead = Token subtree | EndOfExtra

text \<open>
  The parser: its stack (top first; each entry is the state entered and the subtree pushed),
  the unread input and its offset, and the lookahead when one has been lexed and not yet
  shifted. \<open>EndOfExtra\<close> is the null lookahead at the end of a non-terminal extra, in the
  states whose lex mode is \<^verbatim>\<open>(TSStateId)(-1)\<close>. Parsing starts in state 1.
\<close>

datatype parser =
  Parser (stack: "(nat \<times> subtree) list") (unread: string) (position: nat)
    (lookahead: "lookahead option")

fun stack_state :: "(nat \<times> subtree) list \<Rightarrow> nat" where
  "stack_state [] = 1"
| "stack_state ((state, tree) # stk) = state"

text \<open>
  Lexing for the parser: in the lex mode of the current state and, when that finds no
  token, in the lex mode of state 0.
\<close>

fun lexed_retry :: "(nat \<times> subtree) list \<Rightarrow> nat \<Rightarrow> (subtree \<times> string \<times> nat) option \<Rightarrow> parse_error + parser" where
  "lexed_retry stk pos (Some (leaf, rest, pos')) = Inr (Parser stk rest pos' (Some (Token leaf)))"
| "lexed_retry stk pos None = Inl (LexError pos)"

fun lexed :: "(nat \<times> subtree) list \<Rightarrow> string \<Rightarrow> nat \<Rightarrow> (subtree \<times> string \<times> nat) option \<Rightarrow> parse_error + parser" where
  "lexed stk input pos (Some (leaf, rest, pos')) = Inr (Parser stk rest pos' (Some (Token leaf)))"
| "lexed stk input pos None = lexed_retry stk pos (lex_token (ts_lex_modes 0) input pos)"

fun ts_parser_lex :: "parser \<Rightarrow> parse_error + parser" where
  "ts_parser_lex (Parser stk input pos la) =
    (if ts_lex_modes (stack_state stk) = 65535 then Inr (Parser stk input pos (Some EndOfExtra))
     else lexed stk input pos (lex_token (ts_lex_modes (stack_state stk)) input pos))"

text \<open>
  Popping for a reduction of \<open>n\<close> children: extras do not count, so the pop takes subtrees
  from the top until \<open>n\<close> that are not extras are taken. The subtrees taken are collected
  in source order. Extras on top of the popped subtrees do not go into the new node: they
  are pushed back on top of it.
\<close>

fun pop_count :: "nat \<Rightarrow> (nat \<times> subtree) list \<Rightarrow> subtree list \<Rightarrow> subtree list \<times> (nat \<times> subtree) list" where
  "pop_count n [] popped = (popped, [])"
| "pop_count n ((state, tree) # stk) popped =
    (if n = 0 then (popped, (state, tree) # stk)
     else pop_count (if ts_subtree_extra tree then n else n - 1) stk (tree # popped))"

definition remove_trailing_extras :: "subtree list \<Rightarrow> subtree list \<times> subtree list" where
  "remove_trailing_extras trees =
    (rev (dropWhile ts_subtree_extra (rev trees)), rev (takeWhile ts_subtree_extra (rev trees)))"

fun push_parent ::
  "(nat \<times> subtree) list \<Rightarrow> string \<Rightarrow> nat \<Rightarrow> lookahead option \<Rightarrow> nat \<Rightarrow> nat \<Rightarrow> bool \<Rightarrow>
   subtree list \<times> subtree list \<Rightarrow> nat \<Rightarrow> nat \<Rightarrow> parser" where
  "push_parent below input pos la symbol production_id end_of_non_terminal_extra
     (children, trailing_extras) state next_state =
    Parser
      (map (Pair next_state) (rev trailing_extras) @
       (next_state, Node symbol production_id (end_of_non_terminal_extra \<and> next_state = state) children) #
       below)
      input pos (if end_of_non_terminal_extra then None else la)"

fun reduce_popped ::
  "string \<Rightarrow> nat \<Rightarrow> lookahead option \<Rightarrow> nat \<Rightarrow> nat \<Rightarrow> bool \<Rightarrow>
   subtree list \<times> (nat \<times> subtree) list \<Rightarrow> parser" where
  "reduce_popped input pos la symbol production_id end_of_non_terminal_extra (popped, below) =
    push_parent below input pos la symbol production_id end_of_non_terminal_extra
      (remove_trailing_extras popped) (stack_state below)
      (ts_language_next_state (stack_state below) symbol)"

text \<open>
  A reduction: the node made of the popped subtrees is pushed in the state that the state
  below has for its symbol. At the end of a non-terminal extra, a node that leaves the
  state unchanged is an extra, and the lookahead is lexed again.
\<close>

fun ts_parser_reduce :: "parser \<Rightarrow> nat \<Rightarrow> nat \<Rightarrow> nat \<Rightarrow> bool \<Rightarrow> parser" where
  "ts_parser_reduce (Parser stk input pos la) symbol child_count production_id end_of_non_terminal_extra =
    reduce_popped input pos la symbol production_id end_of_non_terminal_extra
      (pop_count child_count stk [])"

text \<open>
  Accepting: the end-of-input leaf is pushed, and the topmost subtree that is not an extra
  becomes the root; the subtrees around it become its children.
\<close>

fun splice_root :: "subtree list \<Rightarrow> subtree list \<Rightarrow> subtree option" where
  "splice_root [] upper = None"
| "splice_root (Leaf symbol padding txt # lower) upper =
    (if symbol = ts_builtin_sym_end then splice_root lower (Leaf symbol padding txt # upper) else None)"
| "splice_root (Node symbol production_id extra children # lower) upper =
    (if extra then splice_root lower (Node symbol production_id extra children # upper)
     else Some (Node symbol production_id extra (rev lower @ children @ upper)))"

definition ts_parser_accept :: "(nat \<times> subtree) list \<Rightarrow> subtree \<Rightarrow> subtree option" where
  "ts_parser_accept stk eof_leaf = splice_root (eof_leaf # map snd stk) []"

datatype step = Next parser | Done "parse_error + subtree"

fun lookahead_symbol :: "lookahead \<Rightarrow> nat" where
  "lookahead_symbol (Token leaf) = ts_subtree_symbol leaf"
| "lookahead_symbol EndOfExtra = ts_builtin_sym_end"

fun is_repetition :: "parse_action \<Rightarrow> bool" where
  "is_repetition (SHIFT_REPEAT state) = True"
| "is_repetition action = False"

fun accepted :: "nat \<Rightarrow> subtree option \<Rightarrow> step" where
  "accepted pos (Some root) = Done (Inr root)"
| "accepted pos None = Done (Inl (Unsupported pos))"

text \<open>
  The actions of the lookahead in the current state, without the repetition shifts (they
  serve the reuse of subtrees only). No action left is a syntax error; one action is
  carried out; more than one would be a conflict, which these tables do not have.
\<close>

fun ts_parser_do :: "parser \<Rightarrow> lookahead \<Rightarrow> parse_action list \<Rightarrow> step" where
  "ts_parser_do (Parser stk input pos l) la [] = Done (Inl (SyntaxError pos (lookahead_symbol la)))"
| "ts_parser_do (Parser stk input pos l) (Token leaf) [SHIFT next_state] =
    Next (Parser ((next_state, leaf) # stk) input pos None)"
| "ts_parser_do (Parser stk input pos l) la [REDUCE symbol child_count production_id] =
    Next (ts_parser_reduce (Parser stk input pos l) symbol child_count production_id (la = EndOfExtra))"
| "ts_parser_do (Parser stk input pos l) (Token leaf) [ACCEPT_INPUT] =
    accepted pos (ts_parser_accept stk leaf)"
| "ts_parser_do (Parser stk input pos l) la actions = Done (Inl (Unsupported pos))"

fun lexed_step :: "parse_error + parser \<Rightarrow> step" where
  "lexed_step (Inl e) = Done (Inl e)"
| "lexed_step (Inr p) = Next p"

fun ts_parser_step :: "parser \<Rightarrow> step" where
  "ts_parser_step (Parser stk input pos None) = lexed_step (ts_parser_lex (Parser stk input pos None))"
| "ts_parser_step (Parser stk input pos (Some la)) =
    ts_parser_do (Parser stk input pos (Some la)) la
      (filter (\<lambda>action. \<not> is_repetition action)
         (ts_language_actions (stack_state stk) (lookahead_symbol la)))"

text \<open>
  The parse loop. It has no bound of its own, so it is a partial function: \<open>None\<close> is a
  parse that never returns.
\<close>

partial_function (option) ts_parser_run :: "parser \<Rightarrow> (parse_error + subtree) option" where
  "ts_parser_run p = (case ts_parser_step p of Next p' \<Rightarrow> ts_parser_run p' | Done r \<Rightarrow> Some r)"

definition ts_parser_parse :: "string \<Rightarrow> (parse_error + subtree) option" where
  "ts_parser_parse input = ts_parser_run (Parser [] input 0 None)"

section \<open>Reading a syntax tree\<close>

fun ts_subtree_children :: "subtree \<Rightarrow> subtree list" where
  "ts_subtree_children (Leaf symbol padding txt) = []"
| "ts_subtree_children (Node symbol production_id extra children) = children"

fun ts_subtree_production_id :: "subtree \<Rightarrow> nat" where
  "ts_subtree_production_id (Leaf symbol padding txt) = 0"
| "ts_subtree_production_id (Node symbol production_id extra children) = production_id"

text \<open>
  The part of the buffer that a subtree covers, the padding of its tokens included; and
  the spans of its tokens alone, in source order.
\<close>

fun subtree_source :: "subtree \<Rightarrow> string" where
  "subtree_source (Leaf symbol padding txt) = padding @ txt"
| "subtree_source (Node symbol production_id extra children) = concat (map subtree_source children)"

fun token_spans :: "subtree \<Rightarrow> string list" where
  "token_spans (Leaf symbol padding txt) = [txt]"
| "token_spans (Node symbol production_id extra children) = concat (map token_spans children)"

fun subtrees :: "subtree \<Rightarrow> subtree list" where
  "subtrees (Leaf symbol padding txt) = [Leaf symbol padding txt]"
| "subtrees (Node symbol production_id extra children) =
    Node symbol production_id extra children # concat (map subtrees children)"

text \<open>
  Modelled from the spec: the syntax tree exposes, per node, its kind, its ordered children
  and a lookup of its named fields (section 6). The nodes of a tree are its visible
  subtrees (\<^verbatim>\<open>ts_symbol_metadata\<close>): the children of a node are the visible subtrees
  next below it, through hidden ones. A field names the children found at its index among
  the children of the production that are not extras (\<^verbatim>\<open>ts_field_map_entries\<close>).
\<close>

fun expose :: "subtree \<Rightarrow> subtree list" where
  "expose (Leaf symbol padding txt) = (if ts_symbol_visible symbol then [Leaf symbol padding txt] else [])"
| "expose (Node symbol production_id extra children) =
    (if ts_symbol_visible symbol then [Node symbol production_id extra children]
     else concat (map expose children))"

definition ts_node_children :: "subtree \<Rightarrow> subtree list" where
  "ts_node_children node = concat (map expose (ts_subtree_children node))"

definition ts_node_named_children :: "subtree \<Rightarrow> subtree list" where
  "ts_node_named_children node =
    filter (\<lambda>child. ts_symbol_named (ts_subtree_symbol child)) (ts_node_children node)"

fun child_at :: "subtree list \<Rightarrow> nat \<Rightarrow> subtree list" where
  "child_at [] index = []"
| "child_at (child # children) index = (if index = 0 then [child] else child_at children (index - 1))"

fun field_entries :: "nat \<Rightarrow> (nat \<times> nat) list \<Rightarrow> nat list" where
  "field_entries field [] = []"
| "field_entries field ((field_id, child_index) # entries) =
    (if field_id = field then child_index # field_entries field entries
     else field_entries field entries)"

definition ts_node_children_by_field_id :: "subtree \<Rightarrow> nat \<Rightarrow> subtree list" where
  "ts_node_children_by_field_id node field =
    concat (map (\<lambda>child_index.
        concat (map expose (child_at (filter (\<lambda>child. \<not> ts_subtree_extra child) (ts_subtree_children node)) child_index)))
      (field_entries field (ts_field_map (ts_subtree_production_id node))))"

definition ts_language_field_id_for_name :: "string \<Rightarrow> nat" where
  "ts_language_field_id_for_name name =
    (case filter (\<lambda>field. ts_field_names field = name) [1, 2, 3, 4, 5, 6, 7, 8] of
       [] \<Rightarrow> 0
     | field # fields \<Rightarrow> field)"

definition ts_node_children_by_field_name :: "subtree \<Rightarrow> string \<Rightarrow> subtree list" where
  "ts_node_children_by_field_name node name =
    ts_node_children_by_field_id node (ts_language_field_id_for_name name)"

text \<open>The text of a node: what it covers, without the padding before its first token.\<close>

fun leading_padding :: "subtree \<Rightarrow> string" where
  "leading_padding (Leaf symbol padding txt) = padding"
| "leading_padding (Node symbol production_id extra []) = []"
| "leading_padding (Node symbol production_id extra (child # children)) = leading_padding child"

definition ts_node_text :: "subtree \<Rightarrow> string" where
  "ts_node_text node = drop (length (leading_padding node)) (subtree_source node)"

text \<open>
  The nodes of a kind in the tree of a successful parse, in source order; none when the
  parse fails.
\<close>

fun parsed_nodes :: "nat \<Rightarrow> (parse_error + subtree) option \<Rightarrow> subtree list" where
  "parsed_nodes symbol (Some (Inr root)) = filter (\<lambda>node. ts_subtree_symbol node = symbol) (subtrees root)"
| "parsed_nodes symbol result = []"

text \<open>
  An expression with every binary expression in parentheses, and the tokens without their
  padding: how the operands of the operators are grouped.
\<close>

fun grouping :: "subtree \<Rightarrow> string" where
  "grouping (Leaf symbol padding txt) = txt"
| "grouping (Node symbol production_id extra children) =
    (if symbol = sym_binary_expression then ''('' @ concat (map grouping children) @ '')''
     else concat (map grouping children))"

text \<open>The kinds and the texts of the children that a field of a node names.\<close>

definition field_text :: "subtree \<Rightarrow> string \<Rightarrow> (nat \<times> string) list" where
  "field_text node name =
    map (\<lambda>child. (ts_subtree_symbol child, ts_node_text child)) (ts_node_children_by_field_name node name)"

section \<open>Properties of the tables\<close>

fun shift_states :: "parse_action list \<Rightarrow> nat list" where
  "shift_states [] = []"
| "shift_states (SHIFT state # actions) = state # shift_states actions"
| "shift_states (action # actions) = shift_states actions"

text \<open>
  A state that expects a string and has no action for an identifier; and a state all of
  whose shifts of the statement keywords lead to such states.
\<close>

definition string_expected :: "nat \<Rightarrow> bool" where
  "string_expected state =
    (ts_language_actions state sym_identifier = [] \<and>
     ts_language_actions state anon_sym_DQUOTE = [SHIFT 135] \<and>
     ts_language_actions state anon_sym_SQUOTE = [SHIFT 132] \<and>
     ts_language_actions state anon_sym_DQUOTE_DQUOTE_DQUOTE = [SHIFT 137])"

definition name_positions :: "nat \<Rightarrow> bool" where
  "name_positions state =
    list_all (\<lambda>keyword. list_all string_expected (shift_states (ts_language_actions state keyword)))
      [anon_sym_addon, anon_sym_signer, anon_sym_action, anon_sym_output, anon_sym_variable,
       anon_sym_input, anon_sym_import]"

text \<open>
  The reductions to a symbol among the actions of a table entry: the number of children
  and the production id of each.
\<close>

fun reductions :: "nat \<Rightarrow> parse_action list \<Rightarrow> (nat \<times> nat) list" where
  "reductions symbol [] = []"
| "reductions symbol (REDUCE reduced child_count production_id # actions) =
    (if reduced = symbol then (child_count, production_id) # reductions symbol actions
     else reductions symbol actions)"
| "reductions symbol (action # actions) = reductions symbol actions"

text \<open>A state where an expression may start: a decimal number is shifted there.\<close>

definition expression_start :: "nat \<Rightarrow> bool" where
  "expression_start state = (shift_states (ts_language_actions state aux_sym_number_token3) \<noteq> [])"

text \<open>
  How the parser groups the value of the declaration \<^verbatim>\<open>input "x" = expression\<close>.
\<close>

definition expression_grouping :: "string \<Rightarrow> string list" where
  \<open>expression_grouping expression =
    concat (map (\<lambda>node. map grouping (ts_node_children_by_field_name node ''value''))
      (parsed_nodes sym_input_declaration (ts_parser_parse (''input "x" = '' @ expression))))\<close>

definition additive :: "char \<Rightarrow> bool" where
  "additive c = (c = CHR ''+'' \<or> c = CHR ''-'')"

definition multiplicative :: "char \<Rightarrow> bool" where
  "multiplicative c = (c = CHR ''*'' \<or> c = CHR ''/'')"


text \<open>
  Where the operators are shifted to: \<^verbatim>\<open>*\<close> and \<^verbatim>\<open>/\<close> to the states 13 and 18,
  \<^verbatim>\<open>+\<close> and \<^verbatim>\<open>-\<close> to the states 14 and 10 (and \<^verbatim>\<open>/\<close> to 151 at the end of a comment).
\<close>

definition operator_shifts :: "nat \<Rightarrow> bool" where
  "operator_shifts state =
    (set (shift_states (ts_language_actions state anon_sym_STAR)) \<subseteq> {13, 18} \<and>
     set (shift_states (ts_language_actions state anon_sym_SLASH)) \<subseteq> {13, 18, 151} \<and>
     set (shift_states (ts_language_actions state anon_sym_PLUS)) \<subseteq> {14, 10} \<and>
     set (shift_states (ts_language_actions state anon_sym_DASH)) \<subseteq> {14, 10})"

text \<open>
  The classes of characters that the conditions of \<^verbatim>\<open>ts_lex\<close> test, and a text that
  does not go on with a character of a class: it is empty or starts with another character.
\<close>

definition digit :: "char \<Rightarrow> bool" where
  "digit c = (CHR ''0'' \<le> c \<and> c \<le> CHR ''9'')"

definition hex_digit :: "char \<Rightarrow> bool" where
  "hex_digit c =
    ((CHR ''0'' \<le> c \<and> c \<le> CHR ''9'') \<or> (CHR ''A'' \<le> c \<and> c \<le> CHR ''F'') \<or>
     (CHR ''a'' \<le> c \<and> c \<le> CHR ''f''))"

definition identifier_start :: "char \<Rightarrow> bool" where
  "identifier_start c =
    ((CHR ''A'' \<le> c \<and> c \<le> CHR ''Z'') \<or> c = CHR ''_'' \<or> (CHR ''a'' \<le> c \<and> c \<le> CHR ''z''))"

definition identifier_char :: "char \<Rightarrow> bool" where
  "identifier_char c =
    ((CHR ''0'' \<le> c \<and> c \<le> CHR ''9'') \<or> (CHR ''A'' \<le> c \<and> c \<le> CHR ''Z'') \<or> c = CHR ''_'' \<or>
     (CHR ''a'' \<le> c \<and> c \<le> CHR ''z''))"

fun stops :: "(char \<Rightarrow> bool) \<Rightarrow> string \<Rightarrow> bool" where
  "stops P [] = True"
| "stops P (c # cs) = (\<not> P c)"

text \<open>
  A text that goes on with the fraction of a number, a \<^verbatim>\<open>.\<close> and a digit; and one that
  goes on with the digits of a hexadecimal number, an \<^verbatim>\<open>x\<close> and a hexadecimal digit.
\<close>

fun fraction_follows :: "string \<Rightarrow> bool" where
  "fraction_follows (c # d # cs) = (c = CHR ''.'' \<and> digit d)"
| "fraction_follows cs = False"

fun hex_follows :: "string \<Rightarrow> bool" where
  "hex_follows (c # d # cs) = (c = CHR ''x'' \<and> hex_digit d)"
| "hex_follows cs = False"

section \<open>Evaluation\<close>

text \<open>
  The two loops in a form that rewrites by pattern matching: the step is computed first,
  and the equation that matches its result continues.
\<close>

definition ts_lex_do :: "nat option \<times> lex_move \<Rightarrow> lexer \<Rightarrow> bool \<Rightarrow> lexer \<times> bool" where
  "ts_lex_do am lexer result =
    (case am of
       (accept, move) \<Rightarrow>
         (case move of
            ADVANCE s \<Rightarrow>
              ts_lex_loop (lexer_advance (accept_token accept lexer) False) s (accept_result accept result)
          | SKIP s \<Rightarrow>
              ts_lex_loop (lexer_advance (accept_token accept lexer) True) s (accept_result accept result)
          | END_STATE \<Rightarrow> (accept_token accept lexer, accept_result accept result)
          | RETURN_FALSE \<Rightarrow> (accept_token accept lexer, False)))"

definition ts_parser_continue :: "step \<Rightarrow> (parse_error + subtree) option" where
  "ts_parser_continue s = (case s of Next p \<Rightarrow> ts_parser_run p | Done r \<Rightarrow> Some r)"

text \<open>The tables, one row at a time.\<close>

lemma ts_lex_case_simps [lex_states]:
  "ts_lex_case 0 = ts_lex_state_0"
  "ts_lex_case 1 = ts_lex_state_1"
  "ts_lex_case (Suc 0) = ts_lex_state_1"
  "ts_lex_case 2 = ts_lex_state_2"
  "ts_lex_case 3 = ts_lex_state_3"
  "ts_lex_case 4 = ts_lex_state_4"
  "ts_lex_case 5 = ts_lex_state_5"
  "ts_lex_case 6 = ts_lex_state_6"
  "ts_lex_case 7 = ts_lex_state_7"
  "ts_lex_case 8 = ts_lex_state_8"
  "ts_lex_case 9 = ts_lex_state_9"
  "ts_lex_case 10 = ts_lex_state_10"
  "ts_lex_case 11 = ts_lex_state_11"
  "ts_lex_case 12 = ts_lex_state_12"
  "ts_lex_case 13 = ts_lex_state_13"
  "ts_lex_case 14 = ts_lex_state_14"
  "ts_lex_case 15 = ts_lex_state_15"
  "ts_lex_case 16 = ts_lex_state_16"
  "ts_lex_case 17 = ts_lex_state_17"
  "ts_lex_case 18 = ts_lex_state_18"
  "ts_lex_case 19 = ts_lex_state_19"
  "ts_lex_case 20 = ts_lex_state_20"
  "ts_lex_case 21 = ts_lex_state_21"
  "ts_lex_case 22 = ts_lex_state_22"
  "ts_lex_case 23 = ts_lex_state_23"
  "ts_lex_case 24 = ts_lex_state_24"
  "ts_lex_case 25 = ts_lex_state_25"
  "ts_lex_case 26 = ts_lex_state_26"
  "ts_lex_case 27 = ts_lex_state_27"
  "ts_lex_case 28 = ts_lex_state_28"
  "ts_lex_case 29 = ts_lex_state_29"
  "ts_lex_case 30 = ts_lex_state_30"
  "ts_lex_case 31 = ts_lex_state_31"
  "ts_lex_case 32 = ts_lex_state_32"
  "ts_lex_case 33 = ts_lex_state_33"
  "ts_lex_case 34 = ts_lex_state_34"
  "ts_lex_case 35 = ts_lex_state_35"
  "ts_lex_case 36 = ts_lex_state_36"
  "ts_lex_case 37 = ts_lex_state_37"
  "ts_lex_case 38 = ts_lex_state_38"
  "ts_lex_case 39 = ts_lex_state_39"
  "ts_lex_case 40 = ts_lex_state_40"
  "ts_lex_case 41 = ts_lex_state_41"
  "ts_lex_case 42 = ts_lex_state_42"
  "ts_lex_case 43 = ts_lex_state_43"
  "ts_lex_case 44 = ts_lex_state_44"
  "ts_lex_case 45 = ts_lex_state_45"
  "ts_lex_case 46 = ts_lex_state_46"
  "ts_lex_case 47 = ts_lex_state_47"
  "ts_lex_case 48 = ts_lex_state_48"
  "ts_lex_case 49 = ts_lex_state_49"
  "ts_lex_case 50 = ts_lex_state_50"
  "ts_lex_case 51 = ts_lex_state_51"
  "ts_lex_case 52 = ts_lex_state_52"
  "ts_lex_case 53 = ts_lex_state_53"
  "ts_lex_case 54 = ts_lex_state_54"
  "ts_lex_case 55 = ts_lex_state_55"
  "ts_lex_case 56 = ts_lex_state_56"
  "ts_lex_case 57 = ts_lex_state_57"
  "ts_lex_case 58 = ts_lex_state_58"
  "ts_lex_case 59 = ts_lex_state_59"
  "ts_lex_case 60 = ts_lex_state_60"
  "ts_lex_case 61 = ts_lex_state_61"
  "ts_lex_case 62 = ts_lex_state_62"
  "ts_lex_case 63 = ts_lex_state_63"
  "ts_lex_case 64 = ts_lex_state_64"
  "ts_lex_case 65 = ts_lex_state_65"
  "ts_lex_case 66 = ts_lex_state_66"
  "ts_lex_case 67 = ts_lex_state_67"
  "ts_lex_case 68 = ts_lex_state_68"
  "ts_lex_case 69 = ts_lex_state_69"
  "ts_lex_case 70 = ts_lex_state_70"
  "ts_lex_case 71 = ts_lex_state_71"
  "ts_lex_case 72 = ts_lex_state_72"
  "ts_lex_case 73 = ts_lex_state_73"
  "ts_lex_case 74 = ts_lex_state_74"
  "ts_lex_case 75 = ts_lex_state_75"
  "ts_lex_case 76 = ts_lex_state_76"
  "ts_lex_case 77 = ts_lex_state_77"
  "ts_lex_case 78 = ts_lex_state_78"
  "ts_lex_case 79 = ts_lex_state_79"
  "ts_lex_case 80 = ts_lex_state_80"
  "ts_lex_case 81 = ts_lex_state_81"
  "ts_lex_case 82 = ts_lex_state_82"
  "ts_lex_case 83 = ts_lex_state_83"
  "ts_lex_case 84 = ts_lex_state_84"
  "ts_lex_case 85 = ts_lex_state_85"
  "ts_lex_case 86 = ts_lex_state_86"
  "ts_lex_case 87 = ts_lex_state_87"
  "ts_lex_case 88 = ts_lex_state_88"
  "ts_lex_case 89 = ts_lex_state_89"
  "ts_lex_case 90 = ts_lex_state_90"
  "ts_lex_case 91 = ts_lex_state_91"
  "ts_lex_case 92 = ts_lex_state_92"
  "ts_lex_case 93 = ts_lex_state_93"
  "ts_lex_case 94 = ts_lex_state_94"
  "ts_lex_case 95 = ts_lex_state_95"
  "ts_lex_case 96 = ts_lex_state_96"
  "ts_lex_case 97 = ts_lex_state_97"
  "ts_lex_case 98 = ts_lex_state_98"
  "ts_lex_case 99 = ts_lex_state_99"
  "ts_lex_case 100 = ts_lex_state_100"
  "ts_lex_case 101 = ts_lex_state_101"
  "ts_lex_case 102 = ts_lex_state_102"
  "ts_lex_case 103 = ts_lex_state_103"
  "ts_lex_case 104 = ts_lex_state_104"
  "ts_lex_case 105 = ts_lex_state_105"
  "ts_lex_case 106 = ts_lex_state_106"
  "ts_lex_case 107 = ts_lex_state_107"
  "ts_lex_case 108 = ts_lex_state_108"
  "ts_lex_case 109 = ts_lex_state_109"
  "ts_lex_case 110 = ts_lex_state_110"
  "ts_lex_case 111 = ts_lex_state_111"
  "ts_lex_case 112 = ts_lex_state_112"
  "ts_lex_case 113 = ts_lex_state_113"
  "ts_lex_case 114 = ts_lex_state_114"
  "ts_lex_case 115 = ts_lex_state_115"
  "ts_lex_case 116 = ts_lex_state_116"
  "ts_lex_case 117 = ts_lex_state_117"
  "ts_lex_case 118 = ts_lex_state_118"
  "ts_lex_case 119 = ts_lex_state_119"
  "ts_lex_case 120 = ts_lex_state_120"
  "ts_lex_case 121 = ts_lex_state_121"
  "ts_lex_case 122 = ts_lex_state_122"
  "ts_lex_case 123 = ts_lex_state_123"
  "ts_lex_case 124 = ts_lex_state_124"
  "ts_lex_case 125 = ts_lex_state_125"
  "ts_lex_case 126 = ts_lex_state_126"
  "ts_lex_case 127 = ts_lex_state_127"
  "ts_lex_case 128 = ts_lex_state_128"
  "ts_lex_case 129 = ts_lex_state_129"
  "ts_lex_case 130 = ts_lex_state_130"
  "ts_lex_case 131 = ts_lex_state_131"
  "ts_lex_case 132 = ts_lex_state_132"
  "ts_lex_case 133 = ts_lex_state_133"
  "ts_lex_case 134 = ts_lex_state_134"
  "ts_lex_case 135 = ts_lex_state_135"
  "ts_lex_case 136 = ts_lex_state_136"
  "ts_lex_case 137 = ts_lex_state_137"
  "ts_lex_case 138 = ts_lex_state_138"
  "ts_lex_case 139 = ts_lex_state_139"
  "ts_lex_case 140 = ts_lex_state_140"
  "ts_lex_case 141 = ts_lex_state_141"
  "ts_lex_case 142 = ts_lex_state_142"
  "ts_lex_case 143 = ts_lex_state_143"
  "ts_lex_case 144 = ts_lex_state_144"
  "ts_lex_case 145 = ts_lex_state_145"
  "ts_lex_case 146 = ts_lex_state_146"
  "ts_lex_case 147 = ts_lex_state_147"
  "ts_lex_case 148 = ts_lex_state_148"
  "ts_lex_case 149 = ts_lex_state_149"
  "ts_lex_case 150 = ts_lex_state_150"
  "ts_lex_case 151 = ts_lex_state_151"
  "ts_lex_case 152 = ts_lex_state_152"
  "ts_lex_case 153 = ts_lex_state_153"
  "ts_lex_case 154 = ts_lex_state_154"
  "ts_lex_case 155 = ts_lex_state_155"
  "ts_lex_case 156 = ts_lex_state_156"
  "ts_lex_case 157 = ts_lex_state_157"
  "ts_lex_case 158 = ts_lex_state_158"
  "ts_lex_case 159 = ts_lex_state_159"
  by (simp_all add: ts_lex_case_def)

lemma ts_lex_modes_simps [parse_rows]:
  "ts_lex_modes 0 = 0"
  "ts_lex_modes 1 = 46"
  "ts_lex_modes (Suc 0) = 46"
  "ts_lex_modes 2 = 2"
  "ts_lex_modes 3 = 2"
  "ts_lex_modes 4 = 2"
  "ts_lex_modes 5 = 2"
  "ts_lex_modes 6 = 2"
  "ts_lex_modes 7 = 2"
  "ts_lex_modes 8 = 2"
  "ts_lex_modes 9 = 2"
  "ts_lex_modes 10 = 2"
  "ts_lex_modes 11 = 2"
  "ts_lex_modes 12 = 2"
  "ts_lex_modes 13 = 2"
  "ts_lex_modes 14 = 2"
  "ts_lex_modes 15 = 2"
  "ts_lex_modes 16 = 2"
  "ts_lex_modes 17 = 46"
  "ts_lex_modes 18 = 2"
  "ts_lex_modes 19 = 2"
  "ts_lex_modes 20 = 2"
  "ts_lex_modes 21 = 46"
  "ts_lex_modes 22 = 46"
  "ts_lex_modes 23 = 46"
  "ts_lex_modes 24 = 46"
  "ts_lex_modes 25 = 46"
  "ts_lex_modes 26 = 46"
  "ts_lex_modes 27 = 46"
  "ts_lex_modes 28 = 46"
  "ts_lex_modes 29 = 46"
  "ts_lex_modes 30 = 46"
  "ts_lex_modes 31 = 46"
  "ts_lex_modes 32 = 46"
  "ts_lex_modes 33 = 46"
  "ts_lex_modes 34 = 46"
  "ts_lex_modes 35 = 46"
  "ts_lex_modes 36 = 46"
  "ts_lex_modes 37 = 46"
  "ts_lex_modes 38 = 46"
  "ts_lex_modes 39 = 46"
  "ts_lex_modes 40 = 46"
  "ts_lex_modes 41 = 46"
  "ts_lex_modes 42 = 46"
  "ts_lex_modes 43 = 46"
  "ts_lex_modes 44 = 46"
  "ts_lex_modes 45 = 46"
  "ts_lex_modes 46 = 46"
  "ts_lex_modes 47 = 1"
  "ts_lex_modes 48 = 46"
  "ts_lex_modes 49 = 46"
  "ts_lex_modes 50 = 46"
  "ts_lex_modes 51 = 46"
  "ts_lex_modes 52 = 46"
  "ts_lex_modes 53 = 46"
  "ts_lex_modes 54 = 46"
  "ts_lex_modes 55 = 1"
  "ts_lex_modes 56 = 1"
  "ts_lex_modes 57 = 46"
  "ts_lex_modes 58 = 46"
  "ts_lex_modes 59 = 1"
  "ts_lex_modes 60 = 1"
  "ts_lex_modes 61 = 1"
  "ts_lex_modes 62 = 1"
  "ts_lex_modes 63 = 46"
  "ts_lex_modes 64 = 0"
  "ts_lex_modes 65 = 1"
  "ts_lex_modes 66 = 1"
  "ts_lex_modes 67 = 0"
  "ts_lex_modes 68 = 1"
  "ts_lex_modes 69 = 1"
  "ts_lex_modes 70 = 0"
  "ts_lex_modes 71 = 0"
  "ts_lex_modes 72 = 1"
  "ts_lex_modes 73 = 0"
  "ts_lex_modes 74 = 1"
  "ts_lex_modes 75 = 1"
  "ts_lex_modes 76 = 1"
  "ts_lex_modes 77 = 1"
  "ts_lex_modes 78 = 1"
  "ts_lex_modes 79 = 1"
  "ts_lex_modes 80 = 0"
  "ts_lex_modes 81 = 1"
  "ts_lex_modes 82 = 1"
  "ts_lex_modes 83 = 1"
  "ts_lex_modes 84 = 1"
  "ts_lex_modes 85 = 1"
  "ts_lex_modes 86 = 1"
  "ts_lex_modes 87 = 1"
  "ts_lex_modes 88 = 1"
  "ts_lex_modes 89 = 1"
  "ts_lex_modes 90 = 1"
  "ts_lex_modes 91 = 1"
  "ts_lex_modes 92 = 1"
  "ts_lex_modes 93 = 1"
  "ts_lex_modes 94 = 1"
  "ts_lex_modes 95 = 0"
  "ts_lex_modes 96 = 0"
  "ts_lex_modes 97 = 1"
  "ts_lex_modes 98 = 0"
  "ts_lex_modes 99 = 0"
  "ts_lex_modes 100 = 0"
  "ts_lex_modes 101 = 0"
  "ts_lex_modes 102 = 0"
  "ts_lex_modes 103 = 1"
  "ts_lex_modes 104 = 1"
  "ts_lex_modes 105 = 0"
  "ts_lex_modes 106 = 0"
  "ts_lex_modes 107 = 0"
  "ts_lex_modes 108 = 0"
  "ts_lex_modes 109 = 0"
  "ts_lex_modes 110 = 0"
  "ts_lex_modes 111 = 0"
  "ts_lex_modes 112 = 0"
  "ts_lex_modes 113 = 0"
  "ts_lex_modes 114 = 0"
  "ts_lex_modes 115 = 0"
  "ts_lex_modes 116 = 0"
  "ts_lex_modes 117 = 0"
  "ts_lex_modes 118 = 0"
  "ts_lex_modes 119 = 1"
  "ts_lex_modes 120 = 0"
  "ts_lex_modes 121 = 0"
  "ts_lex_modes 122 = 0"
  "ts_lex_modes 123 = 1"
  "ts_lex_modes 124 = 0"
  "ts_lex_modes 125 = 0"
  "ts_lex_modes 126 = 0"
  "ts_lex_modes 127 = 1"
  "ts_lex_modes 128 = 0"
  "ts_lex_modes 129 = 0"
  "ts_lex_modes 130 = 0"
  "ts_lex_modes 131 = 0"
  "ts_lex_modes 132 = 71"
  "ts_lex_modes 133 = 0"
  "ts_lex_modes 134 = 0"
  "ts_lex_modes 135 = 67"
  "ts_lex_modes 136 = 0"
  "ts_lex_modes 137 = 4"
  "ts_lex_modes 138 = 0"
  "ts_lex_modes 139 = 0"
  "ts_lex_modes 140 = 0"
  "ts_lex_modes 141 = 6"
  "ts_lex_modes 142 = 0"
  "ts_lex_modes 143 = 146"
  "ts_lex_modes 144 = 0"
  "ts_lex_modes 145 = 7"
  "ts_lex_modes 146 = 0"
  "ts_lex_modes 147 = 4"
  "ts_lex_modes 148 = 6"
  "ts_lex_modes 149 = 67"
  "ts_lex_modes 150 = 71"
  "ts_lex_modes 151 = 65535"
  "ts_lex_modes 152 = 65535"
  by (simp_all add: ts_lex_modes_def)

lemma ts_small_parse_table_simps [parse_rows]:
  "ts_small_parse_table 2 = ts_small_parse_table_2"
  "ts_small_parse_table 3 = ts_small_parse_table_3"
  "ts_small_parse_table 4 = ts_small_parse_table_4"
  "ts_small_parse_table 5 = ts_small_parse_table_5"
  "ts_small_parse_table 6 = ts_small_parse_table_6"
  "ts_small_parse_table 7 = ts_small_parse_table_7"
  "ts_small_parse_table 8 = ts_small_parse_table_8"
  "ts_small_parse_table 9 = ts_small_parse_table_9"
  "ts_small_parse_table 10 = ts_small_parse_table_10"
  "ts_small_parse_table 11 = ts_small_parse_table_11"
  "ts_small_parse_table 12 = ts_small_parse_table_12"
  "ts_small_parse_table 13 = ts_small_parse_table_13"
  "ts_small_parse_table 14 = ts_small_parse_table_14"
  "ts_small_parse_table 15 = ts_small_parse_table_15"
  "ts_small_parse_table 16 = ts_small_parse_table_16"
  "ts_small_parse_table 17 = ts_small_parse_table_17"
  "ts_small_parse_table 18 = ts_small_parse_table_18"
  "ts_small_parse_table 19 = ts_small_parse_table_19"
  "ts_small_parse_table 20 = ts_small_parse_table_20"
  "ts_small_parse_table 21 = ts_small_parse_table_21"
  "ts_small_parse_table 22 = ts_small_parse_table_22"
  "ts_small_parse_table 23 = ts_small_parse_table_23"
  "ts_small_parse_table 24 = ts_small_parse_table_24"
  "ts_small_parse_table 25 = ts_small_parse_table_25"
  "ts_small_parse_table 26 = ts_small_parse_table_26"
  "ts_small_parse_table 27 = ts_small_parse_table_27"
  "ts_small_parse_table 28 = ts_small_parse_table_28"
  "ts_small_parse_table 29 = ts_small_parse_table_29"
  "ts_small_parse_table 30 = ts_small_parse_table_30"
  "ts_small_parse_table 31 = ts_small_parse_table_31"
  "ts_small_parse_table 32 = ts_small_parse_table_32"
  "ts_small_parse_table 33 = ts_small_parse_table_33"
  "ts_small_parse_table 34 = ts_small_parse_table_34"
  "ts_small_parse_table 35 = ts_small_parse_table_35"
  "ts_small_parse_table 36 = ts_small_parse_table_36"
  "ts_small_parse_table 37 = ts_small_parse_table_37"
  "ts_small_parse_table 38 = ts_small_parse_table_38"
  "ts_small_parse_table 39 = ts_small_parse_table_39"
  "ts_small_parse_table 40 = ts_small_parse_table_40"
  "ts_small_parse_table 41 = ts_small_parse_table_41"
  "ts_small_parse_table 42 = ts_small_parse_table_42"
  "ts_small_parse_table 43 = ts_small_parse_table_43"
  "ts_small_parse_table 44 = ts_small_parse_table_44"
  "ts_small_parse_table 45 = ts_small_parse_table_45"
  "ts_small_parse_table 46 = ts_small_parse_table_46"
  "ts_small_parse_table 47 = ts_small_parse_table_47"
  "ts_small_parse_table 48 = ts_small_parse_table_48"
  "ts_small_parse_table 49 = ts_small_parse_table_49"
  "ts_small_parse_table 50 = ts_small_parse_table_50"
  "ts_small_parse_table 51 = ts_small_parse_table_51"
  "ts_small_parse_table 52 = ts_small_parse_table_52"
  "ts_small_parse_table 53 = ts_small_parse_table_53"
  "ts_small_parse_table 54 = ts_small_parse_table_54"
  "ts_small_parse_table 55 = ts_small_parse_table_55"
  "ts_small_parse_table 56 = ts_small_parse_table_56"
  "ts_small_parse_table 57 = ts_small_parse_table_57"
  "ts_small_parse_table 58 = ts_small_parse_table_58"
  "ts_small_parse_table 59 = ts_small_parse_table_59"
  "ts_small_parse_table 60 = ts_small_parse_table_60"
  "ts_small_parse_table 61 = ts_small_parse_table_61"
  "ts_small_parse_table 62 = ts_small_parse_table_62"
  "ts_small_parse_table 63 = ts_small_parse_table_63"
  "ts_small_parse_table 64 = ts_small_parse_table_64"
  "ts_small_parse_table 65 = ts_small_parse_table_65"
  "ts_small_parse_table 66 = ts_small_parse_table_66"
  "ts_small_parse_table 67 = ts_small_parse_table_67"
  "ts_small_parse_table 68 = ts_small_parse_table_68"
  "ts_small_parse_table 69 = ts_small_parse_table_69"
  "ts_small_parse_table 70 = ts_small_parse_table_70"
  "ts_small_parse_table 71 = ts_small_parse_table_71"
  "ts_small_parse_table 72 = ts_small_parse_table_72"
  "ts_small_parse_table 73 = ts_small_parse_table_73"
  "ts_small_parse_table 74 = ts_small_parse_table_74"
  "ts_small_parse_table 75 = ts_small_parse_table_75"
  "ts_small_parse_table 76 = ts_small_parse_table_76"
  "ts_small_parse_table 77 = ts_small_parse_table_77"
  "ts_small_parse_table 78 = ts_small_parse_table_78"
  "ts_small_parse_table 79 = ts_small_parse_table_79"
  "ts_small_parse_table 80 = ts_small_parse_table_80"
  "ts_small_parse_table 81 = ts_small_parse_table_81"
  "ts_small_parse_table 82 = ts_small_parse_table_82"
  "ts_small_parse_table 83 = ts_small_parse_table_83"
  "ts_small_parse_table 84 = ts_small_parse_table_84"
  "ts_small_parse_table 85 = ts_small_parse_table_85"
  "ts_small_parse_table 86 = ts_small_parse_table_86"
  "ts_small_parse_table 87 = ts_small_parse_table_87"
  "ts_small_parse_table 88 = ts_small_parse_table_88"
  "ts_small_parse_table 89 = ts_small_parse_table_89"
  "ts_small_parse_table 90 = ts_small_parse_table_90"
  "ts_small_parse_table 91 = ts_small_parse_table_91"
  "ts_small_parse_table 92 = ts_small_parse_table_92"
  "ts_small_parse_table 93 = ts_small_parse_table_93"
  "ts_small_parse_table 94 = ts_small_parse_table_94"
  "ts_small_parse_table 95 = ts_small_parse_table_95"
  "ts_small_parse_table 96 = ts_small_parse_table_96"
  "ts_small_parse_table 97 = ts_small_parse_table_97"
  "ts_small_parse_table 98 = ts_small_parse_table_98"
  "ts_small_parse_table 99 = ts_small_parse_table_99"
  "ts_small_parse_table 100 = ts_small_parse_table_100"
  "ts_small_parse_table 101 = ts_small_parse_table_101"
  "ts_small_parse_table 102 = ts_small_parse_table_102"
  "ts_small_parse_table 103 = ts_small_parse_table_103"
  "ts_small_parse_table 104 = ts_small_parse_table_104"
  "ts_small_parse_table 105 = ts_small_parse_table_105"
  "ts_small_parse_table 106 = ts_small_parse_table_106"
  "ts_small_parse_table 107 = ts_small_parse_table_107"
  "ts_small_parse_table 108 = ts_small_parse_table_108"
  "ts_small_parse_table 109 = ts_small_parse_table_109"
  "ts_small_parse_table 110 = ts_small_parse_table_110"
  "ts_small_parse_table 111 = ts_small_parse_table_111"
  "ts_small_parse_table 112 = ts_small_parse_table_112"
  "ts_small_parse_table 113 = ts_small_parse_table_113"
  "ts_small_parse_table 114 = ts_small_parse_table_114"
  "ts_small_parse_table 115 = ts_small_parse_table_115"
  "ts_small_parse_table 116 = ts_small_parse_table_116"
  "ts_small_parse_table 117 = ts_small_parse_table_117"
  "ts_small_parse_table 118 = ts_small_parse_table_118"
  "ts_small_parse_table 119 = ts_small_parse_table_119"
  "ts_small_parse_table 120 = ts_small_parse_table_120"
  "ts_small_parse_table 121 = ts_small_parse_table_121"
  "ts_small_parse_table 122 = ts_small_parse_table_122"
  "ts_small_parse_table 123 = ts_small_parse_table_123"
  "ts_small_parse_table 124 = ts_small_parse_table_124"
  "ts_small_parse_table 125 = ts_small_parse_table_125"
  "ts_small_parse_table 126 = ts_small_parse_table_126"
  "ts_small_parse_table 127 = ts_small_parse_table_127"
  "ts_small_parse_table 128 = ts_small_parse_table_128"
  "ts_small_parse_table 129 = ts_small_parse_table_129"
  "ts_small_parse_table 130 = ts_small_parse_table_130"
  "ts_small_parse_table 131 = ts_small_parse_table_131"
  "ts_small_parse_table 132 = ts_small_parse_table_132"
  "ts_small_parse_table 133 = ts_small_parse_table_133"
  "ts_small_parse_table 134 = ts_small_parse_table_134"
  "ts_small_parse_table 135 = ts_small_parse_table_135"
  "ts_small_parse_table 136 = ts_small_parse_table_136"
  "ts_small_parse_table 137 = ts_small_parse_table_137"
  "ts_small_parse_table 138 = ts_small_parse_table_138"
  "ts_small_parse_table 139 = ts_small_parse_table_139"
  "ts_small_parse_table 140 = ts_small_parse_table_140"
  "ts_small_parse_table 141 = ts_small_parse_table_141"
  "ts_small_parse_table 142 = ts_small_parse_table_142"
  "ts_small_parse_table 143 = ts_small_parse_table_143"
  "ts_small_parse_table 144 = ts_small_parse_table_144"
  "ts_small_parse_table 145 = ts_small_parse_table_145"
  "ts_small_parse_table 146 = ts_small_parse_table_146"
  "ts_small_parse_table 147 = ts_small_parse_table_147"
  "ts_small_parse_table 148 = ts_small_parse_table_148"
  "ts_small_parse_table 149 = ts_small_parse_table_149"
  "ts_small_parse_table 150 = ts_small_parse_table_150"
  "ts_small_parse_table 151 = ts_small_parse_table_151"
  "ts_small_parse_table 152 = ts_small_parse_table_152"
  by (simp_all add: ts_small_parse_table_def)

lemma ts_parse_actions_simps [parse_rows]:
  "ts_parse_actions 0 = []"
  "ts_parse_actions 1 = [RECOVER]"
  "ts_parse_actions (Suc 0) = [RECOVER]"
  "ts_parse_actions 3 = [SHIFT 143]"
  "ts_parse_actions 5 = [SHIFT 145]"
  "ts_parse_actions 7 = [REDUCE sym_runbook 0 0]"
  "ts_parse_actions 9 = [SHIFT 101]"
  "ts_parse_actions 11 = [SHIFT 106]"
  "ts_parse_actions 13 = [SHIFT 109]"
  "ts_parse_actions 15 = [SHIFT 99]"
  "ts_parse_actions 17 = [SHIFT 102]"
  "ts_parse_actions 19 = [SHIFT 105]"
  "ts_parse_actions 21 = [SHIFT 100]"
  "ts_parse_actions 23 = [SHIFT 59]"
  "ts_parse_actions 25 = [SHIFT 135]"
  "ts_parse_actions 27 = [SHIFT 132]"
  "ts_parse_actions 29 = [SHIFT 137]"
  "ts_parse_actions 31 = [SHIFT 34]"
  "ts_parse_actions 33 = [SHIFT 34]"
  "ts_parse_actions 35 = [SHIFT 33]"
  "ts_parse_actions 37 = [SHIFT 32]"
  "ts_parse_actions 39 = [SHIFT 3]"
  "ts_parse_actions 41 = [SHIFT 128]"
  "ts_parse_actions 43 = [SHIFT 91]"
  "ts_parse_actions 45 = [SHIFT 21]"
  "ts_parse_actions 47 = [SHIFT 136]"
  "ts_parse_actions 49 = [SHIFT 31]"
  "ts_parse_actions 51 = [SHIFT 39]"
  "ts_parse_actions 53 = [SHIFT 44]"
  "ts_parse_actions 55 = [SHIFT 78]"
  "ts_parse_actions 57 = [SHIFT 76]"
  "ts_parse_actions 59 = [SHIFT 75]"
  "ts_parse_actions 61 = [SHIFT 35]"
  "ts_parse_actions 63 = [SHIFT 62]"
  "ts_parse_actions 65 = [SHIFT 149]"
  "ts_parse_actions 67 = [SHIFT 150]"
  "ts_parse_actions 69 = [SHIFT 147]"
  "ts_parse_actions 71 = [SHIFT 89]"
  "ts_parse_actions 73 = [SHIFT 89]"
  "ts_parse_actions 75 = [SHIFT 94]"
  "ts_parse_actions 77 = [SHIFT 93]"
  "ts_parse_actions 79 = [SHIFT 2]"
  "ts_parse_actions 81 = [SHIFT 47]"
  "ts_parse_actions 83 = [REDUCE sym_string 3 0]"
  "ts_parse_actions 85 = [REDUCE sym_string 3 0]"
  "ts_parse_actions 87 = [REDUCE sym_reference 1 0]"
  "ts_parse_actions 89 = [SHIFT 20]"
  "ts_parse_actions 91 = [SHIFT 127]"
  "ts_parse_actions 93 = [SHIFT 9]"
  "ts_parse_actions 95 = [REDUCE sym_reference 1 0]"
  "ts_parse_actions 97 = [REDUCE aux_sym_reference_repeat1 2 0]"
  "ts_parse_actions 99 = [REDUCE aux_sym_reference_repeat1 2 0, SHIFT_REPEAT 127]"
  "ts_parse_actions 102 = [REDUCE aux_sym_reference_repeat1 2 0]"
  "ts_parse_actions 104 = [REDUCE sym_reference 2 0]"
  "ts_parse_actions 106 = [REDUCE sym_reference 2 0]"
  "ts_parse_actions 108 = [REDUCE sym_index_access 4 0]"
  "ts_parse_actions 110 = [REDUCE sym_index_access 4 0]"
  "ts_parse_actions 112 = [REDUCE sym_runbook 1 0]"
  "ts_parse_actions 114 = [REDUCE aux_sym_runbook_repeat1 2 0]"
  "ts_parse_actions 116 = [REDUCE aux_sym_runbook_repeat1 2 0, SHIFT_REPEAT 101]"
  "ts_parse_actions 119 = [REDUCE aux_sym_runbook_repeat1 2 0, SHIFT_REPEAT 106]"
  "ts_parse_actions 122 = [REDUCE aux_sym_runbook_repeat1 2 0, SHIFT_REPEAT 109]"
  "ts_parse_actions 125 = [REDUCE aux_sym_runbook_repeat1 2 0, SHIFT_REPEAT 99]"
  "ts_parse_actions 128 = [REDUCE aux_sym_runbook_repeat1 2 0, SHIFT_REPEAT 102]"
  "ts_parse_actions 131 = [REDUCE aux_sym_runbook_repeat1 2 0, SHIFT_REPEAT 105]"
  "ts_parse_actions 134 = [REDUCE aux_sym_runbook_repeat1 2 0, SHIFT_REPEAT 100]"
  "ts_parse_actions 137 = [REDUCE sym_array 3 0]"
  "ts_parse_actions 139 = [REDUCE sym_array 3 0]"
  "ts_parse_actions 141 = [REDUCE sym_array 2 0]"
  "ts_parse_actions 143 = [REDUCE sym_array 2 0]"
  "ts_parse_actions 145 = [REDUCE sym__expression 1 0]"
  "ts_parse_actions 147 = [REDUCE sym__expression 1 0]"
  "ts_parse_actions 149 = [REDUCE sym_boolean 1 0]"
  "ts_parse_actions 151 = [REDUCE sym_boolean 1 0]"
  "ts_parse_actions 153 = [REDUCE sym_number 1 0]"
  "ts_parse_actions 155 = [REDUCE sym_number 1 0]"
  "ts_parse_actions 157 = [REDUCE sym_function_call 3 7]"
  "ts_parse_actions 159 = [REDUCE sym_function_call 3 7]"
  "ts_parse_actions 161 = [REDUCE sym_object 3 0]"
  "ts_parse_actions 163 = [REDUCE sym_object 3 0]"
  "ts_parse_actions 165 = [REDUCE sym_object 2 0]"
  "ts_parse_actions 167 = [REDUCE sym_object 2 0]"
  "ts_parse_actions 169 = [REDUCE sym_function_call 5 9]"
  "ts_parse_actions 171 = [REDUCE sym_function_call 5 9]"
  "ts_parse_actions 173 = [REDUCE sym_array 5 0]"
  "ts_parse_actions 175 = [REDUCE sym_array 5 0]"
  "ts_parse_actions 177 = [REDUCE sym_object 5 0]"
  "ts_parse_actions 179 = [REDUCE sym_object 5 0]"
  "ts_parse_actions 181 = [REDUCE sym_binary_expression 3 0]"
  "ts_parse_actions 183 = [REDUCE sym_binary_expression 3 0]"
  "ts_parse_actions 185 = [REDUCE sym_function_call 4 8]"
  "ts_parse_actions 187 = [REDUCE sym_function_call 4 8]"
  "ts_parse_actions 189 = [SHIFT 13]"
  "ts_parse_actions 191 = [SHIFT 13]"
  "ts_parse_actions 193 = [REDUCE sym_array 4 0]"
  "ts_parse_actions 195 = [REDUCE sym_array 4 0]"
  "ts_parse_actions 197 = [REDUCE sym_object 4 0]"
  "ts_parse_actions 199 = [REDUCE sym_object 4 0]"
  "ts_parse_actions 201 = [REDUCE sym_input_declaration 4 5]"
  "ts_parse_actions 203 = [SHIFT 14]"
  "ts_parse_actions 205 = [SHIFT 12]"
  "ts_parse_actions 207 = [SHIFT 119]"
  "ts_parse_actions 209 = [SHIFT 8]"
  "ts_parse_actions 211 = [REDUCE aux_sym_runbook_repeat1 1 0]"
  "ts_parse_actions 213 = [REDUCE sym_addon_block 3 2]"
  "ts_parse_actions 215 = [REDUCE sym_import_statement 2 1]"
  "ts_parse_actions 217 = [REDUCE sym__statement 1 0]"
  "ts_parse_actions 219 = [REDUCE sym_output_block 3 3]"
  "ts_parse_actions 221 = [REDUCE sym_variable_declaration 3 3]"
  "ts_parse_actions 223 = [REDUCE sym_block 2 0]"
  "ts_parse_actions 225 = [REDUCE sym_signer_block 4 4]"
  "ts_parse_actions 227 = [REDUCE sym_action_block 4 4]"
  "ts_parse_actions 229 = [SHIFT 37]"
  "ts_parse_actions 231 = [SHIFT 144]"
  "ts_parse_actions 233 = [SHIFT 140]"
  "ts_parse_actions 235 = [REDUCE aux_sym_reference_repeat1 2 0, SHIFT_REPEAT 119]"
  "ts_parse_actions 238 = [SHIFT 92]"
  "ts_parse_actions 240 = [SHIFT 134]"
  "ts_parse_actions 242 = [REDUCE sym_block 3 0]"
  "ts_parse_actions 244 = [REDUCE aux_sym_array_repeat1 2 0]"
  "ts_parse_actions 246 = [SHIFT 40]"
  "ts_parse_actions 248 = [SHIFT 86]"
  "ts_parse_actions 250 = [SHIFT 15]"
  "ts_parse_actions 252 = [SHIFT 85]"
  "ts_parse_actions 254 = [SHIFT 81]"
  "ts_parse_actions 256 = [SHIFT 7]"
  "ts_parse_actions 258 = [SHIFT 88]"
  "ts_parse_actions 260 = [SHIFT 42]"
  "ts_parse_actions 262 = [SHIFT 5]"
  "ts_parse_actions 264 = [SHIFT 30]"
  "ts_parse_actions 266 = [SHIFT 45]"
  "ts_parse_actions 268 = [REDUCE sym_attribute 3 6]"
  "ts_parse_actions 270 = [SHIFT 18]"
  "ts_parse_actions 272 = [SHIFT 18]"
  "ts_parse_actions 274 = [SHIFT 10]"
  "ts_parse_actions 276 = [REDUCE sym_object_field 3 6]"
  "ts_parse_actions 278 = [SHIFT 72]"
  "ts_parse_actions 280 = [SHIFT 26]"
  "ts_parse_actions 282 = [SHIFT 54]"
  "ts_parse_actions 284 = [SHIFT 133]"
  "ts_parse_actions 286 = [SHIFT 63]"
  "ts_parse_actions 288 = [REDUCE aux_sym_block_repeat1 2 0]"
  "ts_parse_actions 290 = [REDUCE aux_sym_block_repeat1 2 0, SHIFT_REPEAT 133]"
  "ts_parse_actions 293 = [REDUCE aux_sym_array_repeat1 2 0, SHIFT_REPEAT 15]"
  "ts_parse_actions 296 = [SHIFT 4]"
  "ts_parse_actions 298 = [SHIFT 66]"
  "ts_parse_actions 300 = [SHIFT 6]"
  "ts_parse_actions 302 = [SHIFT 38]"
  "ts_parse_actions 304 = [SHIFT 36]"
  "ts_parse_actions 306 = [SHIFT 74]"
  "ts_parse_actions 308 = [REDUCE aux_sym_object_repeat1 2 0]"
  "ts_parse_actions 310 = [REDUCE aux_sym_object_repeat1 2 0, SHIFT_REPEAT 79]"
  "ts_parse_actions 313 = [SHIFT 90]"
  "ts_parse_actions 315 = [SHIFT 69]"
  "ts_parse_actions 317 = [SHIFT 82]"
  "ts_parse_actions 319 = [SHIFT 65]"
  "ts_parse_actions 321 = [SHIFT 60]"
  "ts_parse_actions 323 = [SHIFT 97]"
  "ts_parse_actions 325 = [REDUCE aux_sym_block_repeat1 1 0]"
  "ts_parse_actions 327 = [SHIFT 23]"
  "ts_parse_actions 329 = [SHIFT 17]"
  "ts_parse_actions 331 = [SHIFT 87]"
  "ts_parse_actions 333 = [SHIFT 129]"
  "ts_parse_actions 335 = [SHIFT 143]"
  "ts_parse_actions 337 = [SHIFT 145]"
  "ts_parse_actions 339 = [SHIFT 19]"
  "ts_parse_actions 341 = [SHIFT 148]"
  "ts_parse_actions 343 = [SHIFT 138]"
  "ts_parse_actions 345 = [SHIFT 151]"
  "ts_parse_actions 347 = [SHIFT 11]"
  "ts_parse_actions 349 = [ACCEPT_INPUT]"
  "ts_parse_actions 351 = [SHIFT 152]"
  "ts_parse_actions 353 = [SHIFT 139]"
  "ts_parse_actions 355 = [SHIFT 16]"
  "ts_parse_actions 357 = [SHIFT 131]"
  "ts_parse_actions 359 = [SHIFT 141]"
  "ts_parse_actions 361 = [SHIFT 130]"
  "ts_parse_actions 363 = [REDUCE sym_comment 3 0]"
  "ts_parse_actions 365 = [REDUCE sym_comment 2 0]"
  by (simp_all add: ts_parse_actions_def)

lemma ts_lex_loop_eval:
  "ts_lex_loop lexer state result =
    ts_lex_do (ts_lex_case state (lexer_eof lexer) (lexer_lookahead lexer)) lexer result"
  unfolding ts_lex_do_def by (rule ts_lex_loop.simps)

lemma ts_lex_do_eval:
  "ts_lex_do (accept, ADVANCE s) lexer result =
     ts_lex_loop (lexer_advance (accept_token accept lexer) False) s (accept_result accept result)"
  "ts_lex_do (accept, SKIP s) lexer result =
     ts_lex_loop (lexer_advance (accept_token accept lexer) True) s (accept_result accept result)"
  "ts_lex_do (accept, END_STATE) lexer result = (accept_token accept lexer, accept_result accept result)"
  "ts_lex_do (accept, RETURN_FALSE) lexer result = (accept_token accept lexer, False)"
  by (simp_all add: ts_lex_do_def)

lemma ts_parser_run_eval: "ts_parser_run p = ts_parser_continue (ts_parser_step p)"
  unfolding ts_parser_continue_def by (rule ts_parser_run.simps)

lemma ts_parser_continue_eval:
  "ts_parser_continue (Next p) = ts_parser_run p"
  "ts_parser_continue (Done r) = Some r"
  by (simp_all add: ts_parser_continue_def)

lemmas lex_eval =
  lex_token_def ts_lex_def ts_lex_loop_eval ts_lex_do_eval lexer_start_def lex_states

lemmas parser_eval =
  ts_parser_parse_def ts_parser_run_eval ts_parser_continue_eval ts_language_actions_def
  ts_language_lookup_def ts_parse_table_def remove_trailing_extras_def ts_language_next_state_def
  ts_parser_accept_def parse_rows

lemmas parse_eval = parser_eval lex_eval

section \<open>The claims\<close>

subsection \<open>Every state of the tables\<close>

lemma set_states_below: "set (states_below k) = {..<k}"
proof (induction k rule: states_below.induct)
  case (1 k)
  show ?case
  proof (cases "k = 0")
    case True
    then show ?thesis by (simp add: states_below.simps)
  next
    case False
    then have "set (states_below k) = insert (k - 1) {..<k - 1}"
      using 1 by (simp add: states_below.simps [of k])
    also have "\<dots> = {..<k}" using False by auto
    finally show ?thesis .
  qed
qed

lemma every_state:
  assumes "list_all P (states_below STATE_COUNT)"
    and "state < STATE_COUNT"
  shows "P state"
  using assms by (simp add: list_all_iff set_states_below)

lemma no_actions_beyond: "STATE_COUNT \<le> state \<Longrightarrow> ts_language_actions state symbol = []"
  by (simp add: ts_language_actions_def ts_language_lookup_def ts_small_parse_table_def parse_rows)

lemmas table_eval =
  ts_language_actions_def ts_language_lookup_def ts_parse_table_def ts_language_next_state_def
  states_below.simps parse_rows

lemmas node_eval =
  ts_node_children_def ts_node_named_children_def ts_node_children_by_field_id_def
  ts_language_field_id_for_name_def ts_node_children_by_field_name_def ts_node_text_def
  field_text_def ts_symbol_visible_def ts_symbol_named_def ts_field_map_def ts_field_names_def

subsection \<open>The states where an expression starts\<close>

lemma expression_start_states:
  "list_all (\<lambda>state. expression_start state \<longrightarrow>
      ts_language_actions state anon_sym_DASH = [] \<and>
      ts_language_actions state anon_sym_LPAREN = [] \<and>
      ts_lex_modes state = 2 \<and>
      (ts_language_actions state sym_identifier = [SHIFT 21] \<or>
       ts_language_actions state sym_identifier = [SHIFT 47]))
    (states_below STATE_COUNT)"
  by (simp add: expression_start_def table_eval)

lemma expression_start_actions:
  assumes "expression_start state"
  shows "ts_language_actions state anon_sym_DASH = [] \<and>
    ts_language_actions state anon_sym_LPAREN = [] \<and>
    ts_lex_modes state = 2 \<and>
    (ts_language_actions state sym_identifier = [SHIFT 21] \<or>
     ts_language_actions state sym_identifier = [SHIFT 47])"
proof (cases "state < STATE_COUNT")
  case True
  with expression_start_states
  have "expression_start state \<longrightarrow>
      ts_language_actions state anon_sym_DASH = [] \<and>
      ts_language_actions state anon_sym_LPAREN = [] \<and>
      ts_lex_modes state = 2 \<and>
      (ts_language_actions state sym_identifier = [SHIFT 21] \<or>
       ts_language_actions state sym_identifier = [SHIFT 47])"
    by (rule every_state)
  with assms show ?thesis by simp
next
  case False
  with assms show ?thesis by (simp add: expression_start_def no_actions_beyond)
qed

subsection \<open>Skipping whitespace\<close>



subsection \<open>Lexing identifiers\<close>

lemma ts_lex_loop_advance:
  assumes "ts_lex_case state False c = (accept, ADVANCE s)"
  shows "ts_lex_loop (Lexer (c # cs) pos tok_start tok_end symbol) state result =
    ts_lex_loop (lexer_advance (accept_token accept (Lexer (c # cs) pos tok_start tok_end symbol)) False)
      s (accept_result accept result)"
  by (subst ts_lex_loop_eval) (simp add: assms ts_lex_do_eval)

lemma ts_lex_loop_end:
  assumes "ts_lex_case state False c = (accept, END_STATE)"
  shows "ts_lex_loop (Lexer (c # cs) pos tok_start tok_end symbol) state result =
    (accept_token accept (Lexer (c # cs) pos tok_start tok_end symbol), accept_result accept result)"
  by (subst ts_lex_loop_eval) (simp add: assms ts_lex_do_eval)

lemma ts_lex_loop_end_of_input:
  assumes "ts_lex_case state True (CHR 0x00) = (accept, END_STATE)"
  shows "ts_lex_loop (Lexer [] pos tok_start tok_end symbol) state result =
    (accept_token accept (Lexer [] pos tok_start tok_end symbol), accept_result accept result)"
  by (subst ts_lex_loop_eval) (simp add: assms ts_lex_do_eval)

lemma identifier_state:
  "ts_lex_case 140 eof c =
    (Some sym_identifier, if identifier_char c then ADVANCE 140 else END_STATE)"
  by (simp add: ts_lex_case_simps ts_lex_state_140_def identifier_char_def)

lemma identifier_loop:
  assumes "stops identifier_char rest"
  shows "list_all identifier_char cs \<Longrightarrow>
    ts_lex_loop (Lexer (cs @ rest) pos tok_start tok_end symbol) 140 result =
    (Lexer rest (pos + length cs) tok_start (pos + length cs) sym_identifier, True)"
proof (induction cs arbitrary: pos tok_end symbol result)
  case Nil
  show ?case
  proof (cases rest)
    case Nil
    have "ts_lex_case 140 True (CHR 0x00) = (Some sym_identifier, END_STATE)"
      by (simp add: identifier_state identifier_char_def)
    then show ?thesis unfolding Nil by (simp add: ts_lex_loop_end_of_input)
  next
    case (Cons c cs)
    with assms have "ts_lex_case 140 False c = (Some sym_identifier, END_STATE)"
      by (simp add: identifier_state)
    then show ?thesis unfolding Cons by (simp add: ts_lex_loop_end)
  qed
next
  case (Cons c cs)
  then have "ts_lex_case 140 False c = (Some sym_identifier, ADVANCE 140)"
    by (simp add: identifier_state)
  then have "ts_lex_loop (Lexer ((c # cs) @ rest) pos tok_start tok_end symbol) 140 result =
      ts_lex_loop (Lexer (cs @ rest) (Suc pos) tok_start pos sym_identifier) 140 True"
    by (simp add: ts_lex_loop_advance)
  with Cons show ?case by simp
qed

lemma identifier_start_not_punctuation:
  assumes "identifier_start c"
  shows "c \<notin> set (''#()*+,-./[]{}0123456789'' @ [CHR 0x22, CHR 0x27, CHR 0x09, CHR 0x0A, CHR 0x0D, CHR '' ''])"
proof
  assume "c \<in> set (''#()*+,-./[]{}0123456789'' @ [CHR 0x22, CHR 0x27, CHR 0x09, CHR 0x0A, CHR 0x0D, CHR '' ''])"
  then have "\<not> identifier_start c"
    by (auto simp add: identifier_start_def)
  with assms show False by simp
qed

lemma identifier_in_state_1:
  assumes "identifier_start c"
  shows "ts_lex_case 1 False c = (None, ADVANCE 140)"
proof -
  have "ts_lex_case 1 False c =
    (None,
     if c \<in> set (''#()*+,-./[]{}0123456789'' @ [CHR 0x22, CHR 0x27, CHR 0x09, CHR 0x0A, CHR 0x0D, CHR '' ''])
     then snd (ts_lex_case 1 False c)
     else if identifier_start c then ADVANCE 140 else END_STATE)"
    by (simp add: ts_lex_case_simps ts_lex_state_1_def identifier_start_def)
  with assms identifier_start_not_punctuation [OF assms] show ?thesis by simp
qed

lemma identifier_in_state_2:
  assumes "identifier_start c" and "c \<noteq> CHR ''f''" and "c \<noteq> CHR ''n''" and "c \<noteq> CHR ''t''"
  shows "ts_lex_case 2 False c = (None, ADVANCE 140)"
proof -
  have "ts_lex_case 2 False c =
    (None,
     if c \<in> set (''#()*+,-./[]{}0123456789'' @ [CHR 0x22, CHR 0x27, CHR 0x09, CHR 0x0A, CHR 0x0D, CHR '' ''])
     then snd (ts_lex_case 2 False c)
     else if c = CHR ''f'' then ADVANCE 97
     else if c = CHR ''n'' then ADVANCE 137
     else if c = CHR ''t'' then ADVANCE 126
     else if CHR ''1'' \<le> c \<and> c \<le> CHR ''9'' then ADVANCE 82
     else if identifier_start c then ADVANCE 140 else END_STATE)"
    by (simp add: ts_lex_case_simps ts_lex_state_2_def identifier_start_def)
  moreover have "\<not> (CHR ''1'' \<le> c \<and> c \<le> CHR ''9'')"
    using assms(1) by (auto simp add: identifier_start_def less_eq_char_def)
  ultimately show ?thesis
    using assms identifier_start_not_punctuation [OF assms(1)] by simp
qed

lemma word_is_identifier:
  assumes "ts_lex_case state False c = (None, ADVANCE 140)"
    and "list_all identifier_char cs" and "stops identifier_char rest"
  shows "lex_token state (c # cs @ rest) pos =
    Some (Leaf sym_identifier [] (c # cs), rest, pos + length (c # cs))"
proof -
  have "ts_lex_loop (Lexer (c # cs @ rest) pos pos pos 0) state False =
      ts_lex_loop (Lexer (cs @ rest) (Suc pos) pos pos 0) 140 False"
    using assms(1) by (simp add: ts_lex_loop_advance)
  also have "\<dots> = (Lexer rest (Suc pos + length cs) pos (Suc pos + length cs) sym_identifier, True)"
    using assms(3,2) by (rule identifier_loop)
  finally show ?thesis
    by (simp add: lex_token_def ts_lex_def lexer_start_def Suc_diff_le)
qed

subsection \<open>Lexing numbers\<close>

lemma number_states:
  "ts_lex_case 82 eof c =
    (Some aux_sym_number_token3,
     if c = CHR ''.'' then ADVANCE 44 else if digit c then ADVANCE 82 else END_STATE)"
  "ts_lex_case 81 eof c =
    (Some aux_sym_number_token3,
     if c = CHR ''.'' then ADVANCE 44 else if c = CHR ''x'' then ADVANCE 45
     else if digit c then ADVANCE 82 else END_STATE)"
  "ts_lex_case 44 eof c = (None, if digit c then ADVANCE 80 else END_STATE)"
  "ts_lex_case 45 eof c = (None, if hex_digit c then ADVANCE 79 else END_STATE)"
  "ts_lex_case 80 eof c =
    (Some aux_sym_number_token2, if digit c then ADVANCE 80 else END_STATE)"
  "ts_lex_case 79 eof c =
    (Some aux_sym_number_token1, if hex_digit c then ADVANCE 79 else END_STATE)"
  by (simp_all add: ts_lex_case_simps ts_lex_state_82_def ts_lex_state_81_def ts_lex_state_44_def
      ts_lex_state_45_def ts_lex_state_80_def ts_lex_state_79_def digit_def hex_digit_def)

lemma not_a_digit:
  "\<not> digit (CHR 0x00)" "\<not> digit (CHR ''.'')" "\<not> digit (CHR ''x'')" "\<not> hex_digit (CHR 0x00)"
  by (simp_all add: digit_def hex_digit_def)

lemma digit_is_no_mark: "digit c \<Longrightarrow> c \<noteq> CHR ''.'' \<and> c \<noteq> CHR ''x''"
  using not_a_digit by auto

text \<open>
  A state that accepts a token sets the token end, the symbol and the result on its own:
  what they were before does not matter.
\<close>

lemma accepting_state_forgets:
  assumes "\<And>eof c. fst (ts_lex_case state eof c) = Some token"
  shows "ts_lex_loop (Lexer cs pos tok_start tok_end symbol) state result =
    ts_lex_loop (Lexer cs pos tok_start pos token) state True"
proof -
  obtain move where
    "ts_lex_case state (lexer_eof (Lexer cs pos tok_start tok_end symbol))
      (lexer_lookahead (Lexer cs pos tok_start tok_end symbol)) = (Some token, move)"
    using assms by (metis prod.collapse)
  moreover have
    "lexer_eof (Lexer cs pos tok_start pos token) = lexer_eof (Lexer cs pos tok_start tok_end symbol)"
    "lexer_lookahead (Lexer cs pos tok_start pos token) =
      lexer_lookahead (Lexer cs pos tok_start tok_end symbol)"
    by (cases cs; simp)+
  ultimately show ?thesis
    by (subst (1 2) ts_lex_loop_eval) (cases move; simp add: ts_lex_do_eval)
qed

lemma digits_run:
  "list_all digit ds \<Longrightarrow>
    ts_lex_loop (Lexer (ds @ cs) pos tok_start tok_end symbol) 82 result =
    ts_lex_loop (Lexer cs (pos + length ds) tok_start (pos + length ds) aux_sym_number_token3) 82 True"
proof (induction ds arbitrary: pos tok_end symbol result)
  case Nil
  show ?case
    using accepting_state_forgets [of 82 aux_sym_number_token3] by (simp add: number_states)
next
  case (Cons d ds)
  then have "ts_lex_case 82 False d = (Some aux_sym_number_token3, ADVANCE 82)"
    using digit_is_no_mark [of d] by (simp add: number_states)
  then have "ts_lex_loop (Lexer ((d # ds) @ cs) pos tok_start tok_end symbol) 82 result =
      ts_lex_loop (Lexer (ds @ cs) (Suc pos) tok_start pos aux_sym_number_token3) 82 True"
    by (simp add: ts_lex_loop_advance)
  with Cons show ?case by simp
qed

lemma fraction_run:
  "list_all digit ds \<Longrightarrow>
    ts_lex_loop (Lexer (ds @ cs) pos tok_start tok_end symbol) 80 result =
    ts_lex_loop (Lexer cs (pos + length ds) tok_start (pos + length ds) aux_sym_number_token2) 80 True"
proof (induction ds arbitrary: pos tok_end symbol result)
  case Nil
  show ?case
    using accepting_state_forgets [of 80 aux_sym_number_token2] by (simp add: number_states)
next
  case (Cons d ds)
  then have "ts_lex_case 80 False d = (Some aux_sym_number_token2, ADVANCE 80)"
    by (simp add: number_states)
  then have "ts_lex_loop (Lexer ((d # ds) @ cs) pos tok_start tok_end symbol) 80 result =
      ts_lex_loop (Lexer (ds @ cs) (Suc pos) tok_start pos aux_sym_number_token2) 80 True"
    by (simp add: ts_lex_loop_advance)
  with Cons show ?case by simp
qed

lemma hex_run:
  "list_all hex_digit ds \<Longrightarrow>
    ts_lex_loop (Lexer (ds @ cs) pos tok_start tok_end symbol) 79 result =
    ts_lex_loop (Lexer cs (pos + length ds) tok_start (pos + length ds) aux_sym_number_token1) 79 True"
proof (induction ds arbitrary: pos tok_end symbol result)
  case Nil
  show ?case
    using accepting_state_forgets [of 79 aux_sym_number_token1] by (simp add: number_states)
next
  case (Cons d ds)
  then have "ts_lex_case 79 False d = (Some aux_sym_number_token1, ADVANCE 79)"
    by (simp add: number_states)
  then have "ts_lex_loop (Lexer ((d # ds) @ cs) pos tok_start tok_end symbol) 79 result =
      ts_lex_loop (Lexer (ds @ cs) (Suc pos) tok_start pos aux_sym_number_token1) 79 True"
    by (simp add: ts_lex_loop_advance)
  with Cons show ?case by simp
qed

text \<open>Where the loops end: the token that the lexer returns.\<close>

lemma run_stops:
  assumes "ts_lex_case state True (CHR 0x00) = (Some token, END_STATE)"
    and "\<And>c. \<not> P c \<Longrightarrow> ts_lex_case state False c = (Some token, END_STATE)"
    and "stops P rest"
  shows "ts_lex_loop (Lexer rest pos tok_start tok_end symbol) state result =
    (Lexer rest pos tok_start pos token, True)"
proof (cases rest)
  case Nil
  with assms(1) show ?thesis by (simp add: ts_lex_loop_end_of_input)
next
  case (Cons c cs)
  with assms(3) have "ts_lex_case state False c = (Some token, END_STATE)"
    by (simp add: assms(2))
  with Cons show ?thesis by (simp add: ts_lex_loop_end)
qed

lemma fraction_stops:
  assumes "stops digit rest"
  shows "ts_lex_loop (Lexer rest pos tok_start tok_end symbol) 80 result =
    (Lexer rest pos tok_start pos aux_sym_number_token2, True)"
  using _ _ assms by (rule run_stops) (simp_all add: number_states not_a_digit)

lemma hex_stops:
  assumes "stops hex_digit rest"
  shows "ts_lex_loop (Lexer rest pos tok_start tok_end symbol) 79 result =
    (Lexer rest pos tok_start pos aux_sym_number_token1, True)"
  using _ _ assms by (rule run_stops) (simp_all add: number_states not_a_digit)

lemma no_fraction:
  assumes "\<not> fraction_follows (CHR ''.'' # rest)"
    and "ts_lex_case state False (CHR ''.'') = (Some token, ADVANCE 44)"
  shows "\<exists>cs p. ts_lex_loop (Lexer (CHR ''.'' # rest) pos tok_start pos token) state True =
      (Lexer cs p tok_start pos token, True)"
proof -
  have first: "ts_lex_loop (Lexer (CHR ''.'' # rest) pos tok_start pos token) state True =
      ts_lex_loop (Lexer rest (Suc pos) tok_start pos token) 44 True"
    using assms(2) by (simp add: ts_lex_loop_advance)
  show ?thesis
  proof (cases rest)
    case Nil
    have "ts_lex_case 44 True (CHR 0x00) = (None, END_STATE)"
      by (simp add: number_states not_a_digit)
    then show ?thesis using first unfolding Nil by (simp add: ts_lex_loop_end_of_input)
  next
    case (Cons d cs)
    with assms(1) have "ts_lex_case 44 False d = (None, END_STATE)"
      by (simp add: number_states)
    then show ?thesis using first unfolding Cons by (simp add: ts_lex_loop_end)
  qed
qed

lemma no_hex:
  assumes "\<not> hex_follows (CHR ''x'' # rest)"
  shows "\<exists>cs p. ts_lex_loop (Lexer (CHR ''x'' # rest) pos tok_start pos aux_sym_number_token3) 81 True =
      (Lexer cs p tok_start pos aux_sym_number_token3, True)"
proof -
  have "ts_lex_case 81 False (CHR ''x'') = (Some aux_sym_number_token3, ADVANCE 45)"
    by (simp add: number_states)
  then have first:
    "ts_lex_loop (Lexer (CHR ''x'' # rest) pos tok_start pos aux_sym_number_token3) 81 True =
      ts_lex_loop (Lexer rest (Suc pos) tok_start pos aux_sym_number_token3) 45 True"
    by (simp add: ts_lex_loop_advance)
  show ?thesis
  proof (cases rest)
    case Nil
    have "ts_lex_case 45 True (CHR 0x00) = (None, END_STATE)"
      by (simp add: number_states not_a_digit)
    then show ?thesis using first unfolding Nil by (simp add: ts_lex_loop_end_of_input)
  next
    case (Cons d cs)
    with assms have "ts_lex_case 45 False d = (None, END_STATE)"
      by (simp add: number_states)
    then show ?thesis using first unfolding Cons by (simp add: ts_lex_loop_end)
  qed
qed

lemma decimal_stops:
  assumes "stops digit rest" and "\<not> fraction_follows rest"
    and "state = 82 \<or> state = 81 \<and> \<not> hex_follows rest"
  shows "\<exists>cs p. ts_lex_loop (Lexer rest pos tok_start pos aux_sym_number_token3) state True =
      (Lexer cs p tok_start pos aux_sym_number_token3, True)"
proof (cases rest)
  case Nil
  from assms(3) have "ts_lex_case state True (CHR 0x00) = (Some aux_sym_number_token3, END_STATE)"
    by (auto simp add: number_states not_a_digit)
  then show ?thesis unfolding Nil by (simp add: ts_lex_loop_end_of_input)
next
  case (Cons c cs)
  with assms(1) have c: "\<not> digit c" by simp
  consider "c = CHR ''.''" | "c = CHR ''x''" "state = 81" | "c \<noteq> CHR ''.''" "c = CHR ''x'' \<longrightarrow> state = 82"
    using assms(3) by auto
  then show ?thesis
  proof cases
    case 1
    have "ts_lex_case state False (CHR ''.'') = (Some aux_sym_number_token3, ADVANCE 44)"
      using assms(3) by (auto simp add: number_states)
    with assms(2) show ?thesis
      unfolding Cons 1 by (rule no_fraction)
  next
    case 2
    with assms(3) have "\<not> hex_follows (CHR ''x'' # cs)" using Cons by auto
    then show ?thesis unfolding Cons 2 by (rule no_hex)
  next
    case 3
    with c assms(3) have "ts_lex_case state False c = (Some aux_sym_number_token3, END_STATE)"
      by (auto simp add: number_states)
    then show ?thesis unfolding Cons by (simp add: ts_lex_loop_end)
  qed
qed

lemma token_found:
  assumes "ts_lex_loop (Lexer (tok @ rest) pos pos pos 0) state False =
    (Lexer cs p pos (pos + length tok) symbol, True)"
  shows "lex_token state (tok @ rest) pos = Some (Leaf symbol [] tok, rest, pos + length tok)"
  using assms by (simp add: lex_token_def ts_lex_def lexer_start_def)

lemma digit_not_punctuation:
  assumes "digit c"
  shows "c \<notin> set (''#()*+,-./[]{}fnt'' @ [CHR 0x22, CHR 0x27, CHR 0x09, CHR 0x0A, CHR 0x0D, CHR '' ''])"
proof
  assume "c \<in> set (''#()*+,-./[]{}fnt'' @ [CHR 0x22, CHR 0x27, CHR 0x09, CHR 0x0A, CHR 0x0D, CHR '' ''])"
  then have "\<not> digit c"
    by (auto simp add: digit_def)
  with assms show False by simp
qed

lemma digit_after_zero:
  assumes "digit c" and "c \<noteq> CHR ''0''"
  shows "CHR ''1'' \<le> c \<and> c \<le> CHR ''9''"
proof -
  have "c = CHR ''0''" if "of_char c = (48::nat)"
  proof -
    from that have "(of_char c :: nat) = of_char (CHR ''0'')" by simp
    then show ?thesis by (simp only: of_char_eq_iff)
  qed
  with assms(2) have "of_char c \<noteq> (48::nat)" by blast
  with assms(1) show ?thesis
    by (simp add: digit_def less_eq_char_def)
qed

lemma digit_in_state_2:
  assumes "digit c"
  shows "ts_lex_case 2 False c = (None, ADVANCE (if c = CHR ''0'' then 81 else 82))"
proof (cases "c = CHR ''0''")
  case True
  then show ?thesis by (simp add: ts_lex_case_simps ts_lex_state_2_def)
next
  case False
  have "ts_lex_case 2 False c =
    (None,
     if c \<in> set (''#()*+,-./[]{}fnt'' @ [CHR 0x22, CHR 0x27, CHR 0x09, CHR 0x0A, CHR 0x0D, CHR '' ''])
     then snd (ts_lex_case 2 False c)
     else if c = CHR ''0'' then ADVANCE 81
     else if CHR ''1'' \<le> c \<and> c \<le> CHR ''9'' then ADVANCE 82
     else snd (ts_lex_case 2 False c))"
    by (simp add: ts_lex_case_simps ts_lex_state_2_def)
  also have "\<dots> = (None, ADVANCE 82)"
    using False digit_not_punctuation [OF assms] digit_after_zero [OF assms False] by simp
  finally show ?thesis using False by simp
qed

lemma decimal_from:
  assumes "state = 82 \<or> state = 81" and "list_all digit ds"
    and "stops digit rest" and "\<not> fraction_follows rest"
    and "state = 81 \<and> ds = [] \<longrightarrow> \<not> hex_follows rest"
  shows "\<exists>cs p. ts_lex_loop (Lexer (ds @ rest) pos tok_start tok_end symbol) state result =
      (Lexer cs p tok_start (pos + length ds) aux_sym_number_token3, True)"
proof (cases ds)
  case Nil
  have "ts_lex_loop (Lexer rest pos tok_start tok_end symbol) state result =
      ts_lex_loop (Lexer rest pos tok_start pos aux_sym_number_token3) state True"
    using assms(1) by (intro accepting_state_forgets) (auto simp add: number_states)
  moreover have "\<exists>cs p. ts_lex_loop (Lexer rest pos tok_start pos aux_sym_number_token3) state True =
      (Lexer cs p tok_start pos aux_sym_number_token3, True)"
    using assms(3,4) by (rule decimal_stops) (use assms(1,5) Nil in auto)
  ultimately show ?thesis unfolding Nil by simp
next
  case (Cons d ds')
  with assms(2) have d: "digit d" and ds': "list_all digit ds'" by simp_all
  from d assms(1) have "ts_lex_case state False d = (Some aux_sym_number_token3, ADVANCE 82)"
    using digit_is_no_mark [of d] by (auto simp add: number_states)
  then have "ts_lex_loop (Lexer (ds @ rest) pos tok_start tok_end symbol) state result =
      ts_lex_loop (Lexer (ds' @ rest) (Suc pos) tok_start pos aux_sym_number_token3) 82 True"
    unfolding Cons by (simp add: ts_lex_loop_advance)
  also have "\<dots> =
      ts_lex_loop (Lexer rest (Suc pos + length ds') tok_start (Suc pos + length ds')
        aux_sym_number_token3) 82 True"
    using ds' by (rule digits_run)
  finally have "ts_lex_loop (Lexer (ds @ rest) pos tok_start tok_end symbol) state result =
      ts_lex_loop (Lexer rest (pos + length ds) tok_start (pos + length ds)
        aux_sym_number_token3) 82 True"
    unfolding Cons by simp
  moreover have "\<exists>cs p.
      ts_lex_loop (Lexer rest (pos + length ds) tok_start (pos + length ds)
        aux_sym_number_token3) 82 True =
      (Lexer cs p tok_start (pos + length ds) aux_sym_number_token3, True)"
    using assms(3,4) by (rule decimal_stops) simp
  ultimately show ?thesis by simp
qed

lemma decimal_token:
  assumes "digit d" and "list_all digit ds" and "stops digit rest" and "\<not> fraction_follows rest"
    and "d = CHR ''0'' \<and> ds = [] \<longrightarrow> \<not> hex_follows rest"
  shows "lex_token 2 (d # ds @ rest) pos =
    Some (Leaf aux_sym_number_token3 [] (d # ds), rest, pos + length (d # ds))"
proof -
  define state :: nat where "state = (if d = CHR ''0'' then 81 else 82)"
  have "ts_lex_loop (Lexer ((d # ds) @ rest) pos pos pos 0) 2 False =
      ts_lex_loop (Lexer (ds @ rest) (Suc pos) pos pos 0) state False"
    using digit_in_state_2 [OF assms(1)] by (simp add: ts_lex_loop_advance state_def)
  moreover have "\<exists>cs p. ts_lex_loop (Lexer (ds @ rest) (Suc pos) pos pos 0) state False =
      (Lexer cs p pos (Suc pos + length ds) aux_sym_number_token3, True)"
    using _ assms(2,3,4) by (rule decimal_from) (use assms(5) in \<open>auto simp add: state_def\<close>)
  ultimately obtain cs p where
    "ts_lex_loop (Lexer ((d # ds) @ rest) pos pos pos 0) 2 False =
      (Lexer cs p pos (pos + length (d # ds)) aux_sym_number_token3, True)"
    by auto
  then have "lex_token 2 ((d # ds) @ rest) pos =
      Some (Leaf aux_sym_number_token3 [] (d # ds), rest, pos + length (d # ds))"
    by (rule token_found)
  then show ?thesis by simp
qed

lemma to_the_point:
  assumes "state = 82 \<or> state = 81" and "list_all digit ds"
  shows "ts_lex_loop (Lexer (ds @ CHR ''.'' # cs) pos tok_start tok_end symbol) state result =
    ts_lex_loop (Lexer cs (Suc (pos + length ds)) tok_start (pos + length ds)
      aux_sym_number_token3) 44 True"
proof -
  have point: "ts_lex_loop (Lexer (CHR ''.'' # cs) p tok_start e s) state' r =
      ts_lex_loop (Lexer cs (Suc p) tok_start p aux_sym_number_token3) 44 True"
    if "state' = 82 \<or> state' = 81" for p e s r state'
  proof -
    from that have "ts_lex_case state' False (CHR ''.'') = (Some aux_sym_number_token3, ADVANCE 44)"
      by (auto simp add: number_states)
    then show ?thesis by (simp add: ts_lex_loop_advance)
  qed
  show ?thesis
  proof (cases ds)
    case Nil
    with assms(1) show ?thesis by (simp add: point)
  next
    case (Cons d ds')
    with assms(2) have d: "digit d" and ds': "list_all digit ds'" by simp_all
    from d assms(1) have "ts_lex_case state False d = (Some aux_sym_number_token3, ADVANCE 82)"
      using digit_is_no_mark [of d] by (auto simp add: number_states)
    then have "ts_lex_loop (Lexer (ds @ CHR ''.'' # cs) pos tok_start tok_end symbol) state result =
        ts_lex_loop (Lexer (ds' @ CHR ''.'' # cs) (Suc pos) tok_start pos aux_sym_number_token3) 82 True"
      unfolding Cons by (simp add: ts_lex_loop_advance)
    also have "\<dots> =
        ts_lex_loop (Lexer (CHR ''.'' # cs) (Suc pos + length ds') tok_start (Suc pos + length ds')
          aux_sym_number_token3) 82 True"
      using ds' by (rule digits_run)
    also have "\<dots> =
        ts_lex_loop (Lexer cs (Suc (Suc pos + length ds')) tok_start (Suc pos + length ds')
          aux_sym_number_token3) 44 True"
      by (simp add: point)
    finally show ?thesis unfolding Cons by simp
  qed
qed

lemma fraction_token:
  assumes "digit d" and "list_all digit ds" and "digit f" and "list_all digit fs"
    and "stops digit rest"
  shows "lex_token 2 (d # ds @ ''.'' @ f # fs @ rest) pos =
    Some (Leaf aux_sym_number_token2 [] (d # ds @ ''.'' @ f # fs), rest,
      pos + length (d # ds @ ''.'' @ f # fs))"
proof -
  define state :: nat where "state = (if d = CHR ''0'' then 81 else 82)"
  have "ts_lex_loop (Lexer ((d # ds @ ''.'' @ f # fs) @ rest) pos pos pos 0) 2 False =
      ts_lex_loop (Lexer (ds @ CHR ''.'' # f # fs @ rest) (Suc pos) pos pos 0) state False"
    using digit_in_state_2 [OF assms(1)] by (simp add: ts_lex_loop_advance state_def)
  also have "\<dots> =
      ts_lex_loop (Lexer (f # fs @ rest) (Suc (Suc pos + length ds)) pos (Suc pos + length ds)
        aux_sym_number_token3) 44 True"
    using _ assms(2) by (rule to_the_point) (simp add: state_def)
  also have "\<dots> =
      ts_lex_loop (Lexer (fs @ rest) (Suc (Suc (Suc pos + length ds))) pos (Suc pos + length ds)
        aux_sym_number_token3) 80 True"
    using assms(3) by (simp add: ts_lex_loop_advance number_states)
  also have "\<dots> =
      ts_lex_loop (Lexer rest (Suc (Suc (Suc pos + length ds)) + length fs) pos
        (Suc (Suc (Suc pos + length ds)) + length fs) aux_sym_number_token2) 80 True"
    using assms(4) by (rule fraction_run)
  also have "\<dots> =
      (Lexer rest (Suc (Suc (Suc pos + length ds)) + length fs) pos
        (Suc (Suc (Suc pos + length ds)) + length fs) aux_sym_number_token2, True)"
    using assms(5) by (rule fraction_stops)
  finally have "ts_lex_loop (Lexer ((d # ds @ ''.'' @ f # fs) @ rest) pos pos pos 0) 2 False =
      (Lexer rest (Suc (Suc (Suc pos + length ds)) + length fs) pos
        (pos + length (d # ds @ ''.'' @ f # fs)) aux_sym_number_token2, True)"
    by simp
  then have "lex_token 2 ((d # ds @ ''.'' @ f # fs) @ rest) pos =
      Some (Leaf aux_sym_number_token2 [] (d # ds @ ''.'' @ f # fs), rest,
        pos + length (d # ds @ ''.'' @ f # fs))"
    by (rule token_found)
  then show ?thesis by simp
qed

lemma hex_token:
  assumes "hex_digit h" and "list_all hex_digit hs" and "stops hex_digit rest"
  shows "lex_token 2 (''0x'' @ h # hs @ rest) pos =
    Some (Leaf aux_sym_number_token1 [] (''0x'' @ h # hs), rest, pos + length (''0x'' @ h # hs))"
proof -
  have "ts_lex_loop (Lexer ((''0x'' @ h # hs) @ rest) pos pos pos 0) 2 False =
      ts_lex_loop (Lexer (h # hs @ rest) (Suc (Suc pos)) pos (Suc pos) aux_sym_number_token3) 45 True"
    by (simp add: lex_eval)
  also have "\<dots> =
      ts_lex_loop (Lexer (hs @ rest) (Suc (Suc (Suc pos))) pos (Suc pos) aux_sym_number_token3) 79 True"
    using assms(1) by (simp add: ts_lex_loop_advance number_states)
  also have "\<dots> =
      ts_lex_loop (Lexer rest (Suc (Suc (Suc pos)) + length hs) pos (Suc (Suc (Suc pos)) + length hs)
        aux_sym_number_token1) 79 True"
    using assms(2) by (rule hex_run)
  also have "\<dots> =
      (Lexer rest (Suc (Suc (Suc pos)) + length hs) pos (Suc (Suc (Suc pos)) + length hs)
        aux_sym_number_token1, True)"
    using assms(3) by (rule hex_stops)
  finally have "ts_lex_loop (Lexer ((''0x'' @ h # hs) @ rest) pos pos pos 0) 2 False =
      (Lexer rest (Suc (Suc (Suc pos)) + length hs) pos (pos + length (''0x'' @ h # hs))
        aux_sym_number_token1, True)"
    by simp
  then have "lex_token 2 ((''0x'' @ h # hs) @ rest) pos =
      Some (Leaf aux_sym_number_token1 [] (''0x'' @ h # hs), rest, pos + length (''0x'' @ h # hs))"
    by (rule token_found)
  then show ?thesis by simp
qed

lemma no_sign:
  "lex_token 2 (CHR ''-'' # rest) pos = None"
  "lex_token 2 (CHR ''+'' # rest) pos = None"
  "lex_token 0 (CHR ''-'' # rest) pos = Some (Leaf anon_sym_DASH [] ''-'', rest, pos + 1)"
  "lex_token 0 (CHR ''+'' # rest) pos = Some (Leaf anon_sym_PLUS [] ''+'', rest, pos + 1)"
  by (simp_all add: lex_eval Suc_diff_le)

subsection \<open>Names are strings\<close>

lemma name_positions_states: "list_all name_positions (states_below STATE_COUNT)"
  by (simp add: name_positions_def string_expected_def table_eval)

lemma name_positions_all: "name_positions state"
proof (cases "state < STATE_COUNT")
  case True
  with name_positions_states show ?thesis by (rule every_state)
next
  case False
  then show ?thesis by (simp add: name_positions_def no_actions_beyond)
qed

text \<open>
  C1 (as stated, refuted). The claim's own example, with the bare identifier
  \<^verbatim>\<open>myout\<close> in the name position, does not parse: the identifier that ends at offset 12
  has no action in the state after \<^verbatim>\<open>output\<close>.
\<close>

theorem C1_identifier_name_rejected:
  "ts_parser_parse ''output myout { value = a.b }'' = Some (Inl (SyntaxError 12 sym_identifier))"
  by (simp add: parse_eval)

text \<open>
  C1 (amended). The name, type and network positions after a statement keyword take a
  quoted string, not a bare identifier. In every state, a shift of a statement keyword
  leads to a state that has no action for an identifier and shifts each of the opening
  quotes \<^verbatim>\<open>"\<close>, \<^verbatim>\<open>'\<close> and \<^verbatim>\<open>"""\<close>; so do the states after the first string of
  \<^verbatim>\<open>signer\<close> (107) and of \<^verbatim>\<open>action\<close> (98). The statements written with double-quoted
  or with single-quoted strings parse, and their fields hold the strings; written with
  identifiers, their first diagnostic is a syntax error at the first identifier. Of the
  triple-quoted form, the name \<^verbatim>\<open>"""m"""\<close> parses and the name \<^verbatim>\<open>"""myout"""\<close> is a
  syntax error: the text token after \<^verbatim>\<open>"""\<close> is the single character \<^verbatim>\<open>m\<close>, and the
  state after it (138) shifts the closing quotes and has no action for a further text token
  or for an identifier.
\<close>

theorem C1_names_are_strings:
  \<open>name_positions state \<and>
   map (ts_language_actions 1)
     [anon_sym_addon, anon_sym_signer, anon_sym_action, anon_sym_output, anon_sym_variable,
      anon_sym_input] =
     [[SHIFT 101], [SHIFT 106], [SHIFT 109], [SHIFT 99], [SHIFT 102], [SHIFT 105]] \<and>
   ts_language_next_state 106 sym_string = 107 \<and> string_expected 107 \<and>
   ts_language_next_state 109 sym_string = 98 \<and> string_expected 98 \<and>
   map (\<lambda>input. map (\<lambda>node. field_text node ''name'')
       (parsed_nodes sym_output_block (ts_parser_parse input)))
     [''output "myout" { value = a.b }'', ''output 'myout' { value = a.b }''] =
     [[[(sym_string, ''"myout"'')]], [[(sym_string, [CHR 0x27] @ ''myout'' @ [CHR 0x27])]]] \<and>
   map (\<lambda>input. map (\<lambda>node. (field_text node ''name'', field_text node ''type''))
       (parsed_nodes sym_signer_block (ts_parser_parse input)))
     [''signer "s" "t" { k = 1 }'', ''signer 's' 't' { k = 1 }''] =
     [[([(sym_string, ''"s"'')], [(sym_string, ''"t"'')])],
      [([(sym_string, [CHR 0x27] @ ''s'' @ [CHR 0x27])],
        [(sym_string, [CHR 0x27] @ ''t'' @ [CHR 0x27])])]] \<and>
   map (\<lambda>input. map (\<lambda>node. (field_text node ''name'', field_text node ''type''))
       (parsed_nodes sym_action_block (ts_parser_parse input)))
     [''action "a" "t" { k = 1 }'', ''action 'a' 't' { k = 1 }''] =
     [[([(sym_string, ''"a"'')], [(sym_string, ''"t"'')])],
      [([(sym_string, [CHR 0x27] @ ''a'' @ [CHR 0x27])],
        [(sym_string, [CHR 0x27] @ ''t'' @ [CHR 0x27])])]] \<and>
   map (\<lambda>input. map (\<lambda>node. field_text node ''network'')
       (parsed_nodes sym_addon_block (ts_parser_parse input)))
     [''addon "a" { k = 1 }'', ''addon 'a' { k = 1 }''] =
     [[[(sym_string, ''"a"'')]], [[(sym_string, [CHR 0x27] @ ''a'' @ [CHR 0x27])]]] \<and>
   map (\<lambda>input. map (\<lambda>node. field_text node ''name'')
       (parsed_nodes sym_variable_declaration (ts_parser_parse input)))
     [''variable "v" { k = 1 }'', ''variable 'v' { k = 1 }''] =
     [[[(sym_string, ''"v"'')]], [[(sym_string, [CHR 0x27] @ ''v'' @ [CHR 0x27])]]] \<and>
   map (\<lambda>input. map (\<lambda>node. field_text node ''name'')
       (parsed_nodes sym_input_declaration (ts_parser_parse input)))
     [''input "x" = 1'', ''input 'x' = 1''] =
     [[[(sym_string, ''"x"'')]], [[(sym_string, [CHR 0x27] @ ''x'' @ [CHR 0x27])]]] \<and>
   ts_parser_parse ''signer s t { k = 1 }'' = Some (Inl (SyntaxError 8 sym_identifier)) \<and>
   ts_parser_parse ''signer "s" t { k = 1 }'' = Some (Inl (SyntaxError 12 sym_identifier)) \<and>
   ts_parser_parse ''action a t { k = 1 }'' = Some (Inl (SyntaxError 8 sym_identifier)) \<and>
   ts_parser_parse ''action "a" t { k = 1 }'' = Some (Inl (SyntaxError 12 sym_identifier)) \<and>
   ts_parser_parse ''addon a { k = 1 }'' = Some (Inl (SyntaxError 7 sym_identifier)) \<and>
   ts_parser_parse ''variable v { k = 1 }'' = Some (Inl (SyntaxError 10 sym_identifier)) \<and>
   ts_parser_parse ''input x = 1'' = Some (Inl (SyntaxError 7 sym_identifier)) \<and>
   map (\<lambda>node. field_text node ''name'')
     (parsed_nodes sym_output_block (ts_parser_parse ''output """m""" { value = a.b }'')) =
     [[(sym_string, ''"""m"""'')]] \<and>
   ts_parser_parse ''output """myout""" { value = a.b }'' =
     Some (Inl (SyntaxError 15 sym_identifier)) \<and>
   lex_token (ts_lex_modes 137) ''myout"""'' 10 = Some (Leaf aux_sym_string_token3 [] ''m'', ''yout"""'', 11) \<and>
   ts_language_actions 137 aux_sym_string_token3 = [SHIFT 138] \<and>
   map (ts_language_actions 138)
     [anon_sym_DQUOTE_DQUOTE_DQUOTE, aux_sym_string_token3, sym_identifier] =
     [[SHIFT 17], [], []]\<close>
proof -
  have tables:
    "map (ts_language_actions 1)
       [anon_sym_addon, anon_sym_signer, anon_sym_action, anon_sym_output, anon_sym_variable,
        anon_sym_input] =
       [[SHIFT 101], [SHIFT 106], [SHIFT 109], [SHIFT 99], [SHIFT 102], [SHIFT 105]]"
    "ts_language_next_state 106 sym_string = 107" "string_expected 107"
    "ts_language_next_state 109 sym_string = 98" "string_expected 98"
    by (simp_all add: string_expected_def table_eval)
  have parsed_output:
    \<open>map (\<lambda>input. map (\<lambda>node. field_text node ''name'')
       (parsed_nodes sym_output_block (ts_parser_parse input)))
     [''output "myout" { value = a.b }'', ''output 'myout' { value = a.b }''] =
     [[[(sym_string, ''"myout"'')]], [[(sym_string, [CHR 0x27] @ ''myout'' @ [CHR 0x27])]]]\<close>
    by (simp add: parse_eval node_eval)
  have parsed_signer:
    \<open>map (\<lambda>input. map (\<lambda>node. (field_text node ''name'', field_text node ''type''))
       (parsed_nodes sym_signer_block (ts_parser_parse input)))
     [''signer "s" "t" { k = 1 }'', ''signer 's' 't' { k = 1 }''] =
     [[([(sym_string, ''"s"'')], [(sym_string, ''"t"'')])],
      [([(sym_string, [CHR 0x27] @ ''s'' @ [CHR 0x27])],
        [(sym_string, [CHR 0x27] @ ''t'' @ [CHR 0x27])])]]\<close>
    by (simp add: parse_eval node_eval)
  have parsed_action:
    \<open>map (\<lambda>input. map (\<lambda>node. (field_text node ''name'', field_text node ''type''))
       (parsed_nodes sym_action_block (ts_parser_parse input)))
     [''action "a" "t" { k = 1 }'', ''action 'a' 't' { k = 1 }''] =
     [[([(sym_string, ''"a"'')], [(sym_string, ''"t"'')])],
      [([(sym_string, [CHR 0x27] @ ''a'' @ [CHR 0x27])],
        [(sym_string, [CHR 0x27] @ ''t'' @ [CHR 0x27])])]]\<close>
    by (simp add: parse_eval node_eval)
  have parsed_addon:
    \<open>map (\<lambda>input. map (\<lambda>node. field_text node ''network'')
       (parsed_nodes sym_addon_block (ts_parser_parse input)))
     [''addon "a" { k = 1 }'', ''addon 'a' { k = 1 }''] =
     [[[(sym_string, ''"a"'')]], [[(sym_string, [CHR 0x27] @ ''a'' @ [CHR 0x27])]]]\<close>
    by (simp add: parse_eval node_eval)
  have parsed_variable:
    \<open>map (\<lambda>input. map (\<lambda>node. field_text node ''name'')
       (parsed_nodes sym_variable_declaration (ts_parser_parse input)))
     [''variable "v" { k = 1 }'', ''variable 'v' { k = 1 }''] =
     [[[(sym_string, ''"v"'')]], [[(sym_string, [CHR 0x27] @ ''v'' @ [CHR 0x27])]]]\<close>
    by (simp add: parse_eval node_eval)
  have parsed_input:
    \<open>map (\<lambda>input. map (\<lambda>node. field_text node ''name'')
       (parsed_nodes sym_input_declaration (ts_parser_parse input)))
     [''input "x" = 1'', ''input 'x' = 1''] =
     [[[(sym_string, ''"x"'')]], [[(sym_string, [CHR 0x27] @ ''x'' @ [CHR 0x27])]]]\<close>
    by (simp add: parse_eval node_eval)
  have errors:
    \<open>ts_parser_parse ''signer s t { k = 1 }'' = Some (Inl (SyntaxError 8 sym_identifier))\<close>
    \<open>ts_parser_parse ''signer "s" t { k = 1 }'' = Some (Inl (SyntaxError 12 sym_identifier))\<close>
    \<open>ts_parser_parse ''action a t { k = 1 }'' = Some (Inl (SyntaxError 8 sym_identifier))\<close>
    \<open>ts_parser_parse ''action "a" t { k = 1 }'' = Some (Inl (SyntaxError 12 sym_identifier))\<close>
    \<open>ts_parser_parse ''addon a { k = 1 }'' = Some (Inl (SyntaxError 7 sym_identifier))\<close>
    \<open>ts_parser_parse ''variable v { k = 1 }'' = Some (Inl (SyntaxError 10 sym_identifier))\<close>
    \<open>ts_parser_parse ''input x = 1'' = Some (Inl (SyntaxError 7 sym_identifier))\<close>
    by (simp_all add: parse_eval)
  have triple_quoted:
    \<open>map (\<lambda>node. field_text node ''name'')
      (parsed_nodes sym_output_block (ts_parser_parse ''output """m""" { value = a.b }'')) =
      [[(sym_string, ''"""m"""'')]]\<close>
    \<open>ts_parser_parse ''output """myout""" { value = a.b }'' =
      Some (Inl (SyntaxError 15 sym_identifier))\<close>
    \<open>lex_token (ts_lex_modes 137) ''myout"""'' 10 =
      Some (Leaf aux_sym_string_token3 [] ''m'', ''yout"""'', 11)\<close>
    \<open>ts_language_actions 137 aux_sym_string_token3 = [SHIFT 138]\<close>
    \<open>map (ts_language_actions 138)
      [anon_sym_DQUOTE_DQUOTE_DQUOTE, aux_sym_string_token3, sym_identifier] =
      [[SHIFT 17], [], []]\<close>
    by (simp_all add: parse_eval node_eval)
  from name_positions_all tables parsed_output parsed_signer parsed_action parsed_addon
    parsed_variable parsed_input errors triple_quoted
  show ?thesis by (intro conjI)
qed

subsection \<open>References and division\<close>

lemma slash_like_star_states:
  "list_all (\<lambda>state. state = 139 \<or>
      ts_language_actions state anon_sym_SLASH = ts_language_actions state anon_sym_STAR)
    (states_below STATE_COUNT)"
  by (simp add: table_eval)

lemma slash_like_star:
  assumes "state \<noteq> 139"
  shows "ts_language_actions state anon_sym_SLASH = ts_language_actions state anon_sym_STAR"
proof (cases "state < STATE_COUNT")
  case True
  with slash_like_star_states
  have "state = 139 \<or>
      ts_language_actions state anon_sym_SLASH = ts_language_actions state anon_sym_STAR"
    by (rule every_state)
  with assms show ?thesis by simp
next
  case False
  then show ?thesis by (simp add: no_actions_beyond)
qed

text \<open>
  C2 (as stated, refuted). The attribute value \<^verbatim>\<open>a.b/c.d\<close> is not one reference with
  the segments a, b, c, d: it is a binary expression, the reference \<^verbatim>\<open>a.b\<close> divided by
  the reference \<^verbatim>\<open>c.d\<close>.
\<close>

theorem C2_slash_is_not_a_segment_separator:
  \<open>ts_parser_parse ''output "o" { v = a.b/c.d }'' =
    Some (Inr (Node sym_runbook 0 False
      [Node aux_sym_runbook_repeat1 0 False
        [Node sym__statement 0 False
          [Node sym_output_block 3 False
            [Leaf anon_sym_output [] ''output'',
             Node sym_string 0 False
               [Leaf anon_sym_DQUOTE '' '' ''"'', Leaf aux_sym_string_token1 [] ''o'',
                Leaf anon_sym_DQUOTE [] ''"''],
             Node sym_block 0 False
               [Leaf anon_sym_LBRACE '' '' ''{'',
                Node aux_sym_block_repeat1 0 False
                  [Node sym_attribute 6 False
                    [Leaf sym_identifier '' '' ''v'',
                     Leaf anon_sym_EQ '' '' ''='',
                     Node sym__expression 0 False
                       [Node sym_binary_expression 0 False
                         [Node sym__expression 0 False
                           [Node sym_reference 0 False
                             [Leaf sym_identifier '' '' ''a'',
                              Node aux_sym_reference_repeat1 0 False
                                [Leaf anon_sym_DOT [] ''.'', Leaf sym_identifier [] ''b'']]],
                          Leaf anon_sym_SLASH [] ''/'',
                          Node sym__expression 0 False
                            [Node sym_reference 0 False
                              [Leaf sym_identifier [] ''c'',
                               Node aux_sym_reference_repeat1 0 False
                                 [Leaf anon_sym_DOT [] ''.'', Leaf sym_identifier [] ''d'']]]]]]],
                Leaf anon_sym_RBRACE '' '' ''}'']]]],
       Leaf ts_builtin_sym_end [] []]))\<close>
  by (simp add: parse_eval)

text \<open>
  C2 (amended). The token \<^verbatim>\<open>/\<close> does not join the segments of a reference: it is the
  division operator. In every state but 139, where it closes a comment, the parser has the
  same actions for \<^verbatim>\<open>/\<close> as for \<^verbatim>\<open>*\<close>. In the states 47 and 56, after the first
  and after the further segments of a reference in an attribute value, a \<^verbatim>\<open>.\<close> is
  shifted and a \<^verbatim>\<open>/\<close> reduces the reference. The attribute value \<^verbatim>\<open>a.b/c.d\<close> is the
  binary expression of the reference \<^verbatim>\<open>a.b\<close>, the operator \<^verbatim>\<open>/\<close> and the reference
  \<^verbatim>\<open>c.d\<close>, with the segments a, b and c, d; the value \<^verbatim>\<open>a.b.c\<close> is one reference with
  the segments a, b, c.
\<close>

theorem C2_slash_divides_references:
  \<open>(state \<noteq> 139 \<longrightarrow>
      ts_language_actions state anon_sym_SLASH = ts_language_actions state anon_sym_STAR) \<and>
   ts_language_actions 139 anon_sym_SLASH = [SHIFT 151] \<and>
   ts_language_actions 139 anon_sym_STAR = [] \<and>
   ts_language_actions 47 anon_sym_DOT = [SHIFT 119] \<and>
   ts_language_actions 47 anon_sym_SLASH = [REDUCE sym_reference 1 0] \<and>
   ts_language_actions 56 anon_sym_DOT = [SHIFT 119] \<and>
   ts_language_actions 56 anon_sym_SLASH = [REDUCE sym_reference 2 0] \<and>
   map (\<lambda>node. map (\<lambda>child. (ts_subtree_symbol child, ts_node_text child)) (ts_node_children node))
     (parsed_nodes sym_binary_expression (ts_parser_parse ''output "o" { v = a.b/c.d }'')) =
     [[(sym_reference, ''a.b''), (anon_sym_SLASH, ''/''), (sym_reference, ''c.d'')]] \<and>
   map (\<lambda>node. map ts_node_text (ts_node_named_children node))
     (parsed_nodes sym_reference (ts_parser_parse ''output "o" { v = a.b/c.d }'')) =
     [[''a'', ''b''], [''c'', ''d'']] \<and>
   map (\<lambda>node. map ts_node_text (ts_node_named_children node))
     (parsed_nodes sym_reference (ts_parser_parse ''output "o" { v = a.b.c }'')) =
     [[''a'', ''b'', ''c'']]\<close>
proof -
  have tables:
    "ts_language_actions 139 anon_sym_SLASH = [SHIFT 151]"
    "ts_language_actions 139 anon_sym_STAR = []"
    "ts_language_actions 47 anon_sym_DOT = [SHIFT 119]"
    "ts_language_actions 47 anon_sym_SLASH = [REDUCE sym_reference 1 0]"
    "ts_language_actions 56 anon_sym_DOT = [SHIFT 119]"
    "ts_language_actions 56 anon_sym_SLASH = [REDUCE sym_reference 2 0]"
    by (simp_all add: table_eval)
  have division:
    \<open>map (\<lambda>node. map (\<lambda>child. (ts_subtree_symbol child, ts_node_text child)) (ts_node_children node))
     (parsed_nodes sym_binary_expression (ts_parser_parse ''output "o" { v = a.b/c.d }'')) =
     [[(sym_reference, ''a.b''), (anon_sym_SLASH, ''/''), (sym_reference, ''c.d'')]]\<close>
    by (simp add: parse_eval node_eval)
  have operands:
    \<open>map (\<lambda>node. map ts_node_text (ts_node_named_children node))
     (parsed_nodes sym_reference (ts_parser_parse ''output "o" { v = a.b/c.d }'')) =
     [[''a'', ''b''], [''c'', ''d'']]\<close>
    by (simp add: parse_eval node_eval)
  have dotted:
    \<open>map (\<lambda>node. map ts_node_text (ts_node_named_children node))
     (parsed_nodes sym_reference (ts_parser_parse ''output "o" { v = a.b.c }'')) =
     [[''a'', ''b'', ''c'']]\<close>
    by (simp add: parse_eval node_eval)
  from slash_like_star tables division operands dotted show ?thesis by blast
qed

theorem C2_slash_divides_references_witness:
  "(47::nat) \<noteq> 139 \<and>
   ts_language_actions 47 anon_sym_SLASH = [REDUCE sym_reference 1 0] \<and>
   ts_language_actions 47 anon_sym_STAR = [REDUCE sym_reference 1 0]"
  using C2_slash_divides_references [of 47] by (simp add: table_eval)

subsection \<open>The fields of an attribute\<close>

lemma attribute_reductions:
  "reductions sym_attribute (ts_parse_actions index) = [] \<or>
   reductions sym_attribute (ts_parse_actions index) = [(3, 6)]"
  by (simp add: ts_parse_actions_def)

text \<open>
  C3 (as stated, refuted). The attribute of \<^verbatim>\<open>output "o" { value = 1 }\<close> has no child in
  a field \<^verbatim>\<open>name\<close>: its identifier is in the field \<^verbatim>\<open>key\<close>.
\<close>

theorem C3_attribute_has_no_name_field:
  \<open>map (\<lambda>node. (field_text node ''name'', field_text node ''key'', field_text node ''value''))
     (parsed_nodes sym_attribute (ts_parser_parse ''output "o" { value = 1 }'')) =
     [([], [(sym_identifier, ''value'')], [(sym_number, ''1'')])]\<close>
  by (simp add: parse_eval node_eval)

text \<open>
  C3 (amended). The fields of an attribute are \<^verbatim>\<open>key\<close> and \<^verbatim>\<open>value\<close>; it has no field
  \<^verbatim>\<open>name\<close>. Every reduction to an attribute in \<^verbatim>\<open>ts_parse_actions\<close> takes three
  children with the production id 6 (entry 268 is one), whose field map puts \<^verbatim>\<open>key\<close> at
  child 0 and \<^verbatim>\<open>value\<close> at child 2 and has no entry for the field that is called
  \<^verbatim>\<open>name\<close>. In the attributes of \<^verbatim>\<open>output "o" { value = a.b  k = 1 }\<close> the field
  \<^verbatim>\<open>key\<close> holds the identifier, the field \<^verbatim>\<open>value\<close> the expression, and the lookup
  of \<^verbatim>\<open>name\<close> finds nothing.
\<close>

theorem C3_attribute_fields_are_key_and_value:
  \<open>set (reductions sym_attribute (ts_parse_actions index)) \<subseteq> {(3, 6)} \<and>
   ts_parse_actions 268 = [REDUCE sym_attribute 3 6] \<and>
   ts_field_map 6 = [(field_key, 0), (field_value, 2)] \<and>
   ts_field_names field_key = ''key'' \<and>
   ts_field_names field_value = ''value'' \<and>
   ts_language_field_id_for_name ''name'' = field_name \<and>
   field_entries field_name (ts_field_map 6) = [] \<and>
   map (\<lambda>node. (ts_subtree_production_id node, field_text node ''name'', field_text node ''key'',
       field_text node ''value''))
     (parsed_nodes sym_attribute (ts_parser_parse ''output "o" { value = a.b  k = 1 }'')) =
     [(6, [], [(sym_identifier, ''value'')], [(sym_reference, ''a.b'')]),
      (6, [], [(sym_identifier, ''k'')], [(sym_number, ''1'')])]\<close>
proof -
  have tables:
    "ts_parse_actions 268 = [REDUCE sym_attribute 3 6]"
    "ts_field_map 6 = [(field_key, 0), (field_value, 2)]"
    "ts_field_names field_key = ''key''"
    "ts_field_names field_value = ''value''"
    "ts_language_field_id_for_name ''name'' = field_name"
    "field_entries field_name (ts_field_map 6) = []"
    by (simp_all add: table_eval node_eval)
  have attributes:
    \<open>map (\<lambda>node. (ts_subtree_production_id node, field_text node ''name'', field_text node ''key'',
       field_text node ''value''))
     (parsed_nodes sym_attribute (ts_parser_parse ''output "o" { value = a.b  k = 1 }'')) =
     [(6, [], [(sym_identifier, ''value'')], [(sym_reference, ''a.b'')]),
      (6, [], [(sym_identifier, ''k'')], [(sym_number, ''1'')])]\<close>
    by (simp add: parse_eval node_eval)
  have "set (reductions sym_attribute (ts_parse_actions index)) \<subseteq> {(3, 6)}"
    using attribute_reductions [of index] by auto
  with tables attributes show ?thesis by blast
qed

subsection \<open>Keywords are contextual\<close>

lemma dot_shift_states:
  "list_all (\<lambda>state. set (shift_states (ts_language_actions state anon_sym_DOT)) \<subseteq> {119, 127})
    (states_below STATE_COUNT)"
  by (simp add: table_eval)

lemma dot_shifts:
  "set (shift_states (ts_language_actions state anon_sym_DOT)) \<subseteq> {119, 127}"
proof (cases "state < STATE_COUNT")
  case True
  with dot_shift_states show ?thesis by (rule every_state)
next
  case False
  then show ?thesis by (simp add: no_actions_beyond)
qed

lemma keywords_in_value_position:
  \<open>map (\<lambda>input. map (\<lambda>node. map (\<lambda>child. (ts_subtree_symbol child, ts_node_text child))
         (ts_node_children node))
       (parsed_nodes sym_reference (ts_parser_parse input)))
     [''output "o" { v = addon }'', ''output "o" { v = a.true }''] =
     [[[(sym_identifier, ''addon'')]],
      [[(sym_identifier, ''a''), (anon_sym_DOT, ''.''), (sym_identifier, ''true'')]]]\<close>
  by (simp add: parse_eval node_eval)

lemma keywords_by_lex_state:
  "map (\<lambda>word. lex_token 2 word 0) [''true'', ''false'', ''null''] =
     [Some (Leaf anon_sym_true [] ''true'', [], 4), Some (Leaf anon_sym_false [] ''false'', [], 5),
      Some (Leaf sym_null [] ''null'', [], 4)]"
  "map (\<lambda>word. lex_token 46 word 0)
       [''addon'', ''signer'', ''action'', ''output'', ''variable'', ''input'', ''import''] =
     [Some (Leaf anon_sym_addon [] ''addon'', [], 5), Some (Leaf anon_sym_signer [] ''signer'', [], 6),
      Some (Leaf anon_sym_action [] ''action'', [], 6), Some (Leaf anon_sym_output [] ''output'', [], 6),
      Some (Leaf anon_sym_variable [] ''variable'', [], 8),
      Some (Leaf anon_sym_input [] ''input'', [], 5),
      Some (Leaf anon_sym_import [] ''import'', [], 6)]"
  by (simp_all add: lex_eval)

text \<open>
  C5 (as stated, refuted). In the lex state 2, which the parser uses where the value of an
  attribute starts (state 19), the text \<^verbatim>\<open>addon\<close> is lexed as a plain identifier; and in
  the lex state 1, which it uses after the \<^verbatim>\<open>.\<close> of a reference (state 119), the text
  \<^verbatim>\<open>true\<close> is. So the value of \<^verbatim>\<open>v = addon\<close> is a reference with the identifier
  \<^verbatim>\<open>addon\<close>, and the second segment of \<^verbatim>\<open>a.true\<close> is the identifier \<^verbatim>\<open>true\<close>.
\<close>

theorem C5_keyword_lexed_as_identifier:
  \<open>ts_lex_modes 19 = 2 \<and>
   lex_token 2 ''addon'' 0 = Some (Leaf sym_identifier [] ''addon'', [], 5) \<and>
   ts_lex_modes 119 = 1 \<and>
   lex_token 1 ''true'' 0 = Some (Leaf sym_identifier [] ''true'', [], 4) \<and>
   map (\<lambda>input. map (\<lambda>node. map (\<lambda>child. (ts_subtree_symbol child, ts_node_text child))
         (ts_node_children node))
       (parsed_nodes sym_reference (ts_parser_parse input)))
     [''output "o" { v = addon }'', ''output "o" { v = a.true }''] =
     [[[(sym_identifier, ''addon'')]],
      [[(sym_identifier, ''a''), (anon_sym_DOT, ''.''), (sym_identifier, ''true'')]]]\<close>
proof -
  have "ts_lex_modes 19 = 2" "ts_lex_modes 119 = 1"
    "lex_token 2 ''addon'' 0 = Some (Leaf sym_identifier [] ''addon'', [], 5)"
    "lex_token 1 ''true'' 0 = Some (Leaf sym_identifier [] ''true'', [], 4)"
    by (simp_all add: lex_eval parse_rows)
  with keywords_in_value_position show ?thesis by (intro conjI)
qed

text \<open>
  C5 (amended). Keywords are contextual: what a keyword spelling is lexed as depends on the
  lex state of the parse state. A word is a letter or \<^verbatim>\<open>_\<close> followed by letters, digits
  and \<^verbatim>\<open>_\<close>, up to a character that is none of these or to the end of input. In the lex
  state 1, which is the lex state of every state that a shift of \<^verbatim>\<open>.\<close> leads to (119 and
  127), every word is lexed as a plain identifier, so every keyword spelling is. In the lex
  state 2, which is the lex state of every state where an expression may start, every word
  that does not begin with \<^verbatim>\<open>f\<close>, \<^verbatim>\<open>n\<close> or \<^verbatim>\<open>t\<close> is lexed as a plain identifier, so
  \<^verbatim>\<open>addon\<close>, \<^verbatim>\<open>signer\<close>, \<^verbatim>\<open>action\<close>, \<^verbatim>\<open>output\<close>, \<^verbatim>\<open>variable\<close>, \<^verbatim>\<open>input\<close> and
  \<^verbatim>\<open>import\<close> are; \<^verbatim>\<open>true\<close>, \<^verbatim>\<open>false\<close> and \<^verbatim>\<open>null\<close> are lexed as keywords there.
  The lex state 46 of the start state 1 lexes the statement keywords as keywords.
\<close>

theorem C5_keywords_are_contextual:
  "(identifier_start c \<and> list_all identifier_char cs \<and> stops identifier_char rest \<longrightarrow>
      lex_token 1 (c # cs @ rest) pos =
        Some (Leaf sym_identifier [] (c # cs), rest, pos + length (c # cs))) \<and>
   (identifier_start c \<and> c \<noteq> CHR ''f'' \<and> c \<noteq> CHR ''n'' \<and> c \<noteq> CHR ''t'' \<and>
    list_all identifier_char cs \<and> stops identifier_char rest \<longrightarrow>
      lex_token 2 (c # cs @ rest) pos =
        Some (Leaf sym_identifier [] (c # cs), rest, pos + length (c # cs))) \<and>
   set (shift_states (ts_language_actions state anon_sym_DOT)) \<subseteq> {119, 127} \<and>
   ts_lex_modes 119 = 1 \<and> ts_lex_modes 127 = 1 \<and>
   (expression_start state \<longrightarrow> ts_lex_modes state = 2) \<and>
   map (\<lambda>word. lex_token 2 word 0) [''true'', ''false'', ''null''] =
     [Some (Leaf anon_sym_true [] ''true'', [], 4), Some (Leaf anon_sym_false [] ''false'', [], 5),
      Some (Leaf sym_null [] ''null'', [], 4)] \<and>
   ts_lex_modes 1 = 46 \<and>
   map (\<lambda>word. lex_token 46 word 0)
       [''addon'', ''signer'', ''action'', ''output'', ''variable'', ''input'', ''import''] =
     [Some (Leaf anon_sym_addon [] ''addon'', [], 5), Some (Leaf anon_sym_signer [] ''signer'', [], 6),
      Some (Leaf anon_sym_action [] ''action'', [], 6), Some (Leaf anon_sym_output [] ''output'', [], 6),
      Some (Leaf anon_sym_variable [] ''variable'', [], 8),
      Some (Leaf anon_sym_input [] ''input'', [], 5),
      Some (Leaf anon_sym_import [] ''import'', [], 6)]"
proof -
  have modes: "ts_lex_modes 119 = 1" "ts_lex_modes 127 = 1" "ts_lex_modes 1 = 46"
    by (simp_all add: parse_rows)
  have state_1: "lex_token 1 (c # cs @ rest) pos =
      Some (Leaf sym_identifier [] (c # cs), rest, pos + length (c # cs))"
    if "identifier_start c" "list_all identifier_char cs" "stops identifier_char rest"
    using identifier_in_state_1 [OF that(1)] that(2,3) by (rule word_is_identifier)
  have state_2: "lex_token 2 (c # cs @ rest) pos =
      Some (Leaf sym_identifier [] (c # cs), rest, pos + length (c # cs))"
    if "identifier_start c" "c \<noteq> CHR ''f''" "c \<noteq> CHR ''n''" "c \<noteq> CHR ''t''"
      "list_all identifier_char cs" "stops identifier_char rest"
    using identifier_in_state_2 [OF that(1,2,3,4)] that(5,6) by (rule word_is_identifier)
  from state_1 state_2 modes dot_shifts [of state] expression_start_actions [of state]
    keywords_by_lex_state
  show ?thesis by blast
qed

theorem C5_keywords_are_contextual_witness:
  "identifier_start (CHR ''a'') \<and> CHR ''a'' \<noteq> CHR ''f'' \<and> CHR ''a'' \<noteq> CHR ''n'' \<and>
   CHR ''a'' \<noteq> CHR ''t'' \<and> list_all identifier_char ''ddon'' \<and>
   stops identifier_char '' }'' \<and> expression_start 19 \<and>
   lex_token 1 ''addon }'' 17 = Some (Leaf sym_identifier [] ''addon'', '' }'', 22) \<and>
   lex_token 2 ''addon }'' 17 = Some (Leaf sym_identifier [] ''addon'', '' }'', 22) \<and>
   ts_lex_modes 19 = 2"
  using C5_keywords_are_contextual [of "CHR ''a''" "''ddon''" "'' }''" 17 19]
  by (simp add: identifier_start_def identifier_char_def stops.simps expression_start_def table_eval)

subsection \<open>Precedence and associativity\<close>

lemma grouping_additive_multiplicative:
  "expression_grouping ''1 + 2 * 3'' = [''(1+(2*3))'']"
  "expression_grouping ''1 + 2 / 3'' = [''(1+(2/3))'']"
  "expression_grouping ''1 - 2 * 3'' = [''(1-(2*3))'']"
  "expression_grouping ''1 - 2 / 3'' = [''(1-(2/3))'']"
  by (simp_all add: expression_grouping_def parse_eval node_eval)

lemma grouping_multiplicative_additive:
  "expression_grouping ''1 * 2 + 3'' = [''((1*2)+3)'']"
  "expression_grouping ''1 * 2 - 3'' = [''((1*2)-3)'']"
  "expression_grouping ''1 / 2 + 3'' = [''((1/2)+3)'']"
  "expression_grouping ''1 / 2 - 3'' = [''((1/2)-3)'']"
  by (simp_all add: expression_grouping_def parse_eval node_eval)

lemma grouping_additive_additive:
  "expression_grouping ''1 + 2 + 3'' = [''((1+2)+3)'']"
  "expression_grouping ''1 + 2 - 3'' = [''((1+2)-3)'']"
  "expression_grouping ''1 - 2 + 3'' = [''((1-2)+3)'']"
  "expression_grouping ''1 - 2 - 3'' = [''((1-2)-3)'']"
  by (simp_all add: expression_grouping_def parse_eval node_eval)

lemma grouping_multiplicative_multiplicative:
  "expression_grouping ''1 * 2 * 3'' = [''((1*2)*3)'']"
  "expression_grouping ''1 * 2 / 3'' = [''((1*2)/3)'']"
  "expression_grouping ''1 / 2 * 3'' = [''((1/2)*3)'']"
  "expression_grouping ''1 / 2 / 3'' = [''((1/2)/3)'']"
  by (simp_all add: expression_grouping_def parse_eval node_eval)

lemma operator_shifts_states: "list_all operator_shifts (states_below STATE_COUNT)"
  by (simp add: operator_shifts_def table_eval)

lemma operator_shifts_all: "operator_shifts state"
proof (cases "state < STATE_COUNT")
  case True
  with operator_shifts_states show ?thesis by (rule every_state)
next
  case False
  then show ?thesis by (simp add: operator_shifts_def no_actions_beyond)
qed

lemma grouping_in_a_block:
  \<open>map (\<lambda>input. map (\<lambda>node. map grouping (ts_node_children_by_field_name node ''value''))
       (parsed_nodes sym_attribute (ts_parser_parse input)))
     [''output "o" { v = 1 + 2 * 3 }'', ''output "o" { v = 1 * 2 + 3 }'',
      ''output "o" { v = 1 - 2 + 3 }'', ''output "o" { v = 1 / 2 * 3 }''] =
     [[[''(1+(2*3))'']], [[''((1*2)+3)'']], [[''((1-2)+3)'']], [[''((1/2)*3)'']]]\<close>
  by (simp add: parse_eval node_eval)

text \<open>
  C6. For all operators \<open>p\<close> and \<open>q\<close> among \<^verbatim>\<open>+ - * /\<close>, the value \<^verbatim>\<open>1 p 2 q 3\<close> of
  an input declaration is grouped as \<^verbatim>\<open>1 p (2 q 3)\<close> when \<open>p\<close> is additive and \<open>q\<close>
  multiplicative, and as \<^verbatim>\<open>(1 p 2) q 3\<close> otherwise: multiplication binds tighter than
  addition, and operators of one tier group to the left. So the multiplication is the right
  operand of the addition in \<^verbatim>\<open>1 + 2 * 3\<close> and its left operand in \<^verbatim>\<open>1 * 2 + 3\<close>; the
  same holds for these values of an attribute in a block. In the tables, every shift of
  \<^verbatim>\<open>+\<close> or \<^verbatim>\<open>-\<close> leads to state 14 or 10 and every shift of \<^verbatim>\<open>*\<close> or \<^verbatim>\<open>/\<close> to
  state 13 or 18 (or, for \<^verbatim>\<open>/\<close>, to the end of a comment); the right operand read there
  leads to the states 43 and 83 after an additive operator, where \<^verbatim>\<open>*\<close> and \<^verbatim>\<open>/\<close> are
  shifted and \<^verbatim>\<open>+\<close> and \<^verbatim>\<open>-\<close> reduce the binary expression, and to the states 41 and
  84 after a multiplicative operator, where all four reduce it.
\<close>

theorem C6_precedence_and_associativity:
  \<open>(p \<in> set ''+-*/'' \<and> q \<in> set ''+-*/'' \<longrightarrow>
     expression_grouping (''1 '' @ [p] @ '' 2 '' @ [q] @ '' 3'') =
       [if additive p \<and> multiplicative q then ''(1'' @ [p] @ ''(2'' @ [q] @ ''3))''
        else ''((1'' @ [p] @ ''2)'' @ [q] @ ''3)'']) \<and>
   map (\<lambda>input. map (\<lambda>node. map grouping (ts_node_children_by_field_name node ''value''))
       (parsed_nodes sym_attribute (ts_parser_parse input)))
     [''output "o" { v = 1 + 2 * 3 }'', ''output "o" { v = 1 * 2 + 3 }'',
      ''output "o" { v = 1 - 2 + 3 }'', ''output "o" { v = 1 / 2 * 3 }''] =
     [[[''(1+(2*3))'']], [[''((1*2)+3)'']], [[''((1-2)+3)'']], [[''((1/2)*3)'']]] \<and>
   operator_shifts state \<and>
   map (\<lambda>state. ts_language_next_state state sym__expression) [14, 10, 13, 18] =
     [43, 83, 41, 84] \<and>
   map (\<lambda>state. map (ts_language_actions state)
       [anon_sym_STAR, anon_sym_SLASH, anon_sym_PLUS, anon_sym_DASH]) [43, 83, 41, 84] =
     [[[SHIFT 13], [SHIFT 13], [REDUCE sym_binary_expression 3 0],
       [REDUCE sym_binary_expression 3 0]],
      [[SHIFT 18], [SHIFT 18], [REDUCE sym_binary_expression 3 0],
       [REDUCE sym_binary_expression 3 0]],
      [[REDUCE sym_binary_expression 3 0], [REDUCE sym_binary_expression 3 0],
       [REDUCE sym_binary_expression 3 0], [REDUCE sym_binary_expression 3 0]],
      [[REDUCE sym_binary_expression 3 0], [REDUCE sym_binary_expression 3 0],
       [REDUCE sym_binary_expression 3 0], [REDUCE sym_binary_expression 3 0]]]\<close>
proof -
  have tables:
    "map (\<lambda>state. ts_language_next_state state sym__expression) [14, 10, 13, 18] =
      [43, 83, 41, 84]"
    "map (\<lambda>state. map (ts_language_actions state)
       [anon_sym_STAR, anon_sym_SLASH, anon_sym_PLUS, anon_sym_DASH]) [43, 83, 41, 84] =
     [[[SHIFT 13], [SHIFT 13], [REDUCE sym_binary_expression 3 0],
       [REDUCE sym_binary_expression 3 0]],
      [[SHIFT 18], [SHIFT 18], [REDUCE sym_binary_expression 3 0],
       [REDUCE sym_binary_expression 3 0]],
      [[REDUCE sym_binary_expression 3 0], [REDUCE sym_binary_expression 3 0],
       [REDUCE sym_binary_expression 3 0], [REDUCE sym_binary_expression 3 0]],
      [[REDUCE sym_binary_expression 3 0], [REDUCE sym_binary_expression 3 0],
       [REDUCE sym_binary_expression 3 0], [REDUCE sym_binary_expression 3 0]]]"
    by (simp_all add: table_eval)
  have "expression_grouping (''1 '' @ [p] @ '' 2 '' @ [q] @ '' 3'') =
       [if additive p \<and> multiplicative q then ''(1'' @ [p] @ ''(2'' @ [q] @ ''3))''
        else ''((1'' @ [p] @ ''2)'' @ [q] @ ''3)'']"
    if "p \<in> set ''+-*/''" and "q \<in> set ''+-*/''"
  proof -
    from that(1) have p: "p = CHR ''+'' \<or> p = CHR ''-'' \<or> p = CHR ''*'' \<or> p = CHR ''/''"
      by auto
    from that(2) have q: "q = CHR ''+'' \<or> q = CHR ''-'' \<or> q = CHR ''*'' \<or> q = CHR ''/''"
      by auto
    from p q show ?thesis
      by (elim disjE)
        (simp_all add: additive_def multiplicative_def grouping_additive_multiplicative
          grouping_multiplicative_additive grouping_additive_additive
          grouping_multiplicative_multiplicative)
  qed
  with tables operator_shifts_all grouping_in_a_block show ?thesis by blast
qed

theorem C6_precedence_and_associativity_witness:
  "CHR ''+'' \<in> set ''+-*/'' \<and> CHR ''*'' \<in> set ''+-*/'' \<and>
   expression_grouping ''1 + 2 * 3'' = [''(1+(2*3))''] \<and>
   expression_grouping ''1 * 2 + 3'' = [''((1*2)+3)''] \<and>
   expression_grouping ''1 - 2 - 3'' = [''((1-2)-3)''] \<and>
   expression_grouping ''1 / 2 / 3'' = [''((1/2)/3)'']"
  using C6_precedence_and_associativity [of "CHR ''+''" "CHR ''*''"]
    C6_precedence_and_associativity [of "CHR ''*''" "CHR ''+''"]
    C6_precedence_and_associativity [of "CHR ''-''" "CHR ''-''"]
    C6_precedence_and_associativity [of "CHR ''/''" "CHR ''/''"]
  by (simp add: additive_def multiplicative_def)

subsection \<open>Number tokens\<close>

text \<open>
  C7. In the lex state 2, the lex state of every state where an expression may start:
  \<^verbatim>\<open>0x\<close> followed by one or more hexadecimal digits, up to a character that is not one or
  to the end of input, is one hexadecimal number token (\<^verbatim>\<open>aux_sym_number_token1\<close>); a bare
  \<^verbatim>\<open>0x\<close> with no hexadecimal digit after it is not: the token is the decimal number
  \<^verbatim>\<open>0\<close>, and the \<^verbatim>\<open>x\<close> is left. One or more digits are one decimal number token
  (\<^verbatim>\<open>aux_sym_number_token3\<close>) when no digit follows, no \<^verbatim>\<open>.\<close> with a digit, and, after a
  single \<^verbatim>\<open>0\<close>, no \<^verbatim>\<open>x\<close> with a hexadecimal digit; a \<^verbatim>\<open>0\<close> in front of further digits is
  part of the decimal number. Digits, a \<^verbatim>\<open>.\<close> and one or more digits are one fractional
  number token (\<^verbatim>\<open>aux_sym_number_token2\<close>). No exponent: an \<^verbatim>\<open>e\<close> or \<^verbatim>\<open>E\<close> after the
  digits ends the number. No sign: a text that starts with \<^verbatim>\<open>-\<close> or \<^verbatim>\<open>+\<close> has no token in
  the lex state 2, and in the lex state 0, where the parser looks next, its token is the
  operator alone.
\<close>

theorem C7_number_lexing:
  "(hex_digit h \<and> list_all hex_digit hs \<and> stops hex_digit rest \<longrightarrow>
      lex_token 2 (''0x'' @ h # hs @ rest) pos =
        Some (Leaf aux_sym_number_token1 [] (''0x'' @ h # hs), rest,
          pos + length (''0x'' @ h # hs))) \<and>
   (stops hex_digit rest \<longrightarrow>
      lex_token 2 (''0x'' @ rest) pos =
        Some (Leaf aux_sym_number_token3 [] ''0'', ''x'' @ rest, pos + 1)) \<and>
   (digit d \<and> list_all digit ds \<and> stops digit rest \<and> \<not> fraction_follows rest \<and>
    (d = CHR ''0'' \<and> ds = [] \<longrightarrow> \<not> hex_follows rest) \<longrightarrow>
      lex_token 2 (d # ds @ rest) pos =
        Some (Leaf aux_sym_number_token3 [] (d # ds), rest, pos + length (d # ds))) \<and>
   (digit d \<and> list_all digit ds \<and> digit f \<and> list_all digit fs \<and> stops digit rest \<longrightarrow>
      lex_token 2 (d # ds @ ''.'' @ f # fs @ rest) pos =
        Some (Leaf aux_sym_number_token2 [] (d # ds @ ''.'' @ f # fs), rest,
          pos + length (d # ds @ ''.'' @ f # fs))) \<and>
   (digit d \<and> list_all digit ds \<and> (e = CHR ''e'' \<or> e = CHR ''E'') \<longrightarrow>
      lex_token 2 (d # ds @ e # rest) pos =
        Some (Leaf aux_sym_number_token3 [] (d # ds), e # rest, pos + length (d # ds))) \<and>
   lex_token 2 (CHR ''-'' # rest) pos = None \<and>
   lex_token 2 (CHR ''+'' # rest) pos = None \<and>
   lex_token 0 (CHR ''-'' # rest) pos = Some (Leaf anon_sym_DASH [] ''-'', rest, pos + 1) \<and>
   lex_token 0 (CHR ''+'' # rest) pos = Some (Leaf anon_sym_PLUS [] ''+'', rest, pos + 1) \<and>
   (expression_start state \<longrightarrow> ts_lex_modes state = 2)"
proof -
  have bare: "lex_token 2 (''0x'' @ rest) pos =
      Some (Leaf aux_sym_number_token3 [] ''0'', ''x'' @ rest, pos + 1)"
    if "stops hex_digit rest"
  proof -
    have "\<not> hex_follows (CHR ''x'' # rest)" using that by (cases rest) simp_all
    moreover have "\<not> fraction_follows (CHR ''x'' # rest)" by (cases rest) simp_all
    ultimately have "lex_token 2 (CHR ''0'' # [] @ CHR ''x'' # rest) pos =
        Some (Leaf aux_sym_number_token3 [] (CHR ''0'' # []), CHR ''x'' # rest,
          pos + length (CHR ''0'' # []))"
      by (intro decimal_token) (simp_all add: digit_def not_a_digit)
    then show ?thesis by simp
  qed
  have exponent: "lex_token 2 (d # ds @ e # rest) pos =
      Some (Leaf aux_sym_number_token3 [] (d # ds), e # rest, pos + length (d # ds))"
    if "digit d" "list_all digit ds" "e = CHR ''e'' \<or> e = CHR ''E''"
  proof -
    from that(3) have "\<not> digit e" "\<not> fraction_follows (e # rest)" "\<not> hex_follows (e # rest)"
      by (cases rest; auto simp add: digit_def)+
    with that(1,2) show ?thesis by (intro decimal_token) simp_all
  qed
  from hex_token [of h hs rest pos] bare decimal_token [of d ds rest pos]
    fraction_token [of d ds f fs rest pos] exponent no_sign [of rest pos]
    expression_start_actions [of state]
  show ?thesis by blast
qed

theorem C7_number_lexing_witness:
  "hex_digit (CHR ''1'') \<and> list_all hex_digit ''F'' \<and> stops hex_digit '' }'' \<and>
   lex_token 2 ''0x1F }'' 17 = Some (Leaf aux_sym_number_token1 [] ''0x1F'', '' }'', 21) \<and>
   stops hex_digit ''g'' \<and>
   lex_token 2 ''0xg'' 0 = Some (Leaf aux_sym_number_token3 [] ''0'', ''xg'', 1) \<and>
   digit (CHR ''0'') \<and> list_all digit ''07'' \<and> stops digit [] \<and> \<not> fraction_follows [] \<and>
   lex_token 2 ''007'' 0 = Some (Leaf aux_sym_number_token3 [] ''007'', [], 3) \<and>
   digit (CHR ''1'') \<and> list_all digit [] \<and> digit (CHR ''5'') \<and> stops digit ''.2'' \<and>
   lex_token 2 ''1.5.2'' 0 = Some (Leaf aux_sym_number_token2 [] ''1.5'', ''.2'', 3) \<and>
   lex_token 2 ''1e5'' 0 = Some (Leaf aux_sym_number_token3 [] ''1'', ''e5'', 1) \<and>
   lex_token 2 ''-5'' 0 = None \<and>
   lex_token 0 ''-5'' 0 = Some (Leaf anon_sym_DASH [] ''-'', ''5'', 1) \<and>
   expression_start 19 \<and> ts_lex_modes 19 = 2"
  using C7_number_lexing [of "CHR ''1''" "''F''" "'' }''" 17 "CHR ''0''" "[]" "CHR ''0''" "[]" "CHR ''e''" 19]
    C7_number_lexing [of "CHR ''1''" "[]" "''g''" 0 "CHR ''0''" "[]" "CHR ''0''" "[]" "CHR ''e''" 19]
    C7_number_lexing [of "CHR ''1''" "[]" "[]" 0 "CHR ''0''" "''07''" "CHR ''0''" "[]" "CHR ''e''" 19]
    C7_number_lexing [of "CHR ''1''" "[]" "''.2''" 0 "CHR ''1''" "[]" "CHR ''5''" "[]" "CHR ''e''" 19]
    C7_number_lexing [of "CHR ''1''" "[]" "''5''" 0 "CHR ''1''" "[]" "CHR ''5''" "[]" "CHR ''e''" 19]
  by (simp add: digit_def hex_digit_def expression_start_def table_eval)

subsection \<open>No unary minus, no parenthesised grouping\<close>











subsection \<open>Buffers without statements\<close>







end
